theory Spec2Isabelle
  imports Main "HOL-Library.Multiset"
begin

section \<open>Data model\<close>

text \<open>
  The Kubernetes API objects read by \<^verbatim>\<open>go-controller/pkg/ovn/endpoints.go\<close>, with the fields
  the file reads. \<^verbatim>\<open>kapi.Protocol\<close> is a Go string type: besides the three named constants it
  can hold any other string. Ports are \<^verbatim>\<open>int32\<close>; the file never does arithmetic on them, so
  they are integers here. A Go error is a message; \<^verbatim>\<open>nil\<close> is \<open>None\<close>.
\<close>

type_synonym error = string

datatype Protocol = ProtocolTCP | ProtocolUDP | ProtocolSCTP | ProtocolOther string

record lbEndpoints =
  lb_IPs :: "string list"
  lb_Port :: int

record EndpointAddress =
  ea_IP :: string

record EndpointPort =
  epp_Name :: string
  epp_Port :: int
  epp_Protocol :: Protocol

record EndpointSubset =
  Addresses :: "EndpointAddress list"
  Ports :: "EndpointPort list"

record Endpoints =
  ep_Name :: string
  ep_Namespace :: string
  Subsets :: "EndpointSubset list"

record ServicePort =
  sp_Name :: string
  sp_Protocol :: Protocol
  sp_Port :: int
  sp_NodePort :: int

record LoadBalancerIngress =
  ing_IP :: string

record Service =
  svc_Name :: string
  svc_Namespace :: string
  svc_Annotations :: "(string \<times> string) list"
  svc_Type :: string
  svc_ClusterIP :: string
  svc_Ports :: "ServicePort list"
  svc_ExternalIPs :: "string list"
  svc_Ingress :: "LoadBalancerIngress list"

record Namespace =
  ns_Name :: string

record Node =
  node_Name :: string

text \<open>\<^verbatim>\<open>net.IP\<close> and \<^verbatim>\<open>net.IPNet\<close>: byte sequences. \<^verbatim>\<open>net.ParseIP\<close> returns \<^verbatim>\<open>nil\<close>
  (\<open>None\<close>) for text that is not an address.\<close>

type_synonym IP = "nat list"

record IPNet =
  net_IP :: IP
  net_Mask :: "nat list"

record CIDRNetworkEntry =
  CIDR :: IPNet
  HostSubnetLength :: nat

datatype GatewayMode = GatewayModeShared | GatewayModeLocal | GatewayModeDisabled

text \<open>
  The process-wide configuration (\<^verbatim>\<open>config.Default\<close>, \<^verbatim>\<open>config.Gateway\<close>,
  \<^verbatim>\<open>config.Kubernetes\<close>), the constants \<^verbatim>\<open>IdledServiceAnnotationSuffix\<close> and
  \<^verbatim>\<open>types.GWRouterPrefix\<close>, and the pure helpers the file calls whose code lives in other
  packages (\<^verbatim>\<open>util\<close>, \<^verbatim>\<open>net\<close>): they are parameters of the model.
\<close>

record Config =
  ClusterSubnets :: "CIDRNetworkEntry list"
  Gateway_Mode :: GatewayMode
  OVNEmptyLbEvents :: bool
  IdledServiceAnnotationSuffix :: string
  GWRouterPrefix :: string
  isGatewayInterfaceNone :: bool
  ParseIP :: "string \<Rightarrow> IP option"
  Contains :: "IPNet \<Rightarrow> IP option \<Rightarrow> bool"
  ValidatePort :: "Protocol \<Rightarrow> int \<Rightarrow> bool"
  IsClusterIPSet :: "Service \<Rightarrow> bool"
  ServiceTypeHasNodePort :: "Service \<Rightarrow> bool"
  ServiceTypeHasClusterIP :: "Service \<Rightarrow> bool"
  JoinHostPortInt32 :: "string \<Rightarrow> int \<Rightarrow> string"
  GetWorkerFromGatewayRouter :: "string \<Rightarrow> string"

section \<open>Collaborator calls and the trace\<close>

text \<open>
  Every call the file makes to the load-balancer side of the controller, with its arguments.
  A \<^verbatim>\<open>nil\<close> slice argument is \<open>[]\<close> (the file passes either \<^verbatim>\<open>nil\<close> or a non-empty slice).
\<close>

datatype call =
    CallAddServiceToIdlingBalancer Service
  | CallDeleteServiceFromBalancers Service
  | CallDeleteServiceFromIdlingBalancer Service
  | CallCreatePerNodeVIPs "string list" Protocol int "string list" int
  | CallGetLoadBalancer Protocol
  | CallDeleteLoadBalancerVIP string string
  | CallCreateLoadBalancerVIPs string "string list" int "string list" int
  | CallDeleteNodeVIPs "string list" Protocol int
  | CallGetOvnGateways
  | CallConfigureLoadBalancer string string int "string list"
  | CallGetGatewayLoadBalancer string Protocol
  | CallGetWorkerLoadBalancer string Protocol
  | CallGetGatewayPhysicalIPs string
  | CallRequestFullSync

text \<open>The trace: calls issued and error-level log lines (the format string of the
  \<^verbatim>\<open>klog.Errorf\<close> site; \<^verbatim>\<open>klog.Error(err)\<close> is \<open>''%v''\<close>), oldest first.\<close>

datatype event = Op call | LogError string

type_synonym history = "event list"

text \<open>
  The controller: its two fields read by the file and the answers of its collaborators.
  An answer may depend on everything issued so far, so each takes the trace at the moment
  of the call. \<open>callErr\<close> is the error returned by a call that returns only an error.
  A Go pair \<^verbatim>\<open>(v, err)\<close> whose value is unused when \<^verbatim>\<open>err != nil\<close> is a sum; the others
  are pairs.
\<close>

record Controller =
  SCTPSupport :: bool
  svcController :: bool
  GetService :: "history \<Rightarrow> string \<Rightarrow> string \<Rightarrow> Service option"
  GetNamespaces :: "history \<Rightarrow> error + Namespace list"
  GetEndpoints :: "history \<Rightarrow> string \<Rightarrow> error + Endpoints list"
  callErr :: "history \<Rightarrow> call \<Rightarrow> error option"
  getLoadBalancer :: "history \<Rightarrow> Protocol \<Rightarrow> error + string"
  getOvnGateways :: "history \<Rightarrow> string list \<times> error option"
  getGatewayLoadBalancer :: "history \<Rightarrow> string \<Rightarrow> Protocol \<Rightarrow> error + string"
  GetWorkerLoadBalancer :: "history \<Rightarrow> string \<Rightarrow> Protocol \<Rightarrow> error + string"
  getGatewayPhysicalIPs :: "history \<Rightarrow> string \<Rightarrow> string list option \<times> error option"

definition doCall :: "Controller \<Rightarrow> call \<Rightarrow> history \<Rightarrow> error option \<times> history" where
  "doCall ovn c h = (callErr ovn h c, h @ [Op c])"

text \<open>A call whose error is only logged: the call, then the log line if it failed.\<close>

definition callLogged :: "Controller \<Rightarrow> call \<Rightarrow> string \<Rightarrow> history \<Rightarrow> history" where
  "callLogged ovn c msg h =
     (case doCall ovn c h of
        (None, h1) \<Rightarrow> h1
      | (Some err, h1) \<Rightarrow> h1 @ [LogError msg])"

text \<open>A \<^verbatim>\<open>range\<close> loop whose body may panic (\<open>None\<close>): the panic ends the loop.\<close>

fun forEach :: "('a \<Rightarrow> 's \<Rightarrow> 's option) \<Rightarrow> 'a list \<Rightarrow> 's \<Rightarrow> 's option" where
  "forEach f [] s = Some s"
| "forEach f (x # xs) s = (case f x s of None \<Rightarrow> None | Some s' \<Rightarrow> forEach f xs s')"

section \<open>getLbEndpoints\<close>

text \<open>
  \<^verbatim>\<open>map[kapi.Protocol]map[string]lbEndpoints\<close>: an outer key is present or not; reading
  through an absent outer key gives "not found", writing through it panics
  (assignment to an entry of a nil map).
\<close>

type_synonym protoPortMap = "Protocol \<Rightarrow> (string \<rightharpoonup> lbEndpoints) option"

definition emptyProtoPortMap :: protoPortMap where
  "emptyProtoPortMap =
     (\<lambda>p. case p of
        ProtocolTCP \<Rightarrow> Some Map.empty
      | ProtocolUDP \<Rightarrow> Some Map.empty
      | ProtocolSCTP \<Rightarrow> Some Map.empty
      | ProtocolOther s \<Rightarrow> None)"

definition lookupLbEndpoints :: "protoPortMap \<Rightarrow> Protocol \<Rightarrow> string \<Rightarrow> lbEndpoints option" where
  "lookupLbEndpoints m p n = (case m p of None \<Rightarrow> None | Some inner \<Rightarrow> inner n)"

definition storeLbEndpoints ::
  "protoPortMap \<Rightarrow> Protocol \<Rightarrow> string \<Rightarrow> lbEndpoints \<Rightarrow> protoPortMap option" where
  "storeLbEndpoints m p n v =
     (case m p of None \<Rightarrow> None | Some inner \<Rightarrow> Some (m(p := Some (inner(n \<mapsto> v)))))"

text \<open>The body of the innermost loop, for one address and one port.\<close>

definition getLbEndpointsPort ::
  "Config \<Rightarrow> EndpointAddress \<Rightarrow> EndpointPort \<Rightarrow> protoPortMap \<times> history
     \<Rightarrow> (protoPortMap \<times> history) option" where
  "getLbEndpointsPort cfg ip port st =
     (case st of (m, h) \<Rightarrow>
        if \<not> ValidatePort cfg (epp_Protocol port) (epp_Port port)
        then Some (m, h @ [LogError ''Invalid endpoint port: %s: %v''])
        else
          let ips = (case lookupLbEndpoints m (epp_Protocol port) (epp_Name port) of
                       Some lbEps \<Rightarrow> lb_IPs lbEps @ [ea_IP ip]
                     | None \<Rightarrow> [ea_IP ip])
          in (case storeLbEndpoints m (epp_Protocol port) (epp_Name port)
                     \<lparr>lb_IPs = ips, lb_Port = epp_Port port\<rparr> of
                None \<Rightarrow> None
              | Some m' \<Rightarrow> Some (m', h)))"

definition getLbEndpoints ::
  "Config \<Rightarrow> Endpoints \<Rightarrow> history \<Rightarrow> (protoPortMap \<times> history) option" where
  "getLbEndpoints cfg ep h =
     forEach (\<lambda>s. forEach (\<lambda>ip. forEach (getLbEndpointsPort cfg ip) (Ports s)) (Addresses s))
       (Subsets ep) (emptyProtoPortMap, h)"

section \<open>hasHostEndpoints and svcNeedsIdling\<close>

text \<open>The inner loop of \<^verbatim>\<open>hasHostEndpoints\<close>: the value of \<^verbatim>\<open>found\<close> when it ends.\<close>

fun foundInClusterSubnets :: "Config \<Rightarrow> IP option \<Rightarrow> CIDRNetworkEntry list \<Rightarrow> bool" where
  "foundInClusterSubnets cfg ip [] = False"
| "foundInClusterSubnets cfg ip (clusterNet # rest) =
     (if Contains cfg (CIDR clusterNet) ip then True else foundInClusterSubnets cfg ip rest)"

fun hasHostEndpoints :: "Config \<Rightarrow> string list \<Rightarrow> bool" where
  "hasHostEndpoints cfg [] = False"
| "hasHostEndpoints cfg (endpointIP # rest) =
     (if \<not> foundInClusterSubnets cfg (ParseIP cfg endpointIP) (ClusterSubnets cfg)
      then True else hasHostEndpoints cfg rest)"

text \<open>\<^verbatim>\<open>strings.HasSuffix\<close>.\<close>

definition HasSuffix :: "string \<Rightarrow> string \<Rightarrow> bool" where
  "HasSuffix s suffix =
     (length suffix \<le> length s \<and> drop (length s - length suffix) s = suffix)"

fun anyIdledKey :: "Config \<Rightarrow> (string \<times> string) list \<Rightarrow> bool" where
  "anyIdledKey cfg [] = False"
| "anyIdledKey cfg ((annotationKey, v) # rest) =
     (if HasSuffix annotationKey (IdledServiceAnnotationSuffix cfg) then True
      else anyIdledKey cfg rest)"

definition svcNeedsIdling :: "Config \<Rightarrow> (string \<times> string) list \<Rightarrow> bool" where
  "svcNeedsIdling cfg annotations =
     (if \<not> OVNEmptyLbEvents cfg then False else anyIdledKey cfg annotations)"

section \<open>AddEndpoints\<close>

text \<open>
  The body of the loop over \<^verbatim>\<open>svc.Spec.Ports\<close> is cut into its steps. A step returns the
  new trace and whether the body goes on (\<open>False\<close>: the step ended in \<^verbatim>\<open>continue\<close>).
\<close>

text \<open>Lines 88-93: the node-port VIPs.\<close>

definition addNodePortVIPs ::
  "Config \<Rightarrow> Controller \<Rightarrow> Service \<Rightarrow> ServicePort \<Rightarrow> lbEndpoints \<Rightarrow> history
     \<Rightarrow> bool \<times> history" where
  "addNodePortVIPs cfg ovn svc svcPort lbEps h =
     (if ServiceTypeHasNodePort cfg svc then
        (case doCall ovn (CallCreatePerNodeVIPs [] (sp_Protocol svcPort) (sp_NodePort svcPort)
                            (lb_IPs lbEps) (lb_Port lbEps)) h of
           (Some err, h1) \<Rightarrow>
             (False, h1 @ [LogError ''Error in creating Node Port for svc %s, node port: %d - %v''])
         | (None, h1) \<Rightarrow> (True, h1))
      else (True, h))"

text \<open>Lines 104-123: which tier carries the VIP of the cluster address.\<close>

definition addClusterIPVIP ::
  "Config \<Rightarrow> Controller \<Rightarrow> Service \<Rightarrow> ServicePort \<Rightarrow> lbEndpoints \<Rightarrow> string \<Rightarrow> bool
     \<Rightarrow> history \<Rightarrow> bool \<times> history" where
  "addClusterIPVIP cfg ovn svc svcPort lbEps loadBalancer addClusterLBs h =
     (if hasHostEndpoints cfg (lb_IPs lbEps) \<and> Gateway_Mode cfg = GatewayModeShared then
        (case doCall ovn (CallCreatePerNodeVIPs [svc_ClusterIP svc] (sp_Protocol svcPort)
                            (sp_Port svcPort) (lb_IPs lbEps) (lb_Port lbEps)) h of
           (Some err, h1) \<Rightarrow>
             (False, h1 @ [LogError ''Error in creating Cluster IP for svc %s, target port: %d - %v''])
         | (None, h1) \<Rightarrow>
             (True, callLogged ovn
                      (CallDeleteLoadBalancerVIP loadBalancer
                         (JoinHostPortInt32 cfg (svc_ClusterIP svc) (sp_Port svcPort)))
                      ''%v'' h1))
      else if addClusterLBs then
        (case doCall ovn (CallCreateLoadBalancerVIPs loadBalancer [svc_ClusterIP svc]
                            (sp_Port svcPort) (lb_IPs lbEps) (lb_Port lbEps)) h of
           (Some err, h1) \<Rightarrow>
             (False, h1 @ [LogError ''Error in creating Cluster IP for svc %s, target port: %d - %v''])
         | (None, h1) \<Rightarrow>
             (True, h1 @ [Op (CallDeleteNodeVIPs [svc_ClusterIP svc] (sp_Protocol svcPort)
                                (sp_Port svcPort))]))
      else (True, h))"

text \<open>Lines 124-128: the external IPs.\<close>

definition addExternalIPVIPs ::
  "Controller \<Rightarrow> Service \<Rightarrow> ServicePort \<Rightarrow> lbEndpoints \<Rightarrow> history \<Rightarrow> history" where
  "addExternalIPVIPs ovn svc svcPort lbEps h =
     (if length (svc_ExternalIPs svc) > 0 then
        callLogged ovn
          (CallCreatePerNodeVIPs (svc_ExternalIPs svc) (sp_Protocol svcPort) (sp_Port svcPort)
             (lb_IPs lbEps) (lb_Port lbEps))
          ''Error in creating ExternalIP for svc %s, target port: %d - %v'' h
      else h)"

text \<open>Lines 131-138: the ingress addresses of the cloud load balancer.\<close>

definition addIngressVIP ::
  "Controller \<Rightarrow> ServicePort \<Rightarrow> lbEndpoints \<Rightarrow> LoadBalancerIngress \<Rightarrow> history \<Rightarrow> history" where
  "addIngressVIP ovn svcPort lbEps ing h =
     (if ing_IP ing = [] then h
      else callLogged ovn
             (CallCreatePerNodeVIPs [ing_IP ing] (sp_Protocol svcPort) (sp_Port svcPort)
                (lb_IPs lbEps) (lb_Port lbEps))
             ''Error in creating Ingress LB IP for svc %s, target port: %d - %v'' h)"

text \<open>Lines 95-139: the block for a service type with a cluster IP.\<close>

definition addClusterIPBlock ::
  "Config \<Rightarrow> Controller \<Rightarrow> Service \<Rightarrow> ServicePort \<Rightarrow> lbEndpoints \<Rightarrow> bool \<Rightarrow> history
     \<Rightarrow> history" where
  "addClusterIPBlock cfg ovn svc svcPort lbEps addClusterLBs h =
     (case getLoadBalancer ovn h (sp_Protocol svcPort) of
        Inl err \<Rightarrow>
          h @ [Op (CallGetLoadBalancer (sp_Protocol svcPort)),
               LogError ''Failed to get load balancer for %s (%v)'']
      | Inr loadBalancer \<Rightarrow>
          (case addClusterIPVIP cfg ovn svc svcPort lbEps loadBalancer addClusterLBs
                  (h @ [Op (CallGetLoadBalancer (sp_Protocol svcPort))]) of
             (False, h1) \<Rightarrow> h1
           | (True, h1) \<Rightarrow>
               fold (addIngressVIP ovn svcPort lbEps) (svc_Ingress svc)
                 (addExternalIPVIPs ovn svc svcPort lbEps h1)))"

text \<open>Lines 78-140: the body of the loop, for one service port.\<close>

definition addEndpointsPort ::
  "Config \<Rightarrow> Controller \<Rightarrow> Service \<Rightarrow> bool \<Rightarrow> protoPortMap \<Rightarrow> ServicePort \<Rightarrow> history
     \<Rightarrow> history" where
  "addEndpointsPort cfg ovn svc addClusterLBs m svcPort h =
     (case lookupLbEndpoints m (sp_Protocol svcPort) (sp_Name svcPort) of
        None \<Rightarrow> h
      | Some lbEps \<Rightarrow>
          if \<not> SCTPSupport ovn \<and> sp_Protocol svcPort = ProtocolSCTP
          then h @ [LogError ''Rejecting endpoint creation for unsupported SCTP protocol: %s, %s'']
          else
            (case addNodePortVIPs cfg ovn svc svcPort lbEps h of
               (False, h1) \<Rightarrow> h1
             | (True, h1) \<Rightarrow>
                 if ServiceTypeHasClusterIP cfg svc
                 then addClusterIPBlock cfg ovn svc svcPort lbEps addClusterLBs h1
                 else h1))"

text \<open>
  \<^verbatim>\<open>AddEndpoints\<close>: the returned error and the trace, or \<open>None\<close> when the aggregation
  panicked.
\<close>

definition AddEndpoints ::
  "Config \<Rightarrow> Controller \<Rightarrow> Endpoints \<Rightarrow> bool \<Rightarrow> history \<Rightarrow> (error option \<times> history) option" where
  "AddEndpoints cfg ovn ep addClusterLBs h =
     (case GetService ovn h (ep_Namespace ep) (ep_Name ep) of
        None \<Rightarrow> Some (None, h)
      | Some svc \<Rightarrow>
          if \<not> IsClusterIPSet cfg svc then Some (None, h)
          else
            (case getLbEndpoints cfg ep h of
               None \<Rightarrow> None
             | Some (m, h1) \<Rightarrow>
                 if svcNeedsIdling cfg (svc_Annotations svc) \<and> length (Subsets ep) = 0
                 then Some (None, h1 @ [Op (CallAddServiceToIdlingBalancer svc),
                                        Op (CallDeleteServiceFromBalancers svc)])
                 else Some (None,
                        fold (addEndpointsPort cfg ovn svc addClusterLBs m) (svc_Ports svc)
                          (h1 @ [Op (CallDeleteServiceFromIdlingBalancer svc)]))))"

section \<open>handleNodePortLB\<close>

text \<open>
  The legacy loops of lines 171-184, over the function called for each Endpoints object
  (the controller's own \<^verbatim>\<open>AddEndpoints\<close> in \<open>handleNodePortLB\<close> below). The flag passed
  is the literal \<^verbatim>\<open>false\<close> of line 178.
\<close>

type_synonym addFn = "Endpoints \<Rightarrow> bool \<Rightarrow> history \<Rightarrow> (error option \<times> history) option"

fun addEndpointsOfNamespace ::
  "addFn \<Rightarrow> Endpoints list \<Rightarrow> history \<Rightarrow> (error option \<times> history) option" where
  "addEndpointsOfNamespace add [] h = Some (None, h)"
| "addEndpointsOfNamespace add (ep # eps) h =
     (case add ep False h of
        None \<Rightarrow> None
      | Some (Some err, h1) \<Rightarrow>
          Some (Some ''unable to handle adding endpoints for new node: %s, error: %v'', h1)
      | Some (None, h1) \<Rightarrow> addEndpointsOfNamespace add eps h1)"

fun addEndpointsOfNamespaces ::
  "addFn \<Rightarrow> Controller \<Rightarrow> Namespace list \<Rightarrow> history \<Rightarrow> (error option \<times> history) option" where
  "addEndpointsOfNamespaces add ovn [] h = Some (None, h)"
| "addEndpointsOfNamespaces add ovn (ns # nss) h =
     (case GetEndpoints ovn h (ns_Name ns) of
        Inl err \<Rightarrow>
          addEndpointsOfNamespaces add ovn nss (h @ [LogError ''Failed to get k8s endpoints: %v''])
      | Inr endpoints \<Rightarrow>
          (case addEndpointsOfNamespace add endpoints h of
             None \<Rightarrow> None
           | Some (Some err, h1) \<Rightarrow> Some (Some err, h1)
           | Some (None, h1) \<Rightarrow> addEndpointsOfNamespaces add ovn nss h1))"

text \<open>Lines 156-185: after the check of the gateway's physical IPs.\<close>

definition resyncServices ::
  "addFn \<Rightarrow> Controller \<Rightarrow> history \<Rightarrow> (error option \<times> history) option" where
  "resyncServices add ovn h =
     (if svcController ovn then Some (doCall ovn CallRequestFullSync h)
      else
        (case GetNamespaces ovn h of
           Inl err \<Rightarrow> Some (Some ''failed to get k8s namespaces: %v'', h)
         | Inr namespaces \<Rightarrow> addEndpointsOfNamespaces add ovn namespaces h))"

definition handleNodePortLBWith ::
  "addFn \<Rightarrow> Config \<Rightarrow> Controller \<Rightarrow> Node \<Rightarrow> history \<Rightarrow> (error option \<times> history) option" where
  "handleNodePortLBWith add cfg ovn node h =
     (let gatewayRouter = GWRouterPrefix cfg @ node_Name node in
      if \<not> isGatewayInterfaceNone cfg then
        (case getGatewayPhysicalIPs ovn h gatewayRouter of
           (None, err) \<Rightarrow>
             Some (Some ''gateway physical IP for node %q does not yet exist'',
                   h @ [Op (CallGetGatewayPhysicalIPs gatewayRouter)])
         | (Some physicalIPs, err) \<Rightarrow>
             resyncServices add ovn (h @ [Op (CallGetGatewayPhysicalIPs gatewayRouter)]))
      else resyncServices add ovn h)"

definition handleNodePortLB ::
  "Config \<Rightarrow> Controller \<Rightarrow> Node \<Rightarrow> history \<Rightarrow> (error option \<times> history) option" where
  "handleNodePortLB cfg ovn node h = handleNodePortLBWith (AddEndpoints cfg ovn) cfg ovn node h"

section \<open>deleteEndpoints\<close>

text \<open>\<^verbatim>\<open>configureLoadBalancer(lb, ip, port, nil)\<close> with its error logged.\<close>

definition clearVIP :: "Controller \<Rightarrow> string \<Rightarrow> string \<Rightarrow> int \<Rightarrow> history \<Rightarrow> history" where
  "clearVIP ovn lb ip port h =
     callLogged ovn (CallConfigureLoadBalancer lb ip port [])
       ''Error in configuring loadbalancer for lb %s - %s - %d: %v'' h"

text \<open>Lines 253-265, the body for one ingress address.\<close>

definition deleteIngressVIP ::
  "Controller \<Rightarrow> ServicePort \<Rightarrow> string \<Rightarrow> string \<Rightarrow> LoadBalancerIngress \<Rightarrow> history \<Rightarrow> history" where
  "deleteIngressVIP ovn svcPort gatewayLB workerLB ing h =
     (if ing_IP ing = [] then h
      else clearVIP ovn workerLB (ing_IP ing) (sp_Port svcPort)
             (clearVIP ovn gatewayLB (ing_IP ing) (sp_Port svcPort) h))"

text \<open>Lines 273-282, the body for one physical IP.\<close>

definition deleteNodePortVIP ::
  "Controller \<Rightarrow> ServicePort \<Rightarrow> string \<Rightarrow> string \<Rightarrow> string \<Rightarrow> history \<Rightarrow> history" where
  "deleteNodePortVIP ovn svcPort gatewayLB workerLB physicalIP h =
     clearVIP ovn workerLB physicalIP (sp_NodePort svcPort)
       (clearVIP ovn gatewayLB physicalIP (sp_NodePort svcPort) h)"

text \<open>Lines 285-294, the body for one external IP.\<close>

definition deleteExternalIPVIP ::
  "Controller \<Rightarrow> ServicePort \<Rightarrow> string \<Rightarrow> string \<Rightarrow> string \<Rightarrow> history \<Rightarrow> history" where
  "deleteExternalIPVIP ovn svcPort gatewayLB workerLB extIP h =
     clearVIP ovn workerLB extIP (sp_NodePort svcPort)
       (clearVIP ovn gatewayLB extIP (sp_Port svcPort) h)"

text \<open>Lines 266-294: node-port and external-IP VIPs of one gateway.\<close>

definition deleteNodePortAndExternal ::
  "Config \<Rightarrow> Controller \<Rightarrow> Service \<Rightarrow> ServicePort \<Rightarrow> string \<Rightarrow> string \<Rightarrow> string \<Rightarrow> history
     \<Rightarrow> history" where
  "deleteNodePortAndExternal cfg ovn svc svcPort gateway gatewayLB workerLB h =
     (if ServiceTypeHasNodePort cfg svc then
        (case getGatewayPhysicalIPs ovn h gateway of
           (physicalIPs, Some err) \<Rightarrow>
             h @ [Op (CallGetGatewayPhysicalIPs gateway),
                  LogError ''Gateway router %s does not have physical ip (%v)'']
         | (physicalIPs, None) \<Rightarrow>
             fold (deleteExternalIPVIP ovn svcPort gatewayLB workerLB) (svc_ExternalIPs svc)
               (fold (deleteNodePortVIP ovn svcPort gatewayLB workerLB)
                  (case physicalIPs of None \<Rightarrow> [] | Some ips \<Rightarrow> ips)
                  (h @ [Op (CallGetGatewayPhysicalIPs gateway)])))
      else fold (deleteExternalIPVIP ovn svcPort gatewayLB workerLB) (svc_ExternalIPs svc) h)"

text \<open>Lines 226-295: the body of the loop over the gateways.\<close>

definition deleteEndpointsGateway ::
  "Config \<Rightarrow> Controller \<Rightarrow> Service \<Rightarrow> ServicePort \<Rightarrow> string \<Rightarrow> history \<Rightarrow> history" where
  "deleteEndpointsGateway cfg ovn svc svcPort gateway h =
     (case getGatewayLoadBalancer ovn h gateway (sp_Protocol svcPort) of
        Inl err \<Rightarrow>
          h @ [Op (CallGetGatewayLoadBalancer gateway (sp_Protocol svcPort)),
               LogError ''Gateway router %s does not have load balancer (%v)'']
      | Inr gatewayLB \<Rightarrow>
          (let h1 = h @ [Op (CallGetGatewayLoadBalancer gateway (sp_Protocol svcPort))];
               h2 = (if Gateway_Mode cfg = GatewayModeShared
                     then clearVIP ovn gatewayLB (svc_ClusterIP svc) (sp_Port svcPort) h1
                     else h1);
               workerNode = GetWorkerFromGatewayRouter cfg gateway
           in (case GetWorkerLoadBalancer ovn h2 workerNode (sp_Protocol svcPort) of
                 Inl err \<Rightarrow>
                   h2 @ [Op (CallGetWorkerLoadBalancer workerNode (sp_Protocol svcPort)),
                         LogError ''Worker switch %s does not have load balancer (%v)'']
               | Inr workerLB \<Rightarrow>
                   (let h3 = h2 @ [Op (CallGetWorkerLoadBalancer workerNode (sp_Protocol svcPort))];
                        h4 = (if Gateway_Mode cfg = GatewayModeShared
                              then clearVIP ovn workerLB (svc_ClusterIP svc) (sp_Port svcPort) h3
                              else h3);
                        h5 = fold (deleteIngressVIP ovn svcPort gatewayLB workerLB)
                               (svc_Ingress svc) h4
                    in deleteNodePortAndExternal cfg ovn svc svcPort gateway gatewayLB workerLB
                         h5))))"

text \<open>Lines 214-296: the body of the loop over the service ports.\<close>

definition deleteEndpointsPort ::
  "Config \<Rightarrow> Controller \<Rightarrow> Service \<Rightarrow> string list \<Rightarrow> ServicePort \<Rightarrow> history \<Rightarrow> history" where
  "deleteEndpointsPort cfg ovn svc gateways svcPort h =
     (case getLoadBalancer ovn h (sp_Protocol svcPort) of
        Inl err \<Rightarrow>
          h @ [Op (CallGetLoadBalancer (sp_Protocol svcPort)),
               LogError ''Failed to get load balancer for %s (%v)'']
      | Inr clusterLB \<Rightarrow>
          fold (deleteEndpointsGateway cfg ovn svc svcPort) gateways
            (clearVIP ovn clusterLB (svc_ClusterIP svc) (sp_Port svcPort)
               (h @ [Op (CallGetLoadBalancer (sp_Protocol svcPort))])))"

definition deleteEndpoints ::
  "Config \<Rightarrow> Controller \<Rightarrow> Endpoints \<Rightarrow> history \<Rightarrow> error option \<times> history" where
  "deleteEndpoints cfg ovn ep h =
     (case GetService ovn h (ep_Namespace ep) (ep_Name ep) of
        None \<Rightarrow> (None, h)
      | Some svc \<Rightarrow>
          if \<not> IsClusterIPSet cfg svc then (None, h)
          else if svcNeedsIdling cfg (svc_Annotations svc)
          then (None, h @ [Op (CallAddServiceToIdlingBalancer svc),
                           Op (CallDeleteServiceFromBalancers svc)])
          else
            (let h1 = h @ [Op (CallDeleteServiceFromIdlingBalancer svc)];
                 (gateways, err) = getOvnGateways ovn h1;
                 h2 = (case err of None \<Rightarrow> h1 @ [Op CallGetOvnGateways]
                       | Some e \<Rightarrow> h1 @ [Op CallGetOvnGateways, LogError ''%v''])
             in (None, fold (deleteEndpointsPort cfg ovn svc gateways) (svc_Ports svc) h2)))"

section \<open>What the specification says of the aggregation\<close>

text \<open>
  The addresses of the subsets that declare the pair (protocol, port name) with a valid
  port, in the order of the object: one occurrence for each address and each port entry
  of its subset that declares the pair.
\<close>

definition declaresPair :: "Config \<Rightarrow> Protocol \<Rightarrow> string \<Rightarrow> EndpointPort \<Rightarrow> bool" where
  "declaresPair cfg p n port =
     (ValidatePort cfg (epp_Protocol port) (epp_Port port) \<and> epp_Protocol port = p
      \<and> epp_Name port = n)"

definition declaredAddresses :: "Config \<Rightarrow> Endpoints \<Rightarrow> Protocol \<Rightarrow> string \<Rightarrow> string list" where
  "declaredAddresses cfg ep p n =
     concat (map (\<lambda>s. concat (map (\<lambda>ip. map (\<lambda>port. ea_IP ip)
                                          (filter (declaresPair cfg p n) (Ports s)))
                                (Addresses s)))
               (Subsets ep))"

text \<open>The addresses stored under a key (none when the key is absent), the shape every
  table built by the aggregation has, and the only log line it writes.\<close>

definition ipsOf :: "protoPortMap \<Rightarrow> Protocol \<Rightarrow> string \<Rightarrow> string list" where
  "ipsOf m p n = (case lookupLbEndpoints m p n of None \<Rightarrow> [] | Some e \<Rightarrow> lb_IPs e)"

definition tableOk :: "protoPortMap \<Rightarrow> bool" where
  "tableOk m =
     ((\<forall>p. m p = None \<longleftrightarrow> (\<exists>s. p = ProtocolOther s))
      \<and> (\<forall>p n e. lookupLbEndpoints m p n = Some e \<longrightarrow> lb_IPs e \<noteq> []))"

definition invalidLogs :: "event list \<Rightarrow> bool" where
  "invalidLogs es = (\<forall>e \<in> set es. e = LogError ''Invalid endpoint port: %s: %v'')"

text \<open>A trace grows by events that all satisfy \<open>Q\<close>; a write that places a VIP on the
  cluster-wide load balancer.\<close>

definition extendsWith :: "(event \<Rightarrow> bool) \<Rightarrow> history \<Rightarrow> history \<Rightarrow> bool" where
  "extendsWith Q h h' = (\<exists>es. h' = h @ es \<and> (\<forall>e \<in> set es. Q e))"

fun clusterTierCreate :: "event \<Rightarrow> bool" where
  "clusterTierCreate (Op (CallCreateLoadBalancerVIPs lb sourceIPs sourcePort targetIPs targetPort)) = True"
| "clusterTierCreate e = False"

text \<open>The trace once the check of lines 149-153 has passed; and the legacy loops when no
  call of the function for one Endpoints object fails: its effect on the trace, and the
  body of the loop over the namespaces.\<close>

definition afterGuard :: "Config \<Rightarrow> Node \<Rightarrow> history \<Rightarrow> history" where
  "afterGuard cfg node h =
     (if isGatewayInterfaceNone cfg then h
      else h @ [Op (CallGetGatewayPhysicalIPs (GWRouterPrefix cfg @ node_Name node))])"

definition runAdd :: "addFn \<Rightarrow> Endpoints \<Rightarrow> history \<Rightarrow> history" where
  "runAdd add ep h = (case add ep False h of Some (r, h') \<Rightarrow> h' | None \<Rightarrow> h)"

definition legacyNamespace :: "addFn \<Rightarrow> Controller \<Rightarrow> Namespace \<Rightarrow> history \<Rightarrow> history" where
  "legacyNamespace add ovn ns h =
     (case GetEndpoints ovn h (ns_Name ns) of
        Inl err \<Rightarrow> h @ [LogError ''Failed to get k8s endpoints: %v'']
      | Inr endpoints \<Rightarrow> fold (runAdd add) endpoints h)"

text \<open>The event \<open>e\<close> is among those added to the trace \<open>h\<close> to make \<open>h'\<close>.\<close>

definition issuedBetween :: "event \<Rightarrow> history \<Rightarrow> history \<Rightarrow> bool" where
  "issuedBetween e h h' = (\<exists>es. h' = h @ es \<and> e \<in> set es)"

text \<open>
  Whether a call failed when it was issued at the trace \<open>h\<close>: the calls that return an
  error failed when the error is not \<^verbatim>\<open>nil\<close>, the lookups when they returned an error, and
  the calls that return nothing never fail. A stretch of events logs its failures when
  every failed call in it is followed at once by a log line.
\<close>

fun failedAt :: "Controller \<Rightarrow> history \<Rightarrow> call \<Rightarrow> bool" where
  "failedAt ovn h (CallAddServiceToIdlingBalancer svc) = False"
| "failedAt ovn h (CallDeleteServiceFromBalancers svc) = False"
| "failedAt ovn h (CallDeleteServiceFromIdlingBalancer svc) = False"
| "failedAt ovn h (CallDeleteNodeVIPs svcIPs proto port) = False"
| "failedAt ovn h (CallGetLoadBalancer proto) =
     (case getLoadBalancer ovn h proto of Inl err \<Rightarrow> True | Inr lb \<Rightarrow> False)"
| "failedAt ovn h CallGetOvnGateways = (snd (getOvnGateways ovn h) \<noteq> None)"
| "failedAt ovn h (CallGetGatewayLoadBalancer gateway proto) =
     (case getGatewayLoadBalancer ovn h gateway proto of Inl err \<Rightarrow> True | Inr lb \<Rightarrow> False)"
| "failedAt ovn h (CallGetWorkerLoadBalancer workerNode proto) =
     (case GetWorkerLoadBalancer ovn h workerNode proto of Inl err \<Rightarrow> True | Inr lb \<Rightarrow> False)"
| "failedAt ovn h (CallGetGatewayPhysicalIPs gateway) =
     (snd (getGatewayPhysicalIPs ovn h gateway) \<noteq> None)"
| "failedAt ovn h c = (callErr ovn h c \<noteq> None)"

fun failuresLogged :: "Controller \<Rightarrow> history \<Rightarrow> event list \<Rightarrow> bool" where
  "failuresLogged ovn h [] = True"
| "failuresLogged ovn h (LogError msg # es) = failuresLogged ovn (h @ [LogError msg]) es"
| "failuresLogged ovn h (Op c # es) =
     ((if failedAt ovn h c then (case es of LogError msg # rest \<Rightarrow> True | _ \<Rightarrow> False) else True)
      \<and> failuresLogged ovn (h @ [Op c]) es)"

definition logsFailures :: "Controller \<Rightarrow> history \<Rightarrow> history \<Rightarrow> bool" where
  "logsFailures ovn h h' = (\<exists>es. h' = h @ es \<and> failuresLogged ovn h es)"


definition clusterTierOnly :: "Controller \<Rightarrow> string \<Rightarrow> event \<Rightarrow> bool" where
  "clusterTierOnly ovn ip e =
     (\<forall>lb port targets. e = Op (CallConfigureLoadBalancer lb ip port targets)
        \<longrightarrow> (\<exists>h proto. getLoadBalancer ovn h proto = Inr lb))"

section \<open>A small cluster\<close>

text \<open>One node, one service with one TCP port, one backend pod; used to run the functions.\<close>

definition exampleConfig :: Config where
  "exampleConfig =
     \<lparr>ClusterSubnets = [\<lparr>CIDR = \<lparr>net_IP = [10, 0, 0, 0], net_Mask = [255, 0, 0, 0]\<rparr>,
                         HostSubnetLength = 23\<rparr>],
      Gateway_Mode = GatewayModeShared,
      OVNEmptyLbEvents = True,
      IdledServiceAnnotationSuffix = ''idled-at'',
      GWRouterPrefix = ''GR_'',
      isGatewayInterfaceNone = False,
      ParseIP = (\<lambda>s. if s = ''10.128.0.5'' then Some [10, 128, 0, 5]
                     else if s = ''192.168.1.7'' then Some [192, 168, 1, 7] else None),
      Contains = (\<lambda>n ip. case ip of None \<Rightarrow> False
                     | Some bs \<Rightarrow> length bs = length (net_IP n) \<and> take 1 bs = take 1 (net_IP n)),
      ValidatePort = (\<lambda>p n. (p = ProtocolTCP \<or> p = ProtocolUDP \<or> p = ProtocolSCTP)
                             \<and> 0 < n \<and> n \<le> 65535),
      IsClusterIPSet = (\<lambda>svc. svc_ClusterIP svc \<noteq> ''None'' \<and> svc_ClusterIP svc \<noteq> []),
      ServiceTypeHasNodePort = (\<lambda>svc. svc_Type svc = ''NodePort'' \<or> svc_Type svc = ''LoadBalancer''),
      ServiceTypeHasClusterIP = (\<lambda>svc. svc_Type svc = ''ClusterIP'' \<or> svc_Type svc = ''NodePort''
                                        \<or> svc_Type svc = ''LoadBalancer''),
      JoinHostPortInt32 = (\<lambda>ip port. ip @ (if port = 80 then '':80'' else '':0'')),
      GetWorkerFromGatewayRouter = (\<lambda>gw. drop 3 gw)\<rparr>"

definition examplePort :: ServicePort where
  "examplePort = \<lparr>sp_Name = ''http'', sp_Protocol = ProtocolTCP, sp_Port = 80, sp_NodePort = 30080\<rparr>"

definition exampleService :: Service where
  "exampleService =
     \<lparr>svc_Name = ''web'', svc_Namespace = ''default'', svc_Annotations = [],
      svc_Type = ''ClusterIP'', svc_ClusterIP = ''172.30.0.10'', svc_Ports = [examplePort],
      svc_ExternalIPs = [''1.2.3.4''], svc_Ingress = []\<rparr>"

text \<open>An Endpoints object whose only subset has a port and no ready address.\<close>

definition notReadyEndpoints :: Endpoints where
  "notReadyEndpoints =
     \<lparr>ep_Name = ''web'', ep_Namespace = ''default'',
      Subsets = [\<lparr>Addresses = [],
                  Ports = [\<lparr>epp_Name = ''http'', epp_Port = 8080, epp_Protocol = ProtocolTCP\<rparr>]\<rparr>]\<rparr>"

text \<open>An Endpoints object whose backend is host-networked (outside 10.0.0.0/8), and the
  service as a NodePort service.\<close>

definition hostEndpoints :: Endpoints where
  "hostEndpoints =
     \<lparr>ep_Name = ''web'', ep_Namespace = ''default'',
      Subsets = [\<lparr>Addresses = [\<lparr>ea_IP = ''192.168.1.7''\<rparr>],
                  Ports = [\<lparr>epp_Name = ''http'', epp_Port = 8080, epp_Protocol = ProtocolTCP\<rparr>]\<rparr>]\<rparr>"

definition nodePortService :: Service where
  "nodePortService = exampleService\<lparr>svc_Type := ''NodePort''\<rparr>"

text \<open>The service with its own cluster address listed as an external IP.\<close>

definition aliasService :: Service where
  "aliasService = exampleService\<lparr>svc_ExternalIPs := [''172.30.0.10'']\<rparr>"

text \<open>The table the aggregation builds for \<open>hostEndpoints\<close>.\<close>

definition hostTable :: protoPortMap where
  "hostTable =
     emptyProtoPortMap
       (ProtocolTCP := Some [''http'' \<mapsto> \<lparr>lb_IPs = [''192.168.1.7''], lb_Port = 8080\<rparr>])"

text \<open>The configuration in local gateway mode.\<close>

definition localConfig :: Config where
  "localConfig = exampleConfig\<lparr>Gateway_Mode := GatewayModeLocal\<rparr>"

text \<open>The service with an idling annotation.\<close>

definition idledService :: Service where
  "idledService =
     exampleService\<lparr>svc_Annotations := [(''idling.alpha.openshift.io/idled-at'', ''2021-03-01'')]\<rparr>"

definition exampleEndpoints :: Endpoints where
  "exampleEndpoints =
     \<lparr>ep_Name = ''web'', ep_Namespace = ''default'',
      Subsets = [\<lparr>Addresses = [\<lparr>ea_IP = ''10.128.0.5''\<rparr>],
                  Ports = [\<lparr>epp_Name = ''http'', epp_Port = 8080, epp_Protocol = ProtocolTCP\<rparr>]\<rparr>]\<rparr>"

text \<open>The controller of the small cluster: every lookup answers, and a call fails when
  \<open>fails\<close> says so; the service it knows is a parameter.\<close>

definition exampleController :: "Service \<Rightarrow> (call \<Rightarrow> bool) \<Rightarrow> Controller" where
  "exampleController svc fails =
     \<lparr>SCTPSupport = False,
      svcController = False,
      GetService = (\<lambda>h ns name. if ns = ''default'' \<and> name = ''web'' then Some svc else None),
      GetNamespaces = (\<lambda>h. Inr [\<lparr>ns_Name = ''default''\<rparr>]),
      GetEndpoints = (\<lambda>h ns. if ns = ''default'' then Inr [exampleEndpoints] else Inl ''not found''),
      callErr = (\<lambda>h c. if fails c then Some ''backend failure'' else None),
      getLoadBalancer = (\<lambda>h p. Inr ''cluster-lb''),
      getOvnGateways = (\<lambda>h. ([''GR_node1''], None)),
      getGatewayLoadBalancer = (\<lambda>h gw p. Inr (gw @ ''-lb'')),
      GetWorkerLoadBalancer = (\<lambda>h node p. Inr (node @ ''-lb'')),
      getGatewayPhysicalIPs = (\<lambda>h gw. (Some [''192.168.1.7''], None))\<rparr>"

text \<open>The same controller with the full-sync controller present; the answer of the lookup
  of the gateway's physical IPs is a parameter.\<close>

definition syncController :: "string list option \<times> error option \<Rightarrow> Controller" where
  "syncController physicalIPs =
     (exampleController exampleService (\<lambda>c. False))
       \<lparr>svcController := True, getGatewayPhysicalIPs := (\<lambda>h gw. physicalIPs)\<rparr>"

section \<open>Aggregation\<close>

lemma tableOk_empty: "tableOk emptyProtoPortMap"
  by (auto simp: tableOk_def emptyProtoPortMap_def lookupLbEndpoints_def split: Protocol.splits)

lemma getLbEndpointsPort_step:
  assumes V: "\<forall>s n. \<not> ValidatePort cfg (ProtocolOther s) n" and ok: "tableOk m"
  shows "\<exists>m' es. getLbEndpointsPort cfg ip port (m, h) = Some (m', h @ es) \<and> tableOk m'
           \<and> invalidLogs es
           \<and> (\<forall>p n. ipsOf m' p n = ipsOf m p n @ (if declaresPair cfg p n port then [ea_IP ip] else []))"
proof (cases "ValidatePort cfg (epp_Protocol port) (epp_Port port)")
  case False
  then show ?thesis
    using ok by (simp add: getLbEndpointsPort_def declaresPair_def invalidLogs_def)
next
  case True
  with V have noth: "\<forall>s. epp_Protocol port \<noteq> ProtocolOther s" by metis
  with ok obtain inner where inner: "m (epp_Protocol port) = Some inner"
    unfolding tableOk_def by (metis not_Some_eq)
  let ?ips = "(case inner (epp_Name port) of Some lbEps \<Rightarrow> lb_IPs lbEps @ [ea_IP ip] | None \<Rightarrow> [ea_IP ip])"
  let ?m' = "m(epp_Protocol port := Some (inner(epp_Name port \<mapsto> \<lparr>lb_IPs = ?ips, lb_Port = epp_Port port\<rparr>)))"
  have res: "getLbEndpointsPort cfg ip port (m, h) = Some (?m', h @ [])"
    using True inner
    by (simp add: getLbEndpointsPort_def storeLbEndpoints_def lookupLbEndpoints_def)
  have ne: "?ips \<noteq> []" by (simp split: option.splits)
  have ok': "tableOk ?m'"
    using ok inner ne noth unfolding tableOk_def lookupLbEndpoints_def
    by (auto split: option.splits if_splits)
  have acc: "\<forall>p n. ipsOf ?m' p n = ipsOf m p n @ (if declaresPair cfg p n port then [ea_IP ip] else [])"
    using True inner
    by (auto simp: ipsOf_def lookupLbEndpoints_def declaresPair_def split: option.splits)
  show ?thesis using res ok' acc by (metis invalidLogs_def empty_iff list.set(1))
qed

lemma forEach_ports:
  assumes V: "\<forall>s n. \<not> ValidatePort cfg (ProtocolOther s) n"
  shows "tableOk m \<Longrightarrow> \<exists>m' es. forEach (getLbEndpointsPort cfg ip) ports (m, h) = Some (m', h @ es)
           \<and> tableOk m' \<and> invalidLogs es
           \<and> (\<forall>p n. ipsOf m' p n = ipsOf m p n @ map (\<lambda>port. ea_IP ip) (filter (declaresPair cfg p n) ports))"
proof (induction ports arbitrary: m h)
  case Nil
  then show ?case by (simp add: invalidLogs_def)
next
  case (Cons port ports)
  from getLbEndpointsPort_step[OF V Cons.prems, of ip port h]
  obtain m1 es1 where s1: "getLbEndpointsPort cfg ip port (m, h) = Some (m1, h @ es1)" "tableOk m1"
     "invalidLogs es1" "\<forall>p n. ipsOf m1 p n = ipsOf m p n @ (if declaresPair cfg p n port then [ea_IP ip] else [])"
    by blast
  from Cons.IH[OF s1(2), of "h @ es1"]
  obtain m2 es2 where s2: "forEach (getLbEndpointsPort cfg ip) ports (m1, h @ es1) = Some (m2, (h @ es1) @ es2)"
     "tableOk m2" "invalidLogs es2"
     "\<forall>p n. ipsOf m2 p n = ipsOf m1 p n @ map (\<lambda>port. ea_IP ip) (filter (declaresPair cfg p n) ports)"
    by blast
  have "forEach (getLbEndpointsPort cfg ip) (port # ports) (m, h) = Some (m2, h @ (es1 @ es2))"
    using s1(1) s2(1) by simp
  moreover have "invalidLogs (es1 @ es2)" using s1(3) s2(3) by (auto simp: invalidLogs_def)
  moreover have "\<forall>p n. ipsOf m2 p n = ipsOf m p n @ map (\<lambda>port. ea_IP ip) (filter (declaresPair cfg p n) (port # ports))"
    using s1(4) s2(4) by simp
  ultimately show ?case using s2(2) by blast
qed


lemma forEach_addresses:
  assumes V: "\<forall>s n. \<not> ValidatePort cfg (ProtocolOther s) n"
  shows "tableOk m \<Longrightarrow>
         \<exists>m' es. forEach (\<lambda>ip. forEach (getLbEndpointsPort cfg ip) ports) addrs (m, h) = Some (m', h @ es)
           \<and> tableOk m' \<and> invalidLogs es
           \<and> (\<forall>p n. ipsOf m' p n = ipsOf m p n
                 @ concat (map (\<lambda>ip. map (\<lambda>port. ea_IP ip) (filter (declaresPair cfg p n) ports)) addrs))"
proof (induction addrs arbitrary: m h)
  case Nil
  then show ?case by (simp add: invalidLogs_def)
next
  case (Cons ip addrs)
  from forEach_ports[OF V Cons.prems, of ip ports h]
  obtain m1 es1 where s1: "forEach (getLbEndpointsPort cfg ip) ports (m, h) = Some (m1, h @ es1)"
     "tableOk m1" "invalidLogs es1"
     "\<forall>p n. ipsOf m1 p n = ipsOf m p n @ map (\<lambda>port. ea_IP ip) (filter (declaresPair cfg p n) ports)"
    by blast
  from Cons.IH[OF s1(2), of "h @ es1"]
  obtain m2 es2 where s2:
     "forEach (\<lambda>ip. forEach (getLbEndpointsPort cfg ip) ports) addrs (m1, h @ es1) = Some (m2, (h @ es1) @ es2)"
     "tableOk m2" "invalidLogs es2"
     "\<forall>p n. ipsOf m2 p n = ipsOf m1 p n
         @ concat (map (\<lambda>ip. map (\<lambda>port. ea_IP ip) (filter (declaresPair cfg p n) ports)) addrs)"
    by blast
  have "forEach (\<lambda>ip. forEach (getLbEndpointsPort cfg ip) ports) (ip # addrs) (m, h) = Some (m2, h @ (es1 @ es2))"
    using s1(1) s2(1) by simp
  moreover have "invalidLogs (es1 @ es2)" using s1(3) s2(3) by (auto simp: invalidLogs_def)
  moreover have "\<forall>p n. ipsOf m2 p n = ipsOf m p n
         @ concat (map (\<lambda>ip. map (\<lambda>port. ea_IP ip) (filter (declaresPair cfg p n) ports)) (ip # addrs))"
    using s1(4) s2(4) by simp
  ultimately show ?case using s2(2) by blast
qed

lemma forEach_subsets:
  assumes V: "\<forall>s n. \<not> ValidatePort cfg (ProtocolOther s) n"
  shows "tableOk m \<Longrightarrow>
         \<exists>m' es. forEach (\<lambda>s. forEach (\<lambda>ip. forEach (getLbEndpointsPort cfg ip) (Ports s)) (Addresses s))
                    subsets (m, h) = Some (m', h @ es)
           \<and> tableOk m' \<and> invalidLogs es
           \<and> (\<forall>p n. ipsOf m' p n = ipsOf m p n
                 @ concat (map (\<lambda>s. concat (map (\<lambda>ip. map (\<lambda>port. ea_IP ip)
                              (filter (declaresPair cfg p n) (Ports s))) (Addresses s))) subsets))"
proof (induction subsets arbitrary: m h)
  case Nil
  then show ?case by (simp add: invalidLogs_def)
next
  case (Cons s subsets)
  from forEach_addresses[OF V Cons.prems, of "Ports s" "Addresses s" h]
  obtain m1 es1 where s1:
     "forEach (\<lambda>ip. forEach (getLbEndpointsPort cfg ip) (Ports s)) (Addresses s) (m, h) = Some (m1, h @ es1)"
     "tableOk m1" "invalidLogs es1"
     "\<forall>p n. ipsOf m1 p n = ipsOf m p n
         @ concat (map (\<lambda>ip. map (\<lambda>port. ea_IP ip) (filter (declaresPair cfg p n) (Ports s))) (Addresses s))"
    by blast
  from Cons.IH[OF s1(2), of "h @ es1"]
  obtain m2 es2 where s2:
     "forEach (\<lambda>s. forEach (\<lambda>ip. forEach (getLbEndpointsPort cfg ip) (Ports s)) (Addresses s))
        subsets (m1, h @ es1) = Some (m2, (h @ es1) @ es2)"
     "tableOk m2" "invalidLogs es2"
     "\<forall>p n. ipsOf m2 p n = ipsOf m1 p n
         @ concat (map (\<lambda>s. concat (map (\<lambda>ip. map (\<lambda>port. ea_IP ip)
                      (filter (declaresPair cfg p n) (Ports s))) (Addresses s))) subsets)"
    by blast
  have "forEach (\<lambda>s. forEach (\<lambda>ip. forEach (getLbEndpointsPort cfg ip) (Ports s)) (Addresses s))
          (s # subsets) (m, h) = Some (m2, h @ (es1 @ es2))"
    using s1(1) s2(1) by simp
  moreover have "invalidLogs (es1 @ es2)" using s1(3) s2(3) by (auto simp: invalidLogs_def)
  moreover have "\<forall>p n. ipsOf m2 p n = ipsOf m p n
         @ concat (map (\<lambda>s. concat (map (\<lambda>ip. map (\<lambda>port. ea_IP ip)
                      (filter (declaresPair cfg p n) (Ports s))) (Addresses s))) (s # subsets))"
    using s1(4) s2(4) by simp
  ultimately show ?case using s2(2) by blast
qed

lemma getLbEndpoints_result:
  assumes V: "\<forall>s n. \<not> ValidatePort cfg (ProtocolOther s) n"
  shows "\<exists>m es. getLbEndpoints cfg ep h = Some (m, h @ es) \<and> tableOk m \<and> invalidLogs es
           \<and> (\<forall>p n. ipsOf m p n = declaredAddresses cfg ep p n)"
proof -
  have e: "\<forall>p n. ipsOf emptyProtoPortMap p n = []"
    by (auto simp: ipsOf_def emptyProtoPortMap_def lookupLbEndpoints_def split: Protocol.splits)
  from forEach_subsets[OF V tableOk_empty, of "Subsets ep" h] e
  show ?thesis unfolding getLbEndpoints_def declaredAddresses_def by simp
qed

lemma declaredAddresses_empty:
  "declaredAddresses cfg ep p n = [] \<longleftrightarrow>
     \<not> (\<exists>s \<in> set (Subsets ep). Addresses s \<noteq> [] \<and> (\<exists>port \<in> set (Ports s). declaresPair cfg p n port))"
proof -
  have ne: "Addresses s \<noteq> [] \<longleftrightarrow> (\<exists>ip. ip \<in> set (Addresses s))" for s :: EndpointSubset
    by (cases "Addresses s") auto
  show ?thesis
    unfolding ne by (auto simp: declaredAddresses_def filter_empty_conv)
qed

text \<open>
  C6 (as amended). Provided \<^verbatim>\<open>util.ValidatePort\<close> rejects every protocol other than TCP,
  UDP and SCTP, \<open>getLbEndpoints\<close> returns (it does not panic) a table that has an entry for
  each of the three protocols; the table has a key for a pair (protocol, port name) exactly
  when some subset with at least one address declares the pair with a valid port, and
  the addresses stored there are, as a multiset, the addresses of the subsets declaring the
  pair, one occurrence per address and declaring port entry. Invalid ports contribute
  nothing and change no other key.
\<close>

theorem getLbEndpoints_aggregates:
  assumes "\<forall>s n. \<not> ValidatePort cfg (ProtocolOther s) n"
  shows "\<exists>m h'. getLbEndpoints cfg ep h = Some (m, h')
           \<and> m ProtocolTCP \<noteq> None \<and> m ProtocolUDP \<noteq> None \<and> m ProtocolSCTP \<noteq> None
           \<and> (\<forall>p n. (lookupLbEndpoints m p n \<noteq> None \<longleftrightarrow>
                        (\<exists>s \<in> set (Subsets ep). Addresses s \<noteq> []
                            \<and> (\<exists>port \<in> set (Ports s). declaresPair cfg p n port)))
                  \<and> (\<forall>e. lookupLbEndpoints m p n = Some e
                         \<longrightarrow> mset (lb_IPs e) = mset (declaredAddresses cfg ep p n)))"
proof -
  from getLbEndpoints_result[OF assms, of ep h]
  obtain m es where r: "getLbEndpoints cfg ep h = Some (m, h @ es)" "tableOk m"
      "\<forall>p n. ipsOf m p n = declaredAddresses cfg ep p n"
    by blast
  have present: "m ProtocolTCP \<noteq> None \<and> m ProtocolUDP \<noteq> None \<and> m ProtocolSCTP \<noteq> None"
    using r(2) unfolding tableOk_def by blast
  have keys: "(lookupLbEndpoints m p n \<noteq> None \<longleftrightarrow>
                        (\<exists>s \<in> set (Subsets ep). Addresses s \<noteq> []
                            \<and> (\<exists>port \<in> set (Ports s). declaresPair cfg p n port)))
                  \<and> (\<forall>e. lookupLbEndpoints m p n = Some e
                         \<longrightarrow> mset (lb_IPs e) = mset (declaredAddresses cfg ep p n))" for p n
  proof (cases "lookupLbEndpoints m p n")
    case None
    then have "declaredAddresses cfg ep p n = []"
      using r(3)[rule_format, of p n] by (simp add: ipsOf_def)
    then show ?thesis using None declaredAddresses_empty[of cfg ep p n] by simp
  next
    case (Some e)
    moreover have "lb_IPs e \<noteq> []" using r(2) Some unfolding tableOk_def by blast
    moreover have "lb_IPs e = declaredAddresses cfg ep p n"
      using r(3)[rule_format, of p n] Some by (simp add: ipsOf_def)
    ultimately show ?thesis using declaredAddresses_empty[of cfg ep p n] by simp
  qed
  show ?thesis using r(1) present keys by blast
qed

theorem getLbEndpoints_aggregates_witness:
  "(\<forall>s n. \<not> ValidatePort exampleConfig (ProtocolOther s) n)
   \<and> (\<exists>m h'. getLbEndpoints exampleConfig exampleEndpoints [] = Some (m, h')
         \<and> m ProtocolTCP \<noteq> None
         \<and> (\<exists>e. lookupLbEndpoints m ProtocolTCP ''http'' = Some e
                \<and> mset (lb_IPs e) = {#''10.128.0.5''#}))"
proof -
  have V: "\<forall>s n. \<not> ValidatePort exampleConfig (ProtocolOther s) n"
    by (simp add: exampleConfig_def)
  have d: "declaredAddresses exampleConfig exampleEndpoints ProtocolTCP ''http'' = [''10.128.0.5'']"
    by (simp add: declaredAddresses_def declaresPair_def exampleConfig_def exampleEndpoints_def)
  from getLbEndpoints_aggregates[OF V, of exampleEndpoints "[]"]
  obtain m h' where r: "getLbEndpoints exampleConfig exampleEndpoints [] = Some (m, h')"
      "m ProtocolTCP \<noteq> None"
      "lookupLbEndpoints m ProtocolTCP ''http'' \<noteq> None \<longleftrightarrow>
         (\<exists>s \<in> set (Subsets exampleEndpoints). Addresses s \<noteq> []
             \<and> (\<exists>port \<in> set (Ports s). declaresPair exampleConfig ProtocolTCP ''http'' port))"
      "\<forall>e. lookupLbEndpoints m ProtocolTCP ''http'' = Some e
         \<longrightarrow> mset (lb_IPs e) = mset (declaredAddresses exampleConfig exampleEndpoints ProtocolTCP ''http'')"
    by blast
  have "\<exists>s \<in> set (Subsets exampleEndpoints). Addresses s \<noteq> []
             \<and> (\<exists>port \<in> set (Ports s). declaresPair exampleConfig ProtocolTCP ''http'' port)"
    by (simp add: declaresPair_def exampleConfig_def exampleEndpoints_def)
  with r(3) obtain e where e: "lookupLbEndpoints m ProtocolTCP ''http'' = Some e" by blast
  with r(4) d have "mset (lb_IPs e) = {#''10.128.0.5''#}" by simp
  with V r(1,2) e show ?thesis by blast
qed

text \<open>
  The claim as stated fails: a subset that declares the valid pair (TCP, http) and has no
  ready address leaves the table without a key for the pair.
\<close>

theorem getLbEndpoints_key_counterexample:
  "declaresPair exampleConfig ProtocolTCP ''http''
      \<lparr>epp_Name = ''http'', epp_Port = 8080, epp_Protocol = ProtocolTCP\<rparr>
   \<and> getLbEndpoints exampleConfig notReadyEndpoints [] = Some (emptyProtoPortMap, [])
   \<and> lookupLbEndpoints emptyProtoPortMap ProtocolTCP ''http'' = None"
  by (simp add: declaresPair_def exampleConfig_def getLbEndpoints_def notReadyEndpoints_def
      lookupLbEndpoints_def emptyProtoPortMap_def)

section \<open>Host classification\<close>

lemma foundInClusterSubnets_iff:
  "foundInClusterSubnets cfg ip nets \<longleftrightarrow> (\<exists>c \<in> set nets. Contains cfg (CIDR c) ip)"
  by (induction nets) auto

lemma hasHostEndpoints_iff:
  "hasHostEndpoints cfg endpointIPs \<longleftrightarrow>
     (\<exists>ip \<in> set endpointIPs. \<forall>clusterNet \<in> set (ClusterSubnets cfg).
         \<not> Contains cfg (CIDR clusterNet) (ParseIP cfg ip))"
  by (induction endpointIPs) (auto simp: foundInClusterSubnets_iff)

text \<open>
  C7. \<open>hasHostEndpoints\<close> is true exactly when some address of the input is contained in
  no configured cluster subnet; it is false for the empty list; and an address that
  \<^verbatim>\<open>net.ParseIP\<close> cannot parse (it returns \<^verbatim>\<open>nil\<close>, which \<^verbatim>\<open>Contains\<close> of a configured subnet
  rejects) makes it true.
\<close>

theorem hasHostEndpoints_classifies:
  "(hasHostEndpoints cfg endpointIPs \<longleftrightarrow>
      (\<exists>ip \<in> set endpointIPs. \<forall>clusterNet \<in> set (ClusterSubnets cfg).
          \<not> Contains cfg (CIDR clusterNet) (ParseIP cfg ip)))
   \<and> \<not> hasHostEndpoints cfg []
   \<and> (bad \<in> set endpointIPs \<and> ParseIP cfg bad = None
        \<and> (\<forall>clusterNet \<in> set (ClusterSubnets cfg). \<not> Contains cfg (CIDR clusterNet) None)
      \<longrightarrow> hasHostEndpoints cfg endpointIPs)"
proof -
  have "hasHostEndpoints cfg endpointIPs"
    if "bad \<in> set endpointIPs" "ParseIP cfg bad = None"
       "\<forall>clusterNet \<in> set (ClusterSubnets cfg). \<not> Contains cfg (CIDR clusterNet) None"
    unfolding hasHostEndpoints_iff using that by (intro bexI[of _ bad]) simp_all
  then show ?thesis
    using hasHostEndpoints_iff[of cfg endpointIPs] by simp
qed

theorem hasHostEndpoints_classifies_witness:
  "''not-an-ip'' \<in> set [''10.128.0.5'', ''not-an-ip'']
   \<and> ParseIP exampleConfig ''not-an-ip'' = None
   \<and> list_all (\<lambda>clusterNet. \<not> Contains exampleConfig (CIDR clusterNet) None)
         (ClusterSubnets exampleConfig)
   \<and> hasHostEndpoints exampleConfig [''10.128.0.5'', ''not-an-ip'']
   \<and> \<not> hasHostEndpoints exampleConfig [''10.128.0.5'']"
proof -
  have p: "ParseIP exampleConfig ''not-an-ip'' = None" by (simp add: exampleConfig_def)
  have c: "\<forall>clusterNet \<in> set (ClusterSubnets exampleConfig).
             \<not> Contains exampleConfig (CIDR clusterNet) None"
    by (simp add: exampleConfig_def)
  have "hasHostEndpoints exampleConfig [''10.128.0.5'', ''not-an-ip'']"
    using hasHostEndpoints_classifies[of exampleConfig "[''10.128.0.5'', ''not-an-ip'']" "''not-an-ip''"] p c
    by simp
  moreover have "\<not> hasHostEndpoints exampleConfig [''10.128.0.5'']"
    using hasHostEndpoints_classifies[of exampleConfig "[''10.128.0.5'']" "''x''"]
    by (simp add: exampleConfig_def)
  ultimately show ?thesis using p c by (simp add: list_all_iff)
qed

section \<open>Traces only grow\<close>

lemma extendsWith_refl: "extendsWith Q h h"
  by (simp add: extendsWith_def)

lemma extendsWith_trans:
  "extendsWith Q h h1 \<Longrightarrow> extendsWith Q h1 h2 \<Longrightarrow> extendsWith Q h h2"
  unfolding extendsWith_def by (metis Un_iff append.assoc set_append)

lemma extendsWith_append: "\<forall>e \<in> set es. Q e \<Longrightarrow> extendsWith Q h (h @ es)"
  by (auto simp: extendsWith_def)

lemma extendsWith_fold:
  assumes "\<And>x h. extendsWith Q h (f x h)"
  shows "extendsWith Q h (fold f xs h)"
proof (induction xs arbitrary: h)
  case Nil
  show ?case by (simp add: extendsWith_refl)
next
  case (Cons x xs)
  show ?case using extendsWith_trans[OF assms[of h x] Cons.IH[of "f x h"]] by simp
qed

lemma extendsWith_callLogged:
  "Q (Op c) \<Longrightarrow> Q (LogError msg) \<Longrightarrow> extendsWith Q h (callLogged ovn c msg h)"
  by (auto simp: callLogged_def doCall_def extendsWith_def split: option.splits)

lemma extendsWith_weaken:
  "extendsWith Q h h' \<Longrightarrow> (\<And>e. Q e \<Longrightarrow> R e) \<Longrightarrow> extendsWith R h h'"
  unfolding extendsWith_def by blast

text \<open>The events of one pass of the loop body of \<open>AddEndpoints\<close>: a cluster-tier placement
  is among them only when the caller asked for it.\<close>

lemma extendsWith_addClusterIPVIP:
  "extendsWith (\<lambda>e. addClusterLBs \<or> \<not> clusterTierCreate e) h
     (snd (addClusterIPVIP cfg ovn svc svcPort lbEps loadBalancer addClusterLBs h))"
  by (auto simp: addClusterIPVIP_def doCall_def callLogged_def extendsWith_def
      split: option.splits)

lemma extendsWith_addExternalIPVIPs:
  "extendsWith (\<lambda>e. addClusterLBs \<or> \<not> clusterTierCreate e) h
     (addExternalIPVIPs ovn svc svcPort lbEps h)"
  by (simp add: addExternalIPVIPs_def extendsWith_callLogged extendsWith_refl)

lemma extendsWith_addIngressVIP:
  "extendsWith (\<lambda>e. addClusterLBs \<or> \<not> clusterTierCreate e) h
     (addIngressVIP ovn svcPort lbEps ing h)"
  by (simp add: addIngressVIP_def extendsWith_callLogged extendsWith_refl)

lemma extendsWith_addNodePortVIPs:
  "extendsWith (\<lambda>e. addClusterLBs \<or> \<not> clusterTierCreate e) h
     (snd (addNodePortVIPs cfg ovn svc svcPort lbEps h))"
  by (auto simp: addNodePortVIPs_def doCall_def extendsWith_def split: option.splits)

lemma extendsWith_addClusterIPBlock:
  "extendsWith (\<lambda>e. addClusterLBs \<or> \<not> clusterTierCreate e) h
     (addClusterIPBlock cfg ovn svc svcPort lbEps addClusterLBs h)"
proof (cases "getLoadBalancer ovn h (sp_Protocol svcPort)")
  case (Inl err)
  then show ?thesis by (simp add: addClusterIPBlock_def extendsWith_append)
next
  case (Inr loadBalancer)
  let ?Q = "\<lambda>e. addClusterLBs \<or> \<not> clusterTierCreate e"
  let ?h0 = "h @ [Op (CallGetLoadBalancer (sp_Protocol svcPort))]"
  obtain go h1 where r: "addClusterIPVIP cfg ovn svc svcPort lbEps loadBalancer addClusterLBs ?h0 = (go, h1)"
    by (cases "addClusterIPVIP cfg ovn svc svcPort lbEps loadBalancer addClusterLBs ?h0")
  have a: "extendsWith ?Q h ?h0" by (simp add: extendsWith_append)
  have b: "extendsWith ?Q ?h0 h1"
    using extendsWith_addClusterIPVIP[of addClusterLBs ?h0 cfg ovn svc svcPort lbEps loadBalancer] r
    by simp
  have c: "extendsWith ?Q h1 (fold (addIngressVIP ovn svcPort lbEps) (svc_Ingress svc)
                 (addExternalIPVIPs ovn svc svcPort lbEps h1))"
    by (rule extendsWith_trans[OF extendsWith_addExternalIPVIPs])
       (rule extendsWith_fold, rule extendsWith_addIngressVIP)
  show ?thesis
    using Inr r extendsWith_trans[OF a b] extendsWith_trans[OF extendsWith_trans[OF a b] c]
    by (cases go) (simp_all add: addClusterIPBlock_def)
qed

lemma extendsWith_addEndpointsPort:
  "extendsWith (\<lambda>e. addClusterLBs \<or> \<not> clusterTierCreate e) h
     (addEndpointsPort cfg ovn svc addClusterLBs m svcPort h)"
proof (cases "lookupLbEndpoints m (sp_Protocol svcPort) (sp_Name svcPort)")
  case None
  then show ?thesis by (simp add: addEndpointsPort_def extendsWith_refl)
next
  case (Some lbEps)
  let ?Q = "\<lambda>e. addClusterLBs \<or> \<not> clusterTierCreate e"
  obtain go h1 where r: "addNodePortVIPs cfg ovn svc svcPort lbEps h = (go, h1)"
    by (cases "addNodePortVIPs cfg ovn svc svcPort lbEps h")
  have a: "extendsWith ?Q h h1"
    using extendsWith_addNodePortVIPs[of addClusterLBs h cfg ovn svc svcPort lbEps] r by simp
  have b: "extendsWith ?Q h (addClusterIPBlock cfg ovn svc svcPort lbEps addClusterLBs h1)"
    by (rule extendsWith_trans[OF a extendsWith_addClusterIPBlock])
  show ?thesis
    using Some r a b by (cases go) (simp_all add: addEndpointsPort_def extendsWith_append)
qed

lemma AddEndpoints_result:
  assumes V: "\<forall>s n. \<not> ValidatePort cfg (ProtocolOther s) n"
  shows "\<exists>h'. AddEndpoints cfg ovn ep addClusterLBs h = Some (None, h')
           \<and> extendsWith (\<lambda>e. addClusterLBs \<or> \<not> clusterTierCreate e) h h'"
proof -
  let ?Q = "\<lambda>e. addClusterLBs \<or> \<not> clusterTierCreate e"
  from getLbEndpoints_result[OF V, of ep h]
  obtain m es where g: "getLbEndpoints cfg ep h = Some (m, h @ es)" "invalidLogs es" by blast
  have a: "extendsWith ?Q h (h @ es)"
    using g(2) by (intro extendsWith_append) (auto simp: invalidLogs_def)
  have b: "extendsWith ?Q h (h @ es @ es')" if "\<forall>e \<in> set es'. ?Q e" for es'
    using extendsWith_trans[OF a extendsWith_append[OF that, of "h @ es"]] by simp
  have c: "extendsWith ?Q h (fold (addEndpointsPort cfg ovn svc addClusterLBs m) (svc_Ports svc)
                          (h @ es @ [Op (CallDeleteServiceFromIdlingBalancer svc)]))" for svc
  proof -
    have "extendsWith ?Q h (h @ es @ [Op (CallDeleteServiceFromIdlingBalancer svc)])"
      by (rule b) simp
    moreover have "extendsWith ?Q (h @ es @ [Op (CallDeleteServiceFromIdlingBalancer svc)])
        (fold (addEndpointsPort cfg ovn svc addClusterLBs m) (svc_Ports svc)
           (h @ es @ [Op (CallDeleteServiceFromIdlingBalancer svc)]))"
      by (rule extendsWith_fold) (rule extendsWith_addEndpointsPort)
    ultimately show ?thesis by (rule extendsWith_trans)
  qed
  show ?thesis
    using g(1) b[of "[Op (CallAddServiceToIdlingBalancer svc), Op (CallDeleteServiceFromBalancers svc)]" for svc] c
    by (auto simp: AddEndpoints_def extendsWith_refl split: option.splits)
qed

section \<open>Early returns and the idling gate\<close>

text \<open>
  C8. When the service of an Endpoints object cannot be resolved by (namespace, name), or
  the resolved service has no cluster address, \<open>AddEndpoints\<close> and \<open>deleteEndpoints\<close> both
  return \<^verbatim>\<open>nil\<close> and leave the trace as it was: no call is issued.
\<close>

theorem absent_service_is_success:
  assumes "GetService ovn h (ep_Namespace ep) (ep_Name ep) = None
           \<or> (\<exists>svc. GetService ovn h (ep_Namespace ep) (ep_Name ep) = Some svc
                  \<and> \<not> IsClusterIPSet cfg svc)"
  shows "AddEndpoints cfg ovn ep addClusterLBs h = Some (None, h)
         \<and> deleteEndpoints cfg ovn ep h = (None, h)"
  using assms by (auto simp: AddEndpoints_def deleteEndpoints_def)

theorem absent_service_is_success_witness:
  "GetService (exampleController exampleService (\<lambda>c. False)) []
      (ep_Namespace (exampleEndpoints\<lparr>ep_Name := ''gone''\<rparr>))
      (ep_Name (exampleEndpoints\<lparr>ep_Name := ''gone''\<rparr>)) = None
   \<and> AddEndpoints exampleConfig (exampleController exampleService (\<lambda>c. False))
        (exampleEndpoints\<lparr>ep_Name := ''gone''\<rparr>) True [] = Some (None, [])
   \<and> deleteEndpoints exampleConfig (exampleController exampleService (\<lambda>c. False))
        (exampleEndpoints\<lparr>ep_Name := ''gone''\<rparr>) [] = (None, [])
   \<and> \<not> IsClusterIPSet exampleConfig (exampleService\<lparr>svc_ClusterIP := ''None''\<rparr>)
   \<and> AddEndpoints exampleConfig
        (exampleController (exampleService\<lparr>svc_ClusterIP := ''None''\<rparr>) (\<lambda>c. False))
        exampleEndpoints True [] = Some (None, [])
   \<and> deleteEndpoints exampleConfig
        (exampleController (exampleService\<lparr>svc_ClusterIP := ''None''\<rparr>) (\<lambda>c. False))
        exampleEndpoints [] = (None, [])"
proof -
  have g: "GetService (exampleController exampleService (\<lambda>c. False)) []
      (ep_Namespace (exampleEndpoints\<lparr>ep_Name := ''gone''\<rparr>))
      (ep_Name (exampleEndpoints\<lparr>ep_Name := ''gone''\<rparr>)) = None"
    by (simp add: exampleController_def exampleEndpoints_def)
  have n: "\<not> IsClusterIPSet exampleConfig (exampleService\<lparr>svc_ClusterIP := ''None''\<rparr>)"
    by (simp add: exampleConfig_def)
  have s: "GetService (exampleController (exampleService\<lparr>svc_ClusterIP := ''None''\<rparr>) (\<lambda>c. False)) []
      (ep_Namespace exampleEndpoints) (ep_Name exampleEndpoints)
        = Some (exampleService\<lparr>svc_ClusterIP := ''None''\<rparr>)"
    by (simp add: exampleController_def exampleEndpoints_def)
  show ?thesis
    using g n
      absent_service_is_success[of "exampleController exampleService (\<lambda>c. False)" "[]"
        "exampleEndpoints\<lparr>ep_Name := ''gone''\<rparr>" exampleConfig True]
      absent_service_is_success[of "exampleController (exampleService\<lparr>svc_ClusterIP := ''None''\<rparr>) (\<lambda>c. False)"
        "[]" exampleEndpoints exampleConfig True] s
    by simp
qed

text \<open>
  C5. For a resolved service with a cluster address (and \<^verbatim>\<open>util.ValidatePort\<close> rejecting
  unknown protocols, so that the aggregation returns): if the service needs idling and
  the Endpoints object has no subsets, \<open>AddEndpoints\<close> issues exactly the registration on
  the idling balancer followed by the removal of the service from the other balancers,
  and returns \<^verbatim>\<open>nil\<close>; in every other case the first call it issues is the removal from
  the idling balancer (only "invalid port" log lines of the aggregation come before),
  and the placement of the ports follows.
\<close>

theorem AddEndpoints_idling_gate:
  assumes "GetService ovn h (ep_Namespace ep) (ep_Name ep) = Some svc"
    and "IsClusterIPSet cfg svc"
    and "\<forall>s n. \<not> ValidatePort cfg (ProtocolOther s) n"
  shows "(svcNeedsIdling cfg (svc_Annotations svc) \<and> Subsets ep = [] \<longrightarrow>
            AddEndpoints cfg ovn ep addClusterLBs h =
              Some (None, h @ [Op (CallAddServiceToIdlingBalancer svc),
                               Op (CallDeleteServiceFromBalancers svc)]))
       \<and> (\<not> (svcNeedsIdling cfg (svc_Annotations svc) \<and> Subsets ep = []) \<longrightarrow>
            (\<exists>m logs es.
               getLbEndpoints cfg ep h = Some (m, h @ logs) \<and> invalidLogs logs
               \<and> fold (addEndpointsPort cfg ovn svc addClusterLBs m) (svc_Ports svc)
                    (h @ logs @ [Op (CallDeleteServiceFromIdlingBalancer svc)])
                  = h @ logs @ [Op (CallDeleteServiceFromIdlingBalancer svc)] @ es
               \<and> AddEndpoints cfg ovn ep addClusterLBs h =
                    Some (None, h @ logs @ [Op (CallDeleteServiceFromIdlingBalancer svc)] @ es)))"
proof (intro conjI impI)
  assume idle: "svcNeedsIdling cfg (svc_Annotations svc) \<and> Subsets ep = []"
  then have "getLbEndpoints cfg ep h = Some (emptyProtoPortMap, h)"
    by (simp add: getLbEndpoints_def)
  then show "AddEndpoints cfg ovn ep addClusterLBs h =
              Some (None, h @ [Op (CallAddServiceToIdlingBalancer svc),
                               Op (CallDeleteServiceFromBalancers svc)])"
    using assms(1,2) idle by (simp add: AddEndpoints_def)
next
  assume active: "\<not> (svcNeedsIdling cfg (svc_Annotations svc) \<and> Subsets ep = [])"
  from getLbEndpoints_result[OF assms(3), of ep h]
  obtain m logs where g: "getLbEndpoints cfg ep h = Some (m, h @ logs)" "invalidLogs logs"
    by blast
  let ?h0 = "h @ logs @ [Op (CallDeleteServiceFromIdlingBalancer svc)]"
  have "extendsWith (\<lambda>e. addClusterLBs \<or> \<not> clusterTierCreate e) ?h0
          (fold (addEndpointsPort cfg ovn svc addClusterLBs m) (svc_Ports svc) ?h0)"
    by (rule extendsWith_fold) (rule extendsWith_addEndpointsPort)
  then obtain es where es:
    "fold (addEndpointsPort cfg ovn svc addClusterLBs m) (svc_Ports svc) ?h0 = ?h0 @ es"
    unfolding extendsWith_def by blast
  have "AddEndpoints cfg ovn ep addClusterLBs h =
          Some (None, h @ logs @ [Op (CallDeleteServiceFromIdlingBalancer svc)] @ es)"
    using assms(1,2) active g(1) es by (auto simp: AddEndpoints_def)
  with g es show "\<exists>m logs es.
               getLbEndpoints cfg ep h = Some (m, h @ logs) \<and> invalidLogs logs
               \<and> fold (addEndpointsPort cfg ovn svc addClusterLBs m) (svc_Ports svc)
                    (h @ logs @ [Op (CallDeleteServiceFromIdlingBalancer svc)])
                  = h @ logs @ [Op (CallDeleteServiceFromIdlingBalancer svc)] @ es
               \<and> AddEndpoints cfg ovn ep addClusterLBs h =
                    Some (None, h @ logs @ [Op (CallDeleteServiceFromIdlingBalancer svc)] @ es)"
    by auto
qed

theorem AddEndpoints_idling_gate_witness:
  "GetService (exampleController idledService (\<lambda>c. False)) []
      (ep_Namespace (exampleEndpoints\<lparr>Subsets := []\<rparr>))
      (ep_Name (exampleEndpoints\<lparr>Subsets := []\<rparr>)) = Some idledService
   \<and> IsClusterIPSet exampleConfig idledService
   \<and> (\<forall>s n. \<not> ValidatePort exampleConfig (ProtocolOther s) n)
   \<and> svcNeedsIdling exampleConfig (svc_Annotations idledService)
   \<and> AddEndpoints exampleConfig (exampleController idledService (\<lambda>c. False))
        (exampleEndpoints\<lparr>Subsets := []\<rparr>) True []
      = Some (None, [Op (CallAddServiceToIdlingBalancer idledService),
                     Op (CallDeleteServiceFromBalancers idledService)])
   \<and> (\<exists>es. AddEndpoints exampleConfig (exampleController idledService (\<lambda>c. False))
               exampleEndpoints True []
             = Some (None, Op (CallDeleteServiceFromIdlingBalancer idledService) # es))"
proof -
  let ?ovn = "exampleController idledService (\<lambda>c. False)"
  have g: "GetService ?ovn [] (ep_Namespace (exampleEndpoints\<lparr>Subsets := []\<rparr>))
             (ep_Name (exampleEndpoints\<lparr>Subsets := []\<rparr>)) = Some idledService"
    by (simp add: exampleController_def exampleEndpoints_def)
  have g': "GetService ?ovn [] (ep_Namespace exampleEndpoints) (ep_Name exampleEndpoints)
              = Some idledService"
    by (simp add: exampleController_def exampleEndpoints_def)
  have i: "IsClusterIPSet exampleConfig idledService"
    by (simp add: exampleConfig_def idledService_def exampleService_def)
  have V: "\<forall>s n. \<not> ValidatePort exampleConfig (ProtocolOther s) n"
    by (simp add: exampleConfig_def)
  have n: "svcNeedsIdling exampleConfig (svc_Annotations idledService)"
    by (simp add: svcNeedsIdling_def HasSuffix_def exampleConfig_def idledService_def)
  have a: "AddEndpoints exampleConfig ?ovn (exampleEndpoints\<lparr>Subsets := []\<rparr>) True []
      = Some (None, [Op (CallAddServiceToIdlingBalancer idledService),
                     Op (CallDeleteServiceFromBalancers idledService)])"
    using AddEndpoints_idling_gate[OF g i V, of True] n by simp
  have ne: "Subsets exampleEndpoints \<noteq> []" by (simp add: exampleEndpoints_def)
  have logs: "getLbEndpoints exampleConfig exampleEndpoints [] = Some (m, logs) \<Longrightarrow> logs = []" for m logs
    by (simp add: getLbEndpoints_def getLbEndpointsPort_def exampleEndpoints_def
        exampleConfig_def storeLbEndpoints_def emptyProtoPortMap_def lookupLbEndpoints_def)
  have b: "\<exists>es. AddEndpoints exampleConfig ?ovn exampleEndpoints True []
             = Some (None, Op (CallDeleteServiceFromIdlingBalancer idledService) # es)"
    using AddEndpoints_idling_gate[OF g' i V, of True] ne logs by auto
  show ?thesis using g i V n a b by simp
qed

section \<open>Every failure is logged\<close>

text \<open>The traces inside the body of the loop over the gateways, when both lookups answer.\<close>

lemma deleteEndpointsGateway_found:
  assumes "getGatewayLoadBalancer ovn h gateway (sp_Protocol svcPort) = Inr gatewayLB"
    and "h1 = h @ [Op (CallGetGatewayLoadBalancer gateway (sp_Protocol svcPort))]"
    and "h2 = (if Gateway_Mode cfg = GatewayModeShared
               then clearVIP ovn gatewayLB (svc_ClusterIP svc) (sp_Port svcPort) h1 else h1)"
    and "GetWorkerLoadBalancer ovn h2 (GetWorkerFromGatewayRouter cfg gateway) (sp_Protocol svcPort)
           = Inr workerLB"
    and "h3 = h2 @ [Op (CallGetWorkerLoadBalancer (GetWorkerFromGatewayRouter cfg gateway)
                          (sp_Protocol svcPort))]"
    and "h4 = (if Gateway_Mode cfg = GatewayModeShared
               then clearVIP ovn workerLB (svc_ClusterIP svc) (sp_Port svcPort) h3 else h3)"
  shows "deleteEndpointsGateway cfg ovn svc svcPort gateway h =
           deleteNodePortAndExternal cfg ovn svc svcPort gateway gatewayLB workerLB
             (fold (deleteIngressVIP ovn svcPort gatewayLB workerLB) (svc_Ingress svc) h4)"
  using assms
  by (cases "Gateway_Mode cfg = GatewayModeShared") (simp_all add: deleteEndpointsGateway_def Let_def)

lemma failuresLogged_append:
  "failuresLogged ovn h es1 \<Longrightarrow> failuresLogged ovn (h @ es1) es2
     \<Longrightarrow> failuresLogged ovn h (es1 @ es2)"
proof (induction es1 arbitrary: h)
  case Nil
  then show ?case by simp
next
  case (Cons e es1)
  show ?case
  proof (cases e)
    case (LogError msg)
    with Cons.prems Cons.IH[of "h @ [LogError msg]"] show ?thesis by simp
  next
    case (Op c)
    with Cons.prems Cons.IH[of "h @ [Op c]"] show ?thesis
      by (auto split: if_splits list.splits event.splits)
  qed
qed

lemma failuresLogged_logs:
  "\<forall>e \<in> set es. \<exists>msg. e = LogError msg \<Longrightarrow> failuresLogged ovn h es"
  by (induction es arbitrary: h) auto

lemma logsFailures_refl: "logsFailures ovn h h"
  by (simp add: logsFailures_def)

lemma logsFailures_trans:
  "logsFailures ovn h h1 \<Longrightarrow> logsFailures ovn h1 h2 \<Longrightarrow> logsFailures ovn h h2"
  unfolding logsFailures_def using failuresLogged_append by fastforce

lemma logsFailures_fold:
  assumes "\<And>x h. logsFailures ovn h (f x h)"
  shows "logsFailures ovn h (fold f xs h)"
proof (induction xs arbitrary: h)
  case Nil
  show ?case by (simp add: logsFailures_refl)
next
  case (Cons x xs)
  show ?case using logsFailures_trans[OF assms[of h x] Cons.IH[of "f x h"]] by simp
qed

lemma logsFailures_ok: "\<not> failedAt ovn h c \<Longrightarrow> logsFailures ovn h (h @ [Op c])"
  by (simp add: logsFailures_def)

lemma logsFailures_failed: "logsFailures ovn h (h @ [Op c, LogError msg])"
  by (simp add: logsFailures_def)

lemma logsFailures_logs:
  "\<forall>e \<in> set es. \<exists>msg. e = LogError msg \<Longrightarrow> logsFailures ovn h (h @ es)"
  by (simp add: logsFailures_def failuresLogged_logs)

lemma logsFailures_callLogged:
  assumes "failedAt ovn h c \<longrightarrow> callErr ovn h c \<noteq> None"
  shows "logsFailures ovn h (callLogged ovn c msg h)"
proof (cases "callErr ovn h c")
  case None
  with assms have "\<not> failedAt ovn h c" by simp
  with None show ?thesis by (simp add: callLogged_def doCall_def logsFailures_ok)
next
  case (Some err)
  then show ?thesis
    using logsFailures_failed[of ovn h c msg] by (simp add: callLogged_def doCall_def)
qed

lemma logsFailures_addNodePortVIPs:
  "logsFailures ovn h (snd (addNodePortVIPs cfg ovn svc svcPort lbEps h))"
proof (cases "ServiceTypeHasNodePort cfg svc")
  case False
  then show ?thesis by (simp add: addNodePortVIPs_def logsFailures_refl)
next
  case True
  let ?c = "CallCreatePerNodeVIPs [] (sp_Protocol svcPort) (sp_NodePort svcPort)
              (lb_IPs lbEps) (lb_Port lbEps)"
  show ?thesis
  proof (cases "callErr ovn h ?c")
    case None
    then have "\<not> failedAt ovn h ?c" by simp
    from logsFailures_ok[OF this] True None show ?thesis
      by (simp add: addNodePortVIPs_def doCall_def)
  next
    case (Some err)
    with True logsFailures_failed[of ovn h ?c] show ?thesis
      by (simp add: addNodePortVIPs_def doCall_def)
  qed
qed

lemma logsFailures_addClusterIPVIP:
  "logsFailures ovn h
     (snd (addClusterIPVIP cfg ovn svc svcPort lbEps loadBalancer addClusterLBs h))"
proof -
  let ?pn = "CallCreatePerNodeVIPs [svc_ClusterIP svc] (sp_Protocol svcPort)
               (sp_Port svcPort) (lb_IPs lbEps) (lb_Port lbEps)"
  let ?cl = "CallCreateLoadBalancerVIPs loadBalancer [svc_ClusterIP svc]
               (sp_Port svcPort) (lb_IPs lbEps) (lb_Port lbEps)"
  let ?del = "CallDeleteLoadBalancerVIP loadBalancer
                (JoinHostPortInt32 cfg (svc_ClusterIP svc) (sp_Port svcPort))"
  let ?dn = "CallDeleteNodeVIPs [svc_ClusterIP svc] (sp_Protocol svcPort) (sp_Port svcPort)"
  consider (host) "hasHostEndpoints cfg (lb_IPs lbEps) \<and> Gateway_Mode cfg = GatewayModeShared"
    | (cluster) "\<not> (hasHostEndpoints cfg (lb_IPs lbEps) \<and> Gateway_Mode cfg = GatewayModeShared)"
                "addClusterLBs"
    | (none) "\<not> (hasHostEndpoints cfg (lb_IPs lbEps) \<and> Gateway_Mode cfg = GatewayModeShared)"
             "\<not> addClusterLBs"
    by blast
  then show ?thesis
  proof cases
    case host
    show ?thesis
    proof (cases "callErr ovn h ?pn")
      case (Some err)
      with host logsFailures_failed[of ovn h ?pn] show ?thesis
        by (simp add: addClusterIPVIP_def doCall_def)
    next
      case None
      then have "\<not> failedAt ovn h ?pn" by simp
      from logsFailures_trans[OF logsFailures_ok[OF this]
          logsFailures_callLogged[of ovn "h @ [Op ?pn]" ?del "''%v''"]]
      show ?thesis using host None by (simp add: addClusterIPVIP_def doCall_def)
    qed
  next
    case cluster
    show ?thesis
    proof (cases "callErr ovn h ?cl")
      case (Some err)
      with cluster logsFailures_failed[of ovn h ?cl] show ?thesis
        by (auto simp: addClusterIPVIP_def doCall_def)
    next
      case None
      then have a: "\<not> failedAt ovn h ?cl" by simp
      have b: "\<not> failedAt ovn (h @ [Op ?cl]) ?dn" by simp
      from logsFailures_trans[OF logsFailures_ok[OF a] logsFailures_ok[OF b]]
      show ?thesis using cluster None by (auto simp: addClusterIPVIP_def doCall_def)
    qed
  next
    case none
    then show ?thesis by (auto simp: addClusterIPVIP_def logsFailures_refl)
  qed
qed

lemma logsFailures_addExternalIPVIPs:
  "logsFailures ovn h (addExternalIPVIPs ovn svc svcPort lbEps h)"
  by (simp add: addExternalIPVIPs_def logsFailures_callLogged logsFailures_refl)

lemma logsFailures_addIngressVIP:
  "logsFailures ovn h (addIngressVIP ovn svcPort lbEps ing h)"
  by (simp add: addIngressVIP_def logsFailures_callLogged logsFailures_refl)

lemma logsFailures_addClusterIPBlock:
  "logsFailures ovn h (addClusterIPBlock cfg ovn svc svcPort lbEps addClusterLBs h)"
proof (cases "getLoadBalancer ovn h (sp_Protocol svcPort)")
  case (Inl err)
  then show ?thesis by (simp add: addClusterIPBlock_def logsFailures_failed)
next
  case (Inr loadBalancer)
  let ?h0 = "h @ [Op (CallGetLoadBalancer (sp_Protocol svcPort))]"
  obtain go h1 where r: "addClusterIPVIP cfg ovn svc svcPort lbEps loadBalancer addClusterLBs ?h0 = (go, h1)"
    by (cases "addClusterIPVIP cfg ovn svc svcPort lbEps loadBalancer addClusterLBs ?h0")
  have "\<not> failedAt ovn h (CallGetLoadBalancer (sp_Protocol svcPort))" using Inr by simp
  then have a: "logsFailures ovn h ?h0" by (rule logsFailures_ok)
  have b: "logsFailures ovn ?h0 h1"
    using logsFailures_addClusterIPVIP[of ovn ?h0 cfg svc svcPort lbEps loadBalancer addClusterLBs] r
    by simp
  have c: "logsFailures ovn h1 (fold (addIngressVIP ovn svcPort lbEps) (svc_Ingress svc)
                 (addExternalIPVIPs ovn svc svcPort lbEps h1))"
    by (rule logsFailures_trans[OF logsFailures_addExternalIPVIPs])
       (rule logsFailures_fold, rule logsFailures_addIngressVIP)
  show ?thesis
    using Inr r logsFailures_trans[OF a b] logsFailures_trans[OF logsFailures_trans[OF a b] c]
    by (cases go) (simp_all add: addClusterIPBlock_def)
qed

lemma logsFailures_addEndpointsPort:
  "logsFailures ovn h (addEndpointsPort cfg ovn svc addClusterLBs m svcPort h)"
proof (cases "lookupLbEndpoints m (sp_Protocol svcPort) (sp_Name svcPort)")
  case None
  then show ?thesis by (simp add: addEndpointsPort_def logsFailures_refl)
next
  case (Some lbEps)
  obtain go h1 where r: "addNodePortVIPs cfg ovn svc svcPort lbEps h = (go, h1)"
    by (cases "addNodePortVIPs cfg ovn svc svcPort lbEps h")
  have a: "logsFailures ovn h h1"
    using logsFailures_addNodePortVIPs[of ovn h cfg svc svcPort lbEps] r by simp
  have b: "logsFailures ovn h (addClusterIPBlock cfg ovn svc svcPort lbEps addClusterLBs h1)"
    by (rule logsFailures_trans[OF a logsFailures_addClusterIPBlock])
  have l: "logsFailures ovn h
             (h @ [LogError ''Rejecting endpoint creation for unsupported SCTP protocol: %s, %s''])"
    by (rule logsFailures_logs) simp
  show ?thesis
    using Some r a b l by (cases go) (simp_all add: addEndpointsPort_def)
qed

lemma AddEndpoints_logs_failures:
  assumes V: "\<forall>s n. \<not> ValidatePort cfg (ProtocolOther s) n"
  shows "\<exists>es. AddEndpoints cfg ovn ep addClusterLBs h = Some (None, h @ es)
           \<and> failuresLogged ovn h es"
proof -
  from getLbEndpoints_result[OF V, of ep h]
  obtain m logs where g: "getLbEndpoints cfg ep h = Some (m, h @ logs)" "invalidLogs logs" by blast
  have a: "logsFailures ovn h (h @ logs)"
    using g(2) by (intro logsFailures_logs) (auto simp: invalidLogs_def)
  have idle: "logsFailures ovn h (h @ logs @ [Op (CallAddServiceToIdlingBalancer svc),
                                             Op (CallDeleteServiceFromBalancers svc)])" for svc
  proof -
    have "logsFailures ovn (h @ logs) ((h @ logs) @ [Op (CallAddServiceToIdlingBalancer svc)])"
      by (rule logsFailures_ok) simp
    moreover have "logsFailures ovn ((h @ logs) @ [Op (CallAddServiceToIdlingBalancer svc)])
        (((h @ logs) @ [Op (CallAddServiceToIdlingBalancer svc)])
           @ [Op (CallDeleteServiceFromBalancers svc)])"
      by (rule logsFailures_ok) simp
    ultimately show ?thesis
      using logsFailures_trans[OF a logsFailures_trans] by simp
  qed
  have active: "logsFailures ovn h
                 (fold (addEndpointsPort cfg ovn svc addClusterLBs m) (svc_Ports svc)
                    (h @ logs @ [Op (CallDeleteServiceFromIdlingBalancer svc)]))" for svc
  proof -
    have "logsFailures ovn (h @ logs) ((h @ logs) @ [Op (CallDeleteServiceFromIdlingBalancer svc)])"
      by (rule logsFailures_ok) simp
    from logsFailures_trans[OF a this]
    have "logsFailures ovn h (h @ logs @ [Op (CallDeleteServiceFromIdlingBalancer svc)])" by simp
    moreover have "logsFailures ovn (h @ logs @ [Op (CallDeleteServiceFromIdlingBalancer svc)])
        (fold (addEndpointsPort cfg ovn svc addClusterLBs m) (svc_Ports svc)
           (h @ logs @ [Op (CallDeleteServiceFromIdlingBalancer svc)]))"
      by (rule logsFailures_fold) (rule logsFailures_addEndpointsPort)
    ultimately show ?thesis by (rule logsFailures_trans)
  qed
  have "\<exists>h'. AddEndpoints cfg ovn ep addClusterLBs h = Some (None, h') \<and> logsFailures ovn h h'"
    using g(1) idle active
    by (auto simp: AddEndpoints_def logsFailures_refl split: option.splits)
  then show ?thesis unfolding logsFailures_def by blast
qed

lemma logsFailures_clearVIP: "logsFailures ovn h (clearVIP ovn lb ip port h)"
  by (simp add: clearVIP_def logsFailures_callLogged)

lemma logsFailures_deleteIngressVIP:
  "logsFailures ovn h (deleteIngressVIP ovn svcPort gatewayLB workerLB ing h)"
  unfolding deleteIngressVIP_def
  by (auto intro: logsFailures_refl logsFailures_trans[OF logsFailures_clearVIP logsFailures_clearVIP])

lemma logsFailures_deleteNodePortVIP:
  "logsFailures ovn h (deleteNodePortVIP ovn svcPort gatewayLB workerLB physicalIP h)"
  unfolding deleteNodePortVIP_def
  by (rule logsFailures_trans[OF logsFailures_clearVIP logsFailures_clearVIP])

lemma logsFailures_deleteExternalIPVIP:
  "logsFailures ovn h (deleteExternalIPVIP ovn svcPort gatewayLB workerLB extIP h)"
  unfolding deleteExternalIPVIP_def
  by (rule logsFailures_trans[OF logsFailures_clearVIP logsFailures_clearVIP])

lemma logsFailures_deleteNodePortAndExternal:
  "logsFailures ovn h
     (deleteNodePortAndExternal cfg ovn svc svcPort gateway gatewayLB workerLB h)"
proof -
  have ext: "logsFailures ovn h0
               (fold (deleteExternalIPVIP ovn svcPort gatewayLB workerLB) (svc_ExternalIPs svc) h0)"
    for h0
    by (rule logsFailures_fold) (rule logsFailures_deleteExternalIPVIP)
  have np: "logsFailures ovn h0
               (fold (deleteNodePortVIP ovn svcPort gatewayLB workerLB) ips h0)" for h0 ips
    by (rule logsFailures_fold) (rule logsFailures_deleteNodePortVIP)
  show ?thesis
  proof (cases "ServiceTypeHasNodePort cfg svc")
    case False
    then show ?thesis using ext by (simp add: deleteNodePortAndExternal_def)
  next
    case True
    obtain ips err where g: "getGatewayPhysicalIPs ovn h gateway = (ips, err)"
      by (cases "getGatewayPhysicalIPs ovn h gateway")
    show ?thesis
    proof (cases err)
      case (Some e)
      with True g show ?thesis by (simp add: deleteNodePortAndExternal_def logsFailures_failed)
    next
      case None
      with g have "\<not> failedAt ovn h (CallGetGatewayPhysicalIPs gateway)" by simp
      from logsFailures_trans[OF logsFailures_ok[OF this] logsFailures_trans[OF np ext]]
      show ?thesis using True g None by (simp add: deleteNodePortAndExternal_def)
    qed
  qed
qed

lemma logsFailures_deleteEndpointsGateway:
  "logsFailures ovn h (deleteEndpointsGateway cfg ovn svc svcPort gateway h)"
proof (cases "getGatewayLoadBalancer ovn h gateway (sp_Protocol svcPort)")
  case (Inl err)
  then show ?thesis by (simp add: deleteEndpointsGateway_def logsFailures_failed)
next
  case (Inr gatewayLB)
  let ?h1 = "h @ [Op (CallGetGatewayLoadBalancer gateway (sp_Protocol svcPort))]"
  let ?h2 = "if Gateway_Mode cfg = GatewayModeShared
             then clearVIP ovn gatewayLB (svc_ClusterIP svc) (sp_Port svcPort) ?h1 else ?h1"
  let ?w = "GetWorkerFromGatewayRouter cfg gateway"
  have "\<not> failedAt ovn h (CallGetGatewayLoadBalancer gateway (sp_Protocol svcPort))"
    using Inr by simp
  then have a: "logsFailures ovn h ?h1" by (rule logsFailures_ok)
  have b: "logsFailures ovn ?h1 ?h2" by (simp add: logsFailures_refl logsFailures_clearVIP)
  have ab: "logsFailures ovn h ?h2" by (rule logsFailures_trans[OF a b])
  show ?thesis
  proof (cases "GetWorkerLoadBalancer ovn ?h2 ?w (sp_Protocol svcPort)")
    case (Inl err)
    have "logsFailures ovn ?h2 (?h2 @ [Op (CallGetWorkerLoadBalancer ?w (sp_Protocol svcPort)),
                         LogError ''Worker switch %s does not have load balancer (%v)''])"
      by (rule logsFailures_failed)
    from logsFailures_trans[OF ab this] Inr Inl show ?thesis
      by (simp add: deleteEndpointsGateway_def Let_def)
  next
    case (Inr workerLB)
    let ?h3 = "?h2 @ [Op (CallGetWorkerLoadBalancer ?w (sp_Protocol svcPort))]"
    let ?h4 = "if Gateway_Mode cfg = GatewayModeShared
               then clearVIP ovn workerLB (svc_ClusterIP svc) (sp_Port svcPort) ?h3 else ?h3"
    let ?h5 = "fold (deleteIngressVIP ovn svcPort gatewayLB workerLB) (svc_Ingress svc) ?h4"
    have "\<not> failedAt ovn ?h2 (CallGetWorkerLoadBalancer ?w (sp_Protocol svcPort))"
      using Inr by simp
    then have c: "logsFailures ovn ?h2 ?h3" by (rule logsFailures_ok)
    have d: "logsFailures ovn ?h3 ?h4" by (simp add: logsFailures_refl logsFailures_clearVIP)
    have e: "logsFailures ovn ?h4 ?h5"
      by (rule logsFailures_fold) (rule logsFailures_deleteIngressVIP)
    have f: "logsFailures ovn ?h5
               (deleteNodePortAndExternal cfg ovn svc svcPort gateway gatewayLB workerLB ?h5)"
      by (rule logsFailures_deleteNodePortAndExternal)
    have "logsFailures ovn h
            (deleteNodePortAndExternal cfg ovn svc svcPort gateway gatewayLB workerLB ?h5)"
      by (rule logsFailures_trans[OF ab logsFailures_trans[OF c logsFailures_trans[OF d
            logsFailures_trans[OF e f]]]])
    then show ?thesis
      using deleteEndpointsGateway_found[OF \<open>getGatewayLoadBalancer ovn h gateway (sp_Protocol svcPort) = Inr gatewayLB\<close>
          refl refl Inr refl refl]
      by simp
  qed
qed

lemma logsFailures_deleteEndpointsPort:
  "logsFailures ovn h (deleteEndpointsPort cfg ovn svc gateways svcPort h)"
proof (cases "getLoadBalancer ovn h (sp_Protocol svcPort)")
  case (Inl err)
  then show ?thesis by (simp add: deleteEndpointsPort_def logsFailures_failed)
next
  case (Inr clusterLB)
  let ?h1 = "h @ [Op (CallGetLoadBalancer (sp_Protocol svcPort))]"
  let ?h2 = "clearVIP ovn clusterLB (svc_ClusterIP svc) (sp_Port svcPort) ?h1"
  have "\<not> failedAt ovn h (CallGetLoadBalancer (sp_Protocol svcPort))" using Inr by simp
  then have a: "logsFailures ovn h ?h1" by (rule logsFailures_ok)
  have c: "logsFailures ovn ?h2 (fold (deleteEndpointsGateway cfg ovn svc svcPort) gateways ?h2)"
    by (rule logsFailures_fold) (rule logsFailures_deleteEndpointsGateway)
  show ?thesis
    using Inr logsFailures_trans[OF a logsFailures_trans[OF logsFailures_clearVIP c]]
    by (simp add: deleteEndpointsPort_def)
qed

lemma deleteEndpoints_logs_failures:
  "\<exists>es. deleteEndpoints cfg ovn ep h = (None, h @ es) \<and> failuresLogged ovn h es"
proof -
  have idle: "logsFailures ovn h (h @ [Op (CallAddServiceToIdlingBalancer svc),
                                      Op (CallDeleteServiceFromBalancers svc)])" for svc
    by (simp add: logsFailures_def)
  have active: "logsFailures ovn h
      (fold (deleteEndpointsPort cfg ovn svc gateways) (svc_Ports svc) h2)"
    if "getOvnGateways ovn (h @ [Op (CallDeleteServiceFromIdlingBalancer svc)]) = (gateways, err)"
      and "h2 = (case err of None \<Rightarrow> (h @ [Op (CallDeleteServiceFromIdlingBalancer svc)]) @ [Op CallGetOvnGateways]
                 | Some e \<Rightarrow> (h @ [Op (CallDeleteServiceFromIdlingBalancer svc)]) @ [Op CallGetOvnGateways, LogError ''%v''])"
    for svc gateways err h2
  proof -
    let ?h1 = "h @ [Op (CallDeleteServiceFromIdlingBalancer svc)]"
    have a: "logsFailures ovn h ?h1" by (rule logsFailures_ok) simp
    have b: "logsFailures ovn ?h1 h2"
    proof (cases err)
      case None
      with that(1) have "\<not> failedAt ovn ?h1 CallGetOvnGateways" by simp
      from logsFailures_ok[OF this] None that(2) show ?thesis by simp
    next
      case (Some e)
      with that(2) logsFailures_failed[of ovn ?h1 CallGetOvnGateways "''%v''"] show ?thesis by simp
    qed
    have c: "logsFailures ovn h2 (fold (deleteEndpointsPort cfg ovn svc gateways) (svc_Ports svc) h2)"
      by (rule logsFailures_fold) (rule logsFailures_deleteEndpointsPort)
    show ?thesis by (rule logsFailures_trans[OF a logsFailures_trans[OF b c]])
  qed
  have "\<exists>h'. deleteEndpoints cfg ovn ep h = (None, h') \<and> logsFailures ovn h h'"
  proof (cases "GetService ovn h (ep_Namespace ep) (ep_Name ep)")
    case None
    then show ?thesis by (simp add: deleteEndpoints_def logsFailures_refl)
  next
    case (Some svc)
    show ?thesis
    proof (cases "\<not> IsClusterIPSet cfg svc \<or> svcNeedsIdling cfg (svc_Annotations svc)")
      case True
      with Some idle[of svc] show ?thesis
        by (auto simp: deleteEndpoints_def logsFailures_refl)
    next
      case False
      obtain gateways err where g:
        "getOvnGateways ovn (h @ [Op (CallDeleteServiceFromIdlingBalancer svc)]) = (gateways, err)"
        by (cases "getOvnGateways ovn (h @ [Op (CallDeleteServiceFromIdlingBalancer svc)])")
      from active[OF g refl] Some False g show ?thesis
        by (simp add: deleteEndpoints_def Let_def split: option.splits)
    qed
  qed
  then show ?thesis unfolding logsFailures_def by blast
qed

section \<open>Failures are logged, not returned\<close>

lemma deleteEndpoints_nil: "\<exists>h'. deleteEndpoints cfg ovn ep h = (None, h')"
  by (auto simp: deleteEndpoints_def Let_def split: option.splits prod.splits)

lemma legacy_endpoints_nil:
  assumes V: "\<forall>s n. \<not> ValidatePort cfg (ProtocolOther s) n"
  shows "\<exists>h'. addEndpointsOfNamespace (AddEndpoints cfg ovn) eps h = Some (None, h')
           \<and> extendsWith (\<lambda>e. \<not> clusterTierCreate e) h h'"
proof (induction eps arbitrary: h)
  case Nil
  show ?case by (simp add: extendsWith_refl)
next
  case (Cons ep eps)
  from AddEndpoints_result[OF V, of ovn ep False h]
  obtain h1 where a: "AddEndpoints cfg ovn ep False h = Some (None, h1)"
      "extendsWith (\<lambda>e. \<not> clusterTierCreate e) h h1"
    by auto
  from Cons.IH[of h1] obtain h2 where
    b: "addEndpointsOfNamespace (AddEndpoints cfg ovn) eps h1 = Some (None, h2)"
       "extendsWith (\<lambda>e. \<not> clusterTierCreate e) h1 h2"
    by blast
  show ?case using a(1) b(1) extendsWith_trans[OF a(2) b(2)] by simp
qed

lemma legacy_namespaces_nil:
  assumes V: "\<forall>s n. \<not> ValidatePort cfg (ProtocolOther s) n"
  shows "\<exists>h'. addEndpointsOfNamespaces (AddEndpoints cfg ovn) ovn nss h = Some (None, h')
           \<and> extendsWith (\<lambda>e. \<not> clusterTierCreate e) h h'"
proof (induction nss arbitrary: h)
  case Nil
  show ?case by (simp add: extendsWith_refl)
next
  case (Cons ns nss)
  show ?case
  proof (cases "GetEndpoints ovn h (ns_Name ns)")
    case (Inl err)
    let ?h1 = "h @ [LogError ''Failed to get k8s endpoints: %v'']"
    from Cons.IH[of ?h1] obtain h2 where
      b: "addEndpointsOfNamespaces (AddEndpoints cfg ovn) ovn nss ?h1 = Some (None, h2)"
         "extendsWith (\<lambda>e. \<not> clusterTierCreate e) ?h1 h2"
      by blast
    have a: "extendsWith (\<lambda>e. \<not> clusterTierCreate e) h ?h1"
      by (rule extendsWith_append) simp
    show ?thesis using Inl b(1) extendsWith_trans[OF a b(2)] by simp
  next
    case (Inr endpoints)
    from legacy_endpoints_nil[OF V, of ovn endpoints h] obtain h1 where
      a: "addEndpointsOfNamespace (AddEndpoints cfg ovn) endpoints h = Some (None, h1)"
         "extendsWith (\<lambda>e. \<not> clusterTierCreate e) h h1"
      by blast
    from Cons.IH[of h1] obtain h2 where
      b: "addEndpointsOfNamespaces (AddEndpoints cfg ovn) ovn nss h1 = Some (None, h2)"
         "extendsWith (\<lambda>e. \<not> clusterTierCreate e) h1 h2"
      by blast
    show ?thesis using Inr a(1) b(1) extendsWith_trans[OF a(2) b(2)] by simp
  qed
qed

lemma handleNodePortLBWith_checked:
  assumes "isGatewayInterfaceNone cfg
           \<or> fst (getGatewayPhysicalIPs ovn h (GWRouterPrefix cfg @ node_Name node)) \<noteq> None"
  shows "handleNodePortLBWith add cfg ovn node h = resyncServices add ovn (afterGuard cfg node h)"
  using assms
  by (cases "getGatewayPhysicalIPs ovn h (GWRouterPrefix cfg @ node_Name node)")
     (auto simp: handleNodePortLBWith_def afterGuard_def Let_def split: option.splits)

lemma legacy_endpoints_logged:
  assumes V: "\<forall>s n. \<not> ValidatePort cfg (ProtocolOther s) n"
  shows "\<exists>h'. addEndpointsOfNamespace (AddEndpoints cfg ovn) eps h = Some (None, h')
           \<and> logsFailures ovn h h'"
proof (induction eps arbitrary: h)
  case Nil
  show ?case by (simp add: logsFailures_refl)
next
  case (Cons ep eps)
  from AddEndpoints_logs_failures[OF V, of ovn ep False h]
  obtain h1 where a: "AddEndpoints cfg ovn ep False h = Some (None, h1)" "logsFailures ovn h h1"
    unfolding logsFailures_def by blast
  from Cons.IH[of h1] obtain h2 where
    b: "addEndpointsOfNamespace (AddEndpoints cfg ovn) eps h1 = Some (None, h2)"
       "logsFailures ovn h1 h2"
    by blast
  show ?case using a(1) b(1) logsFailures_trans[OF a(2) b(2)] by simp
qed

lemma legacy_namespaces_logged:
  assumes V: "\<forall>s n. \<not> ValidatePort cfg (ProtocolOther s) n"
  shows "\<exists>h'. addEndpointsOfNamespaces (AddEndpoints cfg ovn) ovn nss h = Some (None, h')
           \<and> logsFailures ovn h h'"
proof (induction nss arbitrary: h)
  case Nil
  show ?case by (simp add: logsFailures_refl)
next
  case (Cons ns nss)
  show ?case
  proof (cases "GetEndpoints ovn h (ns_Name ns)")
    case (Inl err)
    let ?h1 = "h @ [LogError ''Failed to get k8s endpoints: %v'']"
    from Cons.IH[of ?h1] obtain h2 where
      b: "addEndpointsOfNamespaces (AddEndpoints cfg ovn) ovn nss ?h1 = Some (None, h2)"
         "logsFailures ovn ?h1 h2"
      by blast
    have a: "logsFailures ovn h ?h1" by (rule logsFailures_logs) simp
    show ?thesis using Inl b(1) logsFailures_trans[OF a b(2)] by simp
  next
    case (Inr endpoints)
    from legacy_endpoints_logged[OF V, of ovn endpoints h] obtain h1 where
      a: "addEndpointsOfNamespace (AddEndpoints cfg ovn) endpoints h = Some (None, h1)"
         "logsFailures ovn h h1"
      by blast
    from Cons.IH[of h1] obtain h2 where
      b: "addEndpointsOfNamespaces (AddEndpoints cfg ovn) ovn nss h1 = Some (None, h2)"
         "logsFailures ovn h1 h2"
      by blast
    show ?thesis using Inr a(1) b(1) logsFailures_trans[OF a(2) b(2)] by simp
  qed
qed

text \<open>
  C10. With \<^verbatim>\<open>util.ValidatePort\<close> rejecting unknown protocols (so that the aggregation does
  not panic), \<open>AddEndpoints\<close> and \<open>deleteEndpoints\<close> return \<^verbatim>\<open>nil\<close> on every input and every
  trace, whatever the collaborators answer; and in the events they add to the trace every
  failed call (a create or clear that returned an error, a load-balancer or gateway lookup
  that returned an error) is followed at once by a log line. So the legacy loops of
  \<open>handleNodePortLB\<close> never take the branch that returns an error: they return \<^verbatim>\<open>nil\<close>,
  with every failure logged; a namespace whose Endpoints cannot be listed costs one log
  line and the loop goes on with the next; and in legacy mode, once the check of the
  physical IPs has passed and the namespaces are listed, \<open>handleNodePortLB\<close> returns
  \<^verbatim>\<open>nil\<close>.
\<close>

theorem failures_are_never_returned:
  assumes "\<forall>s n. \<not> ValidatePort cfg (ProtocolOther s) n"
  shows "(\<exists>es. AddEndpoints cfg ovn ep addClusterLBs h = Some (None, h @ es)
             \<and> failuresLogged ovn h es)
       \<and> (\<exists>es. deleteEndpoints cfg ovn ep h = (None, h @ es) \<and> failuresLogged ovn h es)
       \<and> (\<exists>es. addEndpointsOfNamespaces (AddEndpoints cfg ovn) ovn nss h = Some (None, h @ es)
             \<and> failuresLogged ovn h es)
       \<and> (GetEndpoints ovn h (ns_Name ns) = Inl err \<longrightarrow>
            addEndpointsOfNamespaces (AddEndpoints cfg ovn) ovn (ns # nss) h =
              addEndpointsOfNamespaces (AddEndpoints cfg ovn) ovn nss
                (h @ [LogError ''Failed to get k8s endpoints: %v'']))
       \<and> (\<not> svcController ovn
            \<and> (isGatewayInterfaceNone cfg
                \<or> fst (getGatewayPhysicalIPs ovn h (GWRouterPrefix cfg @ node_Name node)) \<noteq> None)
            \<and> GetNamespaces ovn (afterGuard cfg node h) = Inr namespaces
          \<longrightarrow> (\<exists>h'. handleNodePortLB cfg ovn node h = Some (None, h')))"
proof (intro conjI impI)
  show "\<exists>es. AddEndpoints cfg ovn ep addClusterLBs h = Some (None, h @ es)
             \<and> failuresLogged ovn h es"
    by (rule AddEndpoints_logs_failures[OF assms])
  show "\<exists>es. deleteEndpoints cfg ovn ep h = (None, h @ es) \<and> failuresLogged ovn h es"
    by (rule deleteEndpoints_logs_failures)
  show "\<exists>es. addEndpointsOfNamespaces (AddEndpoints cfg ovn) ovn nss h = Some (None, h @ es)
             \<and> failuresLogged ovn h es"
    using legacy_namespaces_logged[OF assms, of ovn nss h] unfolding logsFailures_def by blast
next
  assume "GetEndpoints ovn h (ns_Name ns) = Inl err"
  then show "addEndpointsOfNamespaces (AddEndpoints cfg ovn) ovn (ns # nss) h =
              addEndpointsOfNamespaces (AddEndpoints cfg ovn) ovn nss
                (h @ [LogError ''Failed to get k8s endpoints: %v''])"
    by simp
next
  assume a: "\<not> svcController ovn
            \<and> (isGatewayInterfaceNone cfg
                \<or> fst (getGatewayPhysicalIPs ovn h (GWRouterPrefix cfg @ node_Name node)) \<noteq> None)
            \<and> GetNamespaces ovn (afterGuard cfg node h) = Inr namespaces"
  then have "handleNodePortLB cfg ovn node h =
               addEndpointsOfNamespaces (AddEndpoints cfg ovn) ovn namespaces (afterGuard cfg node h)"
    using handleNodePortLBWith_checked[of cfg ovn h node "AddEndpoints cfg ovn"]
    by (simp add: handleNodePortLB_def resyncServices_def)
  then show "\<exists>h'. handleNodePortLB cfg ovn node h = Some (None, h')"
    using legacy_namespaces_nil[OF assms, of ovn namespaces "afterGuard cfg node h"] by auto
qed

text \<open>In the small cluster with every call failing: both functions still return
  \<^verbatim>\<open>nil\<close>, and each failed call of \<open>deleteEndpoints\<close> has its log line.\<close>

theorem failures_are_never_returned_witness:
  "(\<forall>s n. \<not> ValidatePort exampleConfig (ProtocolOther s) n)
   \<and> (\<exists>es. AddEndpoints exampleConfig (exampleController exampleService (\<lambda>c. True))
              exampleEndpoints True [] = Some (None, es)
          \<and> failuresLogged (exampleController exampleService (\<lambda>c. True)) [] es)
   \<and> (\<exists>es. deleteEndpoints exampleConfig (exampleController exampleService (\<lambda>c. True))
              exampleEndpoints [] = (None, es)
          \<and> failuresLogged (exampleController exampleService (\<lambda>c. True)) [] es)
   \<and> GetEndpoints (exampleController exampleService (\<lambda>c. True)) []
        (ns_Name \<lparr>ns_Name = ''kube-system''\<rparr>) = Inl ''not found''
   \<and> addEndpointsOfNamespaces
        (AddEndpoints exampleConfig (exampleController exampleService (\<lambda>c. True)))
        (exampleController exampleService (\<lambda>c. True))
        [\<lparr>ns_Name = ''kube-system''\<rparr>, \<lparr>ns_Name = ''default''\<rparr>] []
      = addEndpointsOfNamespaces
          (AddEndpoints exampleConfig (exampleController exampleService (\<lambda>c. True)))
          (exampleController exampleService (\<lambda>c. True))
          [\<lparr>ns_Name = ''default''\<rparr>] [LogError ''Failed to get k8s endpoints: %v'']
   \<and> \<not> svcController (exampleController exampleService (\<lambda>c. True))
   \<and> (\<exists>h'. handleNodePortLB exampleConfig (exampleController exampleService (\<lambda>c. True))
              \<lparr>node_Name = ''node1''\<rparr> [] = Some (None, h'))"
proof -
  let ?ovn = "exampleController exampleService (\<lambda>c. True)"
  have V: "\<forall>s n. \<not> ValidatePort exampleConfig (ProtocolOther s) n"
    by (simp add: exampleConfig_def)
  have g: "GetEndpoints ?ovn [] (ns_Name \<lparr>ns_Name = ''kube-system''\<rparr>) = Inl ''not found''"
    by (simp add: exampleController_def)
  have c: "\<not> svcController ?ovn" by (simp add: exampleController_def)
  have p: "fst (getGatewayPhysicalIPs ?ovn []
                  (GWRouterPrefix exampleConfig @ node_Name \<lparr>node_Name = ''node1''\<rparr>)) \<noteq> None"
    by (simp add: exampleController_def)
  have n: "GetNamespaces ?ovn (afterGuard exampleConfig \<lparr>node_Name = ''node1''\<rparr> [])
             = Inr [\<lparr>ns_Name = ''default''\<rparr>]"
    by (simp add: exampleController_def)
  note t = failures_are_never_returned[OF V, of ?ovn exampleEndpoints True "[]"
      "[\<lparr>ns_Name = ''default''\<rparr>]" "\<lparr>ns_Name = ''kube-system''\<rparr>" "''not found''"
      "\<lparr>node_Name = ''node1''\<rparr>" "[\<lparr>ns_Name = ''default''\<rparr>]"]
  have l: "[] @ es = es" for es :: "event list" by simp
  show ?thesis using V g c p n t unfolding l by blast
qed

section \<open>Node bootstrap\<close>

lemma legacy_endpoints_flag:
  assumes "\<forall>ep h. add ep False h = add' ep False h"
  shows "addEndpointsOfNamespace add eps h = addEndpointsOfNamespace add' eps h"
  using assms by (induction eps arbitrary: h) (auto split: option.splits prod.splits)

lemma legacy_namespaces_flag:
  assumes "\<forall>ep h. add ep False h = add' ep False h"
  shows "addEndpointsOfNamespaces add ovn nss h = addEndpointsOfNamespaces add' ovn nss h"
  using legacy_endpoints_flag[of add add', OF assms]
  by (induction nss arbitrary: h) (auto split: option.splits prod.splits sum.splits)

lemma handleNodePortLBWith_flag:
  assumes "\<forall>ep h. add ep False h = add' ep False h"
  shows "handleNodePortLBWith add cfg ovn node h = handleNodePortLBWith add' cfg ovn node h"
  using legacy_namespaces_flag[of add add', OF assms]
  by (simp add: handleNodePortLBWith_def resyncServices_def Let_def
      split: option.splits prod.splits sum.splits)

lemma legacy_endpoints_all:
  assumes "\<forall>ep h. \<exists>h'. add ep False h = Some (None, h')"
  shows "addEndpointsOfNamespace add eps h = Some (None, fold (runAdd add) eps h)"
proof (induction eps arbitrary: h)
  case Nil
  show ?case by simp
next
  case (Cons ep eps)
  from assms obtain h1 where a: "add ep False h = Some (None, h1)" by blast
  then show ?case using Cons.IH[of h1] by (simp add: runAdd_def)
qed

lemma legacy_namespaces_all:
  assumes "\<forall>ep h. \<exists>h'. add ep False h = Some (None, h')"
  shows "addEndpointsOfNamespaces add ovn nss h = Some (None, fold (legacyNamespace add ovn) nss h)"
proof (induction nss arbitrary: h)
  case Nil
  show ?case by simp
next
  case (Cons ns nss)
  show ?case
    using Cons.IH legacy_endpoints_all[of add, OF assms]
    by (cases "GetEndpoints ovn h (ns_Name ns)") (simp_all add: legacyNamespace_def)
qed

lemma legacy_endpoints_abort:
  assumes "addEndpointsOfNamespace add eps1 h = Some (None, h1)"
    and "add ep False h1 = Some (Some err, h2)"
  shows "addEndpointsOfNamespace add (eps1 @ ep # eps2) h =
           Some (Some ''unable to handle adding endpoints for new node: %s, error: %v'', h2)"
  using assms
proof (induction eps1 arbitrary: h)
  case Nil
  then show ?case by simp
next
  case (Cons e eps1)
  then show ?case by (auto split: option.splits prod.splits)
qed

lemma legacy_namespaces_append:
  assumes "addEndpointsOfNamespaces add ovn nss1 h = Some (None, h1)"
  shows "addEndpointsOfNamespaces add ovn (nss1 @ nss2) h = addEndpointsOfNamespaces add ovn nss2 h1"
  using assms
proof (induction nss1 arbitrary: h)
  case Nil
  then show ?case by simp
next
  case (Cons ns nss1)
  then show ?case by (auto split: option.splits prod.splits sum.splits)
qed

lemma legacy_namespaces_abort:
  assumes "addEndpointsOfNamespaces add ovn nss1 h = Some (None, h1)"
    and "GetEndpoints ovn h1 (ns_Name ns) = Inr (eps1 @ ep # eps2)"
    and "addEndpointsOfNamespace add eps1 h1 = Some (None, h2)"
    and "add ep False h2 = Some (Some err, h3)"
  shows "addEndpointsOfNamespaces add ovn (nss1 @ ns # nss2) h =
           Some (Some ''unable to handle adding endpoints for new node: %s, error: %v'', h3)"
  using legacy_namespaces_append[OF assms(1), of "ns # nss2"]
        legacy_endpoints_abort[OF assms(3,4), of eps2] assms(2)
  by simp

lemma handleNodePortLB_no_cluster_create:
  assumes V: "\<forall>s n. \<not> ValidatePort cfg (ProtocolOther s) n"
    and r: "handleNodePortLB cfg ovn node h = Some (r, h')"
  shows "extendsWith (\<lambda>e. \<not> clusterTierCreate e) h h'"
proof -
  let ?Q = "\<lambda>e. \<not> clusterTierCreate e"
  let ?gw = "GWRouterPrefix cfg @ node_Name node"
  have sync: "extendsWith ?Q h0 h'" if "resyncServices (AddEndpoints cfg ovn) ovn h0 = Some (r, h')" for h0
  proof (cases "svcController ovn")
    case True
    with that have "h' = h0 @ [Op CallRequestFullSync]"
      by (auto simp: resyncServices_def doCall_def)
    then show ?thesis by (simp add: extendsWith_append)
  next
    case False
    show ?thesis
    proof (cases "GetNamespaces ovn h0")
      case (Inl err)
      with False that have "h' = h0" by (simp add: resyncServices_def)
      then show ?thesis by (simp add: extendsWith_refl)
    next
      case (Inr nss)
      with False that legacy_namespaces_nil[OF V, of ovn nss h0] show ?thesis
        by (auto simp: resyncServices_def)
    qed
  qed
  show ?thesis
  proof (cases "isGatewayInterfaceNone cfg")
    case True
    with r sync[of h] show ?thesis by (simp add: handleNodePortLB_def handleNodePortLBWith_def)
  next
    case False
    have a: "extendsWith ?Q h (h @ [Op (CallGetGatewayPhysicalIPs ?gw)])"
      by (simp add: extendsWith_append)
    obtain ips e where g: "getGatewayPhysicalIPs ovn h ?gw = (ips, e)"
      by (cases "getGatewayPhysicalIPs ovn h ?gw")
    show ?thesis
    proof (cases ips)
      case None
      with False g r a show ?thesis
        by (auto simp: handleNodePortLB_def handleNodePortLBWith_def)
    next
      case (Some physicalIPs)
      with False g r
      have "resyncServices (AddEndpoints cfg ovn) ovn (h @ [Op (CallGetGatewayPhysicalIPs ?gw)]) = Some (r, h')"
        by (simp add: handleNodePortLB_def handleNodePortLBWith_def)
      from extendsWith_trans[OF a sync[OF this]] show ?thesis .
    qed
  qed
qed

lemma handleNodePortLBWith_unchecked:
  assumes "\<not> isGatewayInterfaceNone cfg"
    and "fst (getGatewayPhysicalIPs ovn h (GWRouterPrefix cfg @ node_Name node)) = None"
  shows "handleNodePortLBWith add cfg ovn node h =
           Some (Some ''gateway physical IP for node %q does not yet exist'',
                 h @ [Op (CallGetGatewayPhysicalIPs (GWRouterPrefix cfg @ node_Name node))])"
  using assms
  by (cases "getGatewayPhysicalIPs ovn h (GWRouterPrefix cfg @ node_Name node)")
     (auto simp: handleNodePortLBWith_def Let_def)

text \<open>
  C9 (as amended). \<open>handleNodePortLB\<close> first looks up the physical IPs of the node's
  gateway router (unless the gateway interface is "none"): when there are none it returns
  an error and does nothing else, full-sync controller or not. Once that check has passed:
  with the full-sync controller present it issues the single call \<^verbatim>\<open>RequestFullSync\<close> and
  returns what the call returned; in legacy mode it returns an error when the namespaces
  cannot be listed, and otherwise runs the loops over the listed namespaces. The loops
  call the function for one Endpoints object with the flag \<^verbatim>\<open>false\<close> only (the result does
  not depend on what the function does with \<^verbatim>\<open>true\<close>); when no call fails they call it for
  every Endpoints object of every namespace whose listing succeeds, in order; and the
  first call that returns an error ends the bootstrap with an error. With the
  controller's own \<open>AddEndpoints\<close>, no event of the bootstrap is a placement on the
  cluster-wide load balancer.
\<close>

theorem handleNodePortLB_bootstrap:
  "(\<not> isGatewayInterfaceNone cfg
      \<and> fst (getGatewayPhysicalIPs ovn h (GWRouterPrefix cfg @ node_Name node)) = None
    \<longrightarrow> handleNodePortLBWith add cfg ovn node h =
          Some (Some ''gateway physical IP for node %q does not yet exist'',
                h @ [Op (CallGetGatewayPhysicalIPs (GWRouterPrefix cfg @ node_Name node))]))
   \<and> (isGatewayInterfaceNone cfg
        \<or> fst (getGatewayPhysicalIPs ovn h (GWRouterPrefix cfg @ node_Name node)) \<noteq> None
      \<longrightarrow> (svcController ovn \<longrightarrow>
             handleNodePortLBWith add cfg ovn node h =
               Some (callErr ovn (afterGuard cfg node h) CallRequestFullSync,
                     afterGuard cfg node h @ [Op CallRequestFullSync]))
        \<and> (\<not> svcController ovn \<longrightarrow>
             (\<forall>err. GetNamespaces ovn (afterGuard cfg node h) = Inl err \<longrightarrow>
                  handleNodePortLBWith add cfg ovn node h =
                    Some (Some ''failed to get k8s namespaces: %v'', afterGuard cfg node h))
           \<and> (\<forall>namespaces. GetNamespaces ovn (afterGuard cfg node h) = Inr namespaces \<longrightarrow>
                  handleNodePortLBWith add cfg ovn node h =
                    addEndpointsOfNamespaces add ovn namespaces (afterGuard cfg node h))))
   \<and> ((\<forall>ep h. add ep False h = add' ep False h) \<longrightarrow>
         handleNodePortLBWith add cfg ovn node h = handleNodePortLBWith add' cfg ovn node h)
   \<and> ((\<forall>ep h. \<exists>h'. add ep False h = Some (None, h')) \<longrightarrow>
         addEndpointsOfNamespaces add ovn nss h = Some (None, fold (legacyNamespace add ovn) nss h))
   \<and> (addEndpointsOfNamespaces add ovn nss1 h = Some (None, h1)
        \<and> GetEndpoints ovn h1 (ns_Name ns) = Inr (eps1 @ ep # eps2)
        \<and> addEndpointsOfNamespace add eps1 h1 = Some (None, h2)
        \<and> add ep False h2 = Some (Some err, h3)
      \<longrightarrow> addEndpointsOfNamespaces add ovn (nss1 @ ns # nss2) h =
            Some (Some ''unable to handle adding endpoints for new node: %s, error: %v'', h3))
   \<and> ((\<forall>s n. \<not> ValidatePort cfg (ProtocolOther s) n)
        \<and> handleNodePortLB cfg ovn node h = Some (r, h')
      \<longrightarrow> extendsWith (\<lambda>e. \<not> clusterTierCreate e) h h')"
proof (intro conjI impI allI)
  assume "\<not> isGatewayInterfaceNone cfg
      \<and> fst (getGatewayPhysicalIPs ovn h (GWRouterPrefix cfg @ node_Name node)) = None"
  then show "handleNodePortLBWith add cfg ovn node h =
          Some (Some ''gateway physical IP for node %q does not yet exist'',
                h @ [Op (CallGetGatewayPhysicalIPs (GWRouterPrefix cfg @ node_Name node))])"
    using handleNodePortLBWith_unchecked by blast
next
  assume "isGatewayInterfaceNone cfg
        \<or> fst (getGatewayPhysicalIPs ovn h (GWRouterPrefix cfg @ node_Name node)) \<noteq> None"
    and "svcController ovn"
  then show "handleNodePortLBWith add cfg ovn node h =
               Some (callErr ovn (afterGuard cfg node h) CallRequestFullSync,
                     afterGuard cfg node h @ [Op CallRequestFullSync])"
    using handleNodePortLBWith_checked[of cfg ovn h node add]
    by (simp add: resyncServices_def doCall_def)
next
  fix err
  assume "isGatewayInterfaceNone cfg
        \<or> fst (getGatewayPhysicalIPs ovn h (GWRouterPrefix cfg @ node_Name node)) \<noteq> None"
    and "\<not> svcController ovn" and "GetNamespaces ovn (afterGuard cfg node h) = Inl err"
  then show "handleNodePortLBWith add cfg ovn node h =
                    Some (Some ''failed to get k8s namespaces: %v'', afterGuard cfg node h)"
    using handleNodePortLBWith_checked[of cfg ovn h node add]
    by (simp add: resyncServices_def)
next
  fix namespaces
  assume "isGatewayInterfaceNone cfg
        \<or> fst (getGatewayPhysicalIPs ovn h (GWRouterPrefix cfg @ node_Name node)) \<noteq> None"
    and "\<not> svcController ovn" and "GetNamespaces ovn (afterGuard cfg node h) = Inr namespaces"
  then show "handleNodePortLBWith add cfg ovn node h =
                    addEndpointsOfNamespaces add ovn namespaces (afterGuard cfg node h)"
    using handleNodePortLBWith_checked[of cfg ovn h node add]
    by (simp add: resyncServices_def)
next
  assume "\<forall>ep h. add ep False h = add' ep False h"
  then show "handleNodePortLBWith add cfg ovn node h = handleNodePortLBWith add' cfg ovn node h"
    using handleNodePortLBWith_flag[of add add' cfg ovn node h] by blast
next
  assume "\<forall>ep h. \<exists>h'. add ep False h = Some (None, h')"
  then show "addEndpointsOfNamespaces add ovn nss h = Some (None, fold (legacyNamespace add ovn) nss h)"
    using legacy_namespaces_all[of add ovn nss h] by blast
next
  assume "addEndpointsOfNamespaces add ovn nss1 h = Some (None, h1)
        \<and> GetEndpoints ovn h1 (ns_Name ns) = Inr (eps1 @ ep # eps2)
        \<and> addEndpointsOfNamespace add eps1 h1 = Some (None, h2)
        \<and> add ep False h2 = Some (Some err, h3)"
  then show "addEndpointsOfNamespaces add ovn (nss1 @ ns # nss2) h =
            Some (Some ''unable to handle adding endpoints for new node: %s, error: %v'', h3)"
    using legacy_namespaces_abort[of add ovn nss1 h h1 ns eps1 ep eps2 h2 err h3 nss2] by blast
next
  assume "(\<forall>s n. \<not> ValidatePort cfg (ProtocolOther s) n)
        \<and> handleNodePortLB cfg ovn node h = Some (r, h')"
  then show "extendsWith (\<lambda>e. \<not> clusterTierCreate e) h h'"
    using handleNodePortLB_no_cluster_create by blast
qed

theorem handleNodePortLB_bootstrap_witness:
  "svcController (syncController (Some [''192.168.1.7''], None))
   \<and> fst (getGatewayPhysicalIPs (syncController (Some [''192.168.1.7''], None)) []
            (GWRouterPrefix exampleConfig @ node_Name \<lparr>node_Name = ''node1''\<rparr>)) \<noteq> None
   \<and> handleNodePortLBWith (AddEndpoints exampleConfig (syncController (Some [''192.168.1.7''], None)))
        exampleConfig (syncController (Some [''192.168.1.7''], None)) \<lparr>node_Name = ''node1''\<rparr> []
      = Some (None, [Op (CallGetGatewayPhysicalIPs ''GR_node1''), Op CallRequestFullSync])
   \<and> GetEndpoints (exampleController exampleService (\<lambda>c. False)) []
        (ns_Name \<lparr>ns_Name = ''default''\<rparr>) = Inr ([] @ exampleEndpoints # [])
   \<and> addEndpointsOfNamespaces (\<lambda>ep addClusterLBs h. Some (Some ''backend failure'', h))
        (exampleController exampleService (\<lambda>c. False)) ([] @ \<lparr>ns_Name = ''default''\<rparr> # []) []
      = Some (Some ''unable to handle adding endpoints for new node: %s, error: %v'', [])"
proof -
  let ?sync = "syncController (Some [''192.168.1.7''], None)"
  let ?ovn = "exampleController exampleService (\<lambda>c. False)"
  let ?node = "\<lparr>node_Name = ''node1''\<rparr>"
  let ?fail = "\<lambda>(ep::Endpoints) (addClusterLBs::bool) (h::history). Some (Some ''backend failure'', h)"
  have c: "svcController ?sync" by (simp add: syncController_def)
  have p: "fst (getGatewayPhysicalIPs ?sync [] (GWRouterPrefix exampleConfig @ node_Name ?node)) \<noteq> None"
    by (simp add: syncController_def)
  have g: "afterGuard exampleConfig ?node [] = [Op (CallGetGatewayPhysicalIPs ''GR_node1'')]"
    by (simp add: afterGuard_def exampleConfig_def)
  have e: "callErr ?sync [Op (CallGetGatewayPhysicalIPs ''GR_node1'')] CallRequestFullSync = None"
    by (simp add: syncController_def exampleController_def)
  have l: "GetEndpoints ?ovn [] (ns_Name \<lparr>ns_Name = ''default''\<rparr>) = Inr ([] @ exampleEndpoints # [])"
    by (simp add: exampleController_def)
  have a: "handleNodePortLBWith (AddEndpoints exampleConfig ?sync) exampleConfig ?sync ?node []
      = Some (None, [Op (CallGetGatewayPhysicalIPs ''GR_node1''), Op CallRequestFullSync])"
    using handleNodePortLB_bootstrap[of exampleConfig ?sync "[]" ?node
            "AddEndpoints exampleConfig ?sync"] c p g e
    by simp
  have n0: "addEndpointsOfNamespaces ?fail ?ovn [] [] = Some (None, [])" by simp
  have e0: "addEndpointsOfNamespace ?fail [] [] = Some (None, [])" by simp
  have f: "?fail exampleEndpoints False [] = Some (Some ''backend failure'', [])" by simp
  have b: "addEndpointsOfNamespaces ?fail ?ovn ([] @ \<lparr>ns_Name = ''default''\<rparr> # []) []
      = Some (Some ''unable to handle adding endpoints for new node: %s, error: %v'', [])"
    using handleNodePortLB_bootstrap[of exampleConfig ?ovn "[]" ?node ?fail ?fail "[]" "[]" "[]"
            "\<lparr>ns_Name = ''default''\<rparr>" "[]" exampleEndpoints "[]" "[]" "''backend failure''" "[]" "[]"]
          n0 e0 f l
    by blast
  show ?thesis using c p a l b by blast
qed

text \<open>
  The claim as stated fails: with the full-sync controller present and no physical IP on
  the gateway router yet, the bootstrap returns its own error and never calls
  \<^verbatim>\<open>RequestFullSync\<close>.
\<close>

theorem handleNodePortLB_delegation_counterexample:
  "svcController (syncController (None, Some ''no such router''))
   \<and> handleNodePortLB exampleConfig (syncController (None, Some ''no such router''))
        \<lparr>node_Name = ''node1''\<rparr> []
      = Some (Some ''gateway physical IP for node %q does not yet exist'',
              [Op (CallGetGatewayPhysicalIPs ''GR_node1'')])"
  by (simp add: handleNodePortLB_def handleNodePortLBWith_def syncController_def
      exampleConfig_def)

section \<open>Placement of one service port\<close>



lemma extendsWith_fold_mem:
  assumes "\<And>x h. x \<in> set xs \<Longrightarrow> extendsWith Q h (f x h)"
  shows "extendsWith Q h (fold f xs h)"
  using assms
proof (induction xs arbitrary: h)
  case Nil
  show ?case by (simp add: extendsWith_refl)
next
  case (Cons x xs)
  have a: "extendsWith Q h (f x h)" by (rule Cons.prems) simp
  have b: "extendsWith Q (f x h) (fold f xs (f x h))"
    by (rule Cons.IH) (rule Cons.prems, simp)
  show ?case using extendsWith_trans[OF a b] by simp
qed






text \<open>
  The proviso on the external IPs is needed: when an external IP is the cluster address,
  one pass places the VIP (172.30.0.10, 80) on the cluster load balancer (line 116) and
  requests it per node as well (line 125).
\<close>

lemma AddEndpoints_external_IP_is_cluster_address:
  "AddEndpoints exampleConfig (exampleController aliasService (\<lambda>c. False)) exampleEndpoints True []
     = Some (None,
         [Op (CallDeleteServiceFromIdlingBalancer aliasService),
          Op (CallGetLoadBalancer ProtocolTCP),
          Op (CallCreateLoadBalancerVIPs ''cluster-lb'' [''172.30.0.10''] 80 [''10.128.0.5''] 8080),
          Op (CallDeleteNodeVIPs [''172.30.0.10''] ProtocolTCP 80),
          Op (CallCreatePerNodeVIPs [''172.30.0.10''] ProtocolTCP 80 [''10.128.0.5''] 8080)])"
proof -
  let ?ovn = "exampleController aliasService (\<lambda>c. False)"
  let ?m = "emptyProtoPortMap
       (ProtocolTCP := Some [''http'' \<mapsto> \<lparr>lb_IPs = [''10.128.0.5''], lb_Port = 8080\<rparr>])"
  have g: "getLbEndpoints exampleConfig exampleEndpoints [] = Some (?m, [])"
    by (simp add: getLbEndpoints_def getLbEndpointsPort_def exampleEndpoints_def exampleConfig_def
        storeLbEndpoints_def lookupLbEndpoints_def emptyProtoPortMap_def)
  have gs: "GetService ?ovn [] (ep_Namespace exampleEndpoints) (ep_Name exampleEndpoints)
              = Some aliasService"
    by (simp add: exampleController_def exampleEndpoints_def)
  have ic: "IsClusterIPSet exampleConfig aliasService"
    by (simp add: exampleConfig_def exampleService_def aliasService_def)
  have ni: "\<not> svcNeedsIdling exampleConfig (svc_Annotations aliasService)"
    by (simp add: svcNeedsIdling_def exampleService_def aliasService_def)
  have ps: "svc_Ports aliasService = [examplePort]"
    by (simp add: exampleService_def aliasService_def)
  have ne: "Subsets exampleEndpoints \<noteq> []" by (simp add: exampleEndpoints_def)
  have p: "addEndpointsPort exampleConfig ?ovn aliasService True ?m examplePort
             [Op (CallDeleteServiceFromIdlingBalancer aliasService)]
           = [Op (CallDeleteServiceFromIdlingBalancer aliasService),
          Op (CallGetLoadBalancer ProtocolTCP),
          Op (CallCreateLoadBalancerVIPs ''cluster-lb'' [''172.30.0.10''] 80 [''10.128.0.5''] 8080),
          Op (CallDeleteNodeVIPs [''172.30.0.10''] ProtocolTCP 80),
          Op (CallCreatePerNodeVIPs [''172.30.0.10''] ProtocolTCP 80 [''10.128.0.5''] 8080)]"
    by (simp add: addEndpointsPort_def addNodePortVIPs_def addClusterIPBlock_def
        addClusterIPVIP_def addExternalIPVIPs_def callLogged_def doCall_def lookupLbEndpoints_def
        examplePort_def exampleController_def exampleConfig_def exampleService_def
        aliasService_def)
  show ?thesis using p ne by (simp add: AddEndpoints_def gs ic g ni ps)
qed

text \<open>
  C4 (as amended). When the creation of the node-port VIPs fails for a service port, the
  loop body issues that call, logs the failure and does nothing else for the port: no
  cluster-IP placement, no external-IP VIP, no ingress VIP. The loop then goes on with
  the ports that follow, from the trace extended by exactly these two events.
\<close>

theorem nodePort_failure_leaves_port:
  assumes "lookupLbEndpoints m (sp_Protocol svcPort) (sp_Name svcPort) = Some lbEps"
    and "SCTPSupport ovn \<or> sp_Protocol svcPort \<noteq> ProtocolSCTP"
    and "ServiceTypeHasNodePort cfg svc"
    and "nodePort = CallCreatePerNodeVIPs [] (sp_Protocol svcPort) (sp_NodePort svcPort)
                      (lb_IPs lbEps) (lb_Port lbEps)"
    and "callErr ovn h nodePort = Some err"
  shows "addEndpointsPort cfg ovn svc addClusterLBs m svcPort h =
           h @ [Op nodePort,
                LogError ''Error in creating Node Port for svc %s, node port: %d - %v'']
       \<and> (h = fold (addEndpointsPort cfg ovn svc addClusterLBs m) before h0 \<longrightarrow>
            fold (addEndpointsPort cfg ovn svc addClusterLBs m) (before @ svcPort # after) h0 =
              fold (addEndpointsPort cfg ovn svc addClusterLBs m) after
                (h @ [Op nodePort,
                      LogError ''Error in creating Node Port for svc %s, node port: %d - %v'']))"
proof -
  have one: "addEndpointsPort cfg ovn svc addClusterLBs m svcPort h =
           h @ [Op nodePort,
                LogError ''Error in creating Node Port for svc %s, node port: %d - %v'']"
    using assms by (auto simp: addEndpointsPort_def addNodePortVIPs_def doCall_def)
  have "fold (addEndpointsPort cfg ovn svc addClusterLBs m) (before @ svcPort # after) h0 =
              fold (addEndpointsPort cfg ovn svc addClusterLBs m) after
                (h @ [Op nodePort,
                      LogError ''Error in creating Node Port for svc %s, node port: %d - %v''])"
    if hh: "h = fold (addEndpointsPort cfg ovn svc addClusterLBs m) before h0"
  proof -
    have "fold (addEndpointsPort cfg ovn svc addClusterLBs m) (before @ svcPort # after) h0 =
            fold (addEndpointsPort cfg ovn svc addClusterLBs m) after
              (addEndpointsPort cfg ovn svc addClusterLBs m svcPort h)"
      unfolding hh by simp
    then show ?thesis unfolding one .
  qed
  with one show ?thesis by blast
qed

theorem nodePort_failure_leaves_port_witness:
  "ServiceTypeHasNodePort exampleConfig nodePortService
   \<and> callErr (exampleController nodePortService (\<lambda>c. True)) []
        (CallCreatePerNodeVIPs [] ProtocolTCP 30080 [''192.168.1.7''] 8080) = Some ''backend failure''
   \<and> addEndpointsPort exampleConfig (exampleController nodePortService (\<lambda>c. True))
        nodePortService True hostTable examplePort []
      = [Op (CallCreatePerNodeVIPs [] ProtocolTCP 30080 [''192.168.1.7''] 8080),
         LogError ''Error in creating Node Port for svc %s, node port: %d - %v'']
   \<and> fold (addEndpointsPort exampleConfig (exampleController nodePortService (\<lambda>c. True))
              nodePortService True hostTable)
        ([] @ examplePort # [examplePort\<lparr>sp_Name := ''other''\<rparr>]) []
      = fold (addEndpointsPort exampleConfig (exampleController nodePortService (\<lambda>c. True))
                nodePortService True hostTable)
          [examplePort\<lparr>sp_Name := ''other''\<rparr>]
          [Op (CallCreatePerNodeVIPs [] ProtocolTCP 30080 [''192.168.1.7''] 8080),
           LogError ''Error in creating Node Port for svc %s, node port: %d - %v'']"
proof -
  let ?ovn = "exampleController nodePortService (\<lambda>c. True)"
  let ?lbEps = "\<lparr>lb_IPs = [''192.168.1.7''], lb_Port = 8080\<rparr>"
  let ?np = "CallCreatePerNodeVIPs [] ProtocolTCP 30080 [''192.168.1.7''] 8080"
  have l: "lookupLbEndpoints hostTable (sp_Protocol examplePort) (sp_Name examplePort) = Some ?lbEps"
    by (simp add: lookupLbEndpoints_def hostTable_def examplePort_def)
  have s: "SCTPSupport ?ovn \<or> sp_Protocol examplePort \<noteq> ProtocolSCTP"
    by (simp add: examplePort_def)
  have n: "ServiceTypeHasNodePort exampleConfig nodePortService"
    by (simp add: exampleConfig_def nodePortService_def)
  have q: "?np = CallCreatePerNodeVIPs [] (sp_Protocol examplePort) (sp_NodePort examplePort)
                   (lb_IPs ?lbEps) (lb_Port ?lbEps)"
    by (simp add: examplePort_def)
  have e: "callErr ?ovn [] ?np = Some ''backend failure''"
    by (simp add: exampleController_def)
  note t = nodePort_failure_leaves_port[OF l s n q e, of True "[]" "[]"
      "[examplePort\<lparr>sp_Name := ''other''\<rparr>]"]
  show ?thesis using n e t by simp
qed

text \<open>
  The claim as stated fails: for a NodePort service with a cluster IP and an external IP,
  when only the creation of the node-port VIPs fails, the pass issues neither the
  cluster-IP placement nor the external-IP VIP of that port.
\<close>

theorem AddEndpoints_nodePort_counterexample:
  "ServiceTypeHasClusterIP exampleConfig nodePortService
   \<and> svc_ExternalIPs nodePortService = [''1.2.3.4'']
   \<and> AddEndpoints exampleConfig
        (exampleController nodePortService
           (\<lambda>c. c = CallCreatePerNodeVIPs [] ProtocolTCP 30080 [''192.168.1.7''] 8080))
        hostEndpoints True []
      = Some (None,
          [Op (CallDeleteServiceFromIdlingBalancer nodePortService),
           Op (CallCreatePerNodeVIPs [] ProtocolTCP 30080 [''192.168.1.7''] 8080),
           LogError ''Error in creating Node Port for svc %s, node port: %d - %v''])"
proof -
  let ?ovn = "exampleController nodePortService
           (\<lambda>c. c = CallCreatePerNodeVIPs [] ProtocolTCP 30080 [''192.168.1.7''] 8080)"
  have c: "ServiceTypeHasClusterIP exampleConfig nodePortService"
    by (simp add: exampleConfig_def nodePortService_def)
  have x: "svc_ExternalIPs nodePortService = [''1.2.3.4'']"
    by (simp add: nodePortService_def exampleService_def)
  have g: "getLbEndpoints exampleConfig hostEndpoints [] = Some (hostTable, [])"
    by (simp add: getLbEndpoints_def getLbEndpointsPort_def hostEndpoints_def exampleConfig_def
        storeLbEndpoints_def lookupLbEndpoints_def emptyProtoPortMap_def hostTable_def)
  have p: "addEndpointsPort exampleConfig ?ovn nodePortService True hostTable examplePort
             [Op (CallDeleteServiceFromIdlingBalancer nodePortService)]
           = [Op (CallDeleteServiceFromIdlingBalancer nodePortService),
              Op (CallCreatePerNodeVIPs [] ProtocolTCP 30080 [''192.168.1.7''] 8080),
              LogError ''Error in creating Node Port for svc %s, node port: %d - %v'']"
    by (simp add: addEndpointsPort_def addNodePortVIPs_def doCall_def lookupLbEndpoints_def
        hostTable_def examplePort_def exampleController_def exampleConfig_def nodePortService_def)
  have "AddEndpoints exampleConfig ?ovn hostEndpoints True []
          = Some (None, addEndpointsPort exampleConfig ?ovn nodePortService True hostTable examplePort
             [Op (CallDeleteServiceFromIdlingBalancer nodePortService)])"
  proof -
    have gs: "GetService ?ovn [] (ep_Namespace hostEndpoints) (ep_Name hostEndpoints)
                = Some nodePortService"
      by (simp add: exampleController_def hostEndpoints_def)
    have ic: "IsClusterIPSet exampleConfig nodePortService"
      by (simp add: exampleConfig_def exampleService_def nodePortService_def)
    have ni: "\<not> svcNeedsIdling exampleConfig (svc_Annotations nodePortService)"
      by (simp add: svcNeedsIdling_def exampleService_def nodePortService_def)
    have ps: "svc_Ports nodePortService = [examplePort]"
      by (simp add: exampleService_def nodePortService_def)
    show ?thesis by (simp add: AddEndpoints_def gs ic g ni ps)
  qed
  with p c x show ?thesis by simp
qed

section \<open>The delete path\<close>

lemma issued_then_grows:
  "issuedBetween e h h1 \<Longrightarrow> extendsWith Q h1 h2 \<Longrightarrow> issuedBetween e h h2"
  unfolding issuedBetween_def extendsWith_def by auto

lemma grows_then_issued:
  "extendsWith Q h h1 \<Longrightarrow> issuedBetween e h1 h2 \<Longrightarrow> issuedBetween e h h2"
  unfolding issuedBetween_def extendsWith_def by auto

lemma issued_append: "e \<in> set es \<Longrightarrow> issuedBetween e h (h @ es)"
  by (auto simp: issuedBetween_def)

lemma issued_fold:
  assumes x: "x \<in> set xs"
    and issue: "\<And>h. issuedBetween e h (f x h)"
    and grow: "\<And>y h. extendsWith Q h (f y h)"
  shows "issuedBetween e h (fold f xs h)"
  using x
proof (induction xs arbitrary: h)
  case Nil
  then show ?case by simp
next
  case (Cons y ys)
  show ?case
  proof (cases "x = y")
    case True
    have "extendsWith Q (f y h) (fold f ys (f y h))"
      by (rule extendsWith_fold) (rule grow)
    with issue[of h] True show ?thesis by (simp add: issued_then_grows)
  next
    case False
    with Cons.prems have "x \<in> set ys" by simp
    from grows_then_issued[OF grow[of h y] Cons.IH[OF this, of "f y h"]]
    show ?thesis by simp
  qed
qed

lemma grows_clearVIP: "extendsWith (\<lambda>e. True) h (clearVIP ovn lb ip port h)"
  by (simp add: clearVIP_def extendsWith_callLogged)

lemma issued_clearVIP:
  "issuedBetween (Op (CallConfigureLoadBalancer lb ip port [])) h (clearVIP ovn lb ip port h)"
  by (auto simp: clearVIP_def callLogged_def doCall_def issuedBetween_def split: option.splits)

lemma grows_deleteIngressVIP:
  "extendsWith (\<lambda>e. True) h (deleteIngressVIP ovn svcPort gatewayLB workerLB ing h)"
  unfolding deleteIngressVIP_def
  by (auto intro: extendsWith_refl extendsWith_trans[OF grows_clearVIP grows_clearVIP])

lemma grows_deleteNodePortVIP:
  "extendsWith (\<lambda>e. True) h (deleteNodePortVIP ovn svcPort gatewayLB workerLB physicalIP h)"
  unfolding deleteNodePortVIP_def
  by (rule extendsWith_trans[OF grows_clearVIP grows_clearVIP])

lemma grows_deleteExternalIPVIP:
  "extendsWith (\<lambda>e. True) h (deleteExternalIPVIP ovn svcPort gatewayLB workerLB extIP h)"
  unfolding deleteExternalIPVIP_def
  by (rule extendsWith_trans[OF grows_clearVIP grows_clearVIP])

lemma grows_deleteNodePortAndExternal:
  "extendsWith (\<lambda>e. True) h
     (deleteNodePortAndExternal cfg ovn svc svcPort gateway gatewayLB workerLB h)"
proof -
  have ext: "extendsWith (\<lambda>e. True) h0
               (fold (deleteExternalIPVIP ovn svcPort gatewayLB workerLB) (svc_ExternalIPs svc) h0)"
    for h0
    by (rule extendsWith_fold) (rule grows_deleteExternalIPVIP)
  have np: "extendsWith (\<lambda>e. True) h0
               (fold (deleteNodePortVIP ovn svcPort gatewayLB workerLB) ips h0)" for h0 ips
    by (rule extendsWith_fold) (rule grows_deleteNodePortVIP)
  have one: "extendsWith (\<lambda>e. True) h (h @ [Op (CallGetGatewayPhysicalIPs gateway)])"
    by (simp add: extendsWith_append)
  show ?thesis
  proof (cases "ServiceTypeHasNodePort cfg svc")
    case False
    then show ?thesis using ext by (simp add: deleteNodePortAndExternal_def)
  next
    case True
    obtain ips err where g: "getGatewayPhysicalIPs ovn h gateway = (ips, err)"
      by (cases "getGatewayPhysicalIPs ovn h gateway")
    show ?thesis
    proof (cases err)
      case (Some e)
      with True g show ?thesis by (simp add: deleteNodePortAndExternal_def extendsWith_append)
    next
      case None
      with True g show ?thesis
        using extendsWith_trans[OF one extendsWith_trans[OF np ext]]
        by (simp add: deleteNodePortAndExternal_def)
    qed
  qed
qed

lemma grows_deleteEndpointsGateway:
  "extendsWith (\<lambda>e. True) h (deleteEndpointsGateway cfg ovn svc svcPort gateway h)"
proof (cases "getGatewayLoadBalancer ovn h gateway (sp_Protocol svcPort)")
  case (Inl err)
  then show ?thesis by (simp add: deleteEndpointsGateway_def extendsWith_append)
next
  case (Inr gatewayLB)
  let ?Q = "\<lambda>e::event. True"
  let ?h1 = "h @ [Op (CallGetGatewayLoadBalancer gateway (sp_Protocol svcPort))]"
  let ?h2 = "if Gateway_Mode cfg = GatewayModeShared
             then clearVIP ovn gatewayLB (svc_ClusterIP svc) (sp_Port svcPort) ?h1 else ?h1"
  let ?w = "GetWorkerFromGatewayRouter cfg gateway"
  have a: "extendsWith ?Q h ?h1" by (simp add: extendsWith_append)
  have b: "extendsWith ?Q ?h1 ?h2" by (simp add: extendsWith_refl grows_clearVIP)
  have ab: "extendsWith ?Q h ?h2" by (rule extendsWith_trans[OF a b])
  show ?thesis
  proof (cases "GetWorkerLoadBalancer ovn ?h2 ?w (sp_Protocol svcPort)")
    case (Inl err)
    have "extendsWith ?Q ?h2 (?h2 @ [Op (CallGetWorkerLoadBalancer ?w (sp_Protocol svcPort)),
                         LogError ''Worker switch %s does not have load balancer (%v)''])"
      by (rule extendsWith_append) simp
    from extendsWith_trans[OF ab this] Inr Inl show ?thesis
      by (simp add: deleteEndpointsGateway_def Let_def)
  next
    case (Inr workerLB)
    let ?h3 = "?h2 @ [Op (CallGetWorkerLoadBalancer ?w (sp_Protocol svcPort))]"
    let ?h4 = "if Gateway_Mode cfg = GatewayModeShared
               then clearVIP ovn workerLB (svc_ClusterIP svc) (sp_Port svcPort) ?h3 else ?h3"
    let ?h5 = "fold (deleteIngressVIP ovn svcPort gatewayLB workerLB) (svc_Ingress svc) ?h4"
    have c: "extendsWith ?Q ?h2 ?h3" by (rule extendsWith_append) simp
    have d: "extendsWith ?Q ?h3 ?h4" by (simp add: extendsWith_refl grows_clearVIP)
    have e: "extendsWith ?Q ?h4 ?h5"
      by (rule extendsWith_fold) (rule grows_deleteIngressVIP)
    have f: "extendsWith ?Q ?h5
               (deleteNodePortAndExternal cfg ovn svc svcPort gateway gatewayLB workerLB ?h5)"
      by (rule grows_deleteNodePortAndExternal)
    have "extendsWith ?Q h
            (deleteNodePortAndExternal cfg ovn svc svcPort gateway gatewayLB workerLB ?h5)"
      by (rule extendsWith_trans[OF ab extendsWith_trans[OF c extendsWith_trans[OF d
            extendsWith_trans[OF e f]]]])
    then show ?thesis
      using deleteEndpointsGateway_found[OF \<open>getGatewayLoadBalancer ovn h gateway (sp_Protocol svcPort) = Inr gatewayLB\<close>
          refl refl Inr refl refl]
      by simp
  qed
qed

lemma issued_deleteEndpointsGateway:
  assumes mode: "Gateway_Mode cfg = GatewayModeShared"
    and gw: "\<forall>h. getGatewayLoadBalancer ovn h gateway (sp_Protocol svcPort) = Inr gatewayLB"
  shows "issuedBetween (Op (CallConfigureLoadBalancer gatewayLB (svc_ClusterIP svc) (sp_Port svcPort) []))
           h (deleteEndpointsGateway cfg ovn svc svcPort gateway h)"
    and "\<forall>h. GetWorkerLoadBalancer ovn h (GetWorkerFromGatewayRouter cfg gateway) (sp_Protocol svcPort)
               = Inr workerLB
         \<Longrightarrow> issuedBetween (Op (CallConfigureLoadBalancer workerLB (svc_ClusterIP svc) (sp_Port svcPort) []))
               h (deleteEndpointsGateway cfg ovn svc svcPort gateway h)"
proof -
  let ?Q = "\<lambda>e::event. True"
  let ?h1 = "h @ [Op (CallGetGatewayLoadBalancer gateway (sp_Protocol svcPort))]"
  let ?h2 = "clearVIP ovn gatewayLB (svc_ClusterIP svc) (sp_Port svcPort) ?h1"
  let ?w = "GetWorkerFromGatewayRouter cfg gateway"
  let ?gwEv = "Op (CallConfigureLoadBalancer gatewayLB (svc_ClusterIP svc) (sp_Port svcPort) [])"
  have a: "extendsWith ?Q h ?h1" by (simp add: extendsWith_append)
  have gi: "issuedBetween ?gwEv h ?h2"
    by (rule grows_then_issued[OF a issued_clearVIP])
  have rest: "extendsWith ?Q ?h2 (deleteEndpointsGateway cfg ovn svc svcPort gateway h)"
  proof (cases "GetWorkerLoadBalancer ovn ?h2 ?w (sp_Protocol svcPort)")
    case (Inl err)
    then show ?thesis
      using gw mode by (simp add: deleteEndpointsGateway_def Let_def extendsWith_append)
  next
    case (Inr wlb)
    let ?h3 = "?h2 @ [Op (CallGetWorkerLoadBalancer ?w (sp_Protocol svcPort))]"
    let ?h4 = "clearVIP ovn wlb (svc_ClusterIP svc) (sp_Port svcPort) ?h3"
    let ?h5 = "fold (deleteIngressVIP ovn svcPort gatewayLB wlb) (svc_Ingress svc) ?h4"
    have c: "extendsWith ?Q ?h2 ?h3" by (rule extendsWith_append) simp
    have d: "extendsWith ?Q ?h3 ?h4" by (rule grows_clearVIP)
    have e: "extendsWith ?Q ?h4 ?h5"
      by (rule extendsWith_fold) (rule grows_deleteIngressVIP)
    have f: "extendsWith ?Q ?h5
               (deleteNodePortAndExternal cfg ovn svc svcPort gateway gatewayLB wlb ?h5)"
      by (rule grows_deleteNodePortAndExternal)
    have "deleteEndpointsGateway cfg ovn svc svcPort gateway h =
            deleteNodePortAndExternal cfg ovn svc svcPort gateway gatewayLB wlb ?h5"
      using gw mode Inr by (simp add: deleteEndpointsGateway_def Let_def)
    then show ?thesis
      using extendsWith_trans[OF c extendsWith_trans[OF d extendsWith_trans[OF e f]]] by simp
  qed
  show "issuedBetween ?gwEv h (deleteEndpointsGateway cfg ovn svc svcPort gateway h)"
    by (rule issued_then_grows[OF gi rest])
  assume wk: "\<forall>h. GetWorkerLoadBalancer ovn h ?w (sp_Protocol svcPort) = Inr workerLB"
  let ?h3 = "?h2 @ [Op (CallGetWorkerLoadBalancer ?w (sp_Protocol svcPort))]"
  let ?h4 = "clearVIP ovn workerLB (svc_ClusterIP svc) (sp_Port svcPort) ?h3"
  let ?h5 = "fold (deleteIngressVIP ovn svcPort gatewayLB workerLB) (svc_Ingress svc) ?h4"
  let ?wkEv = "Op (CallConfigureLoadBalancer workerLB (svc_ClusterIP svc) (sp_Port svcPort) [])"
  have up: "extendsWith ?Q h ?h3"
    by (rule extendsWith_trans[OF a extendsWith_trans[OF grows_clearVIP]])
       (rule extendsWith_append, simp)
  have wi: "issuedBetween ?wkEv h ?h4"
    by (rule grows_then_issued[OF up issued_clearVIP])
  have e: "extendsWith ?Q ?h4 ?h5"
    by (rule extendsWith_fold) (rule grows_deleteIngressVIP)
  have f: "extendsWith ?Q ?h5
             (deleteNodePortAndExternal cfg ovn svc svcPort gateway gatewayLB workerLB ?h5)"
    by (rule grows_deleteNodePortAndExternal)
  have eq: "deleteEndpointsGateway cfg ovn svc svcPort gateway h =
          deleteNodePortAndExternal cfg ovn svc svcPort gateway gatewayLB workerLB ?h5"
    using gw mode wk by (simp add: deleteEndpointsGateway_def Let_def)
  show "issuedBetween ?wkEv h (deleteEndpointsGateway cfg ovn svc svcPort gateway h)"
    unfolding eq by (rule issued_then_grows[OF wi extendsWith_trans[OF e f]])
qed

lemma grows_deleteEndpointsPort:
  "extendsWith (\<lambda>e. True) h (deleteEndpointsPort cfg ovn svc gateways svcPort h)"
proof (cases "getLoadBalancer ovn h (sp_Protocol svcPort)")
  case (Inl err)
  then show ?thesis by (simp add: deleteEndpointsPort_def extendsWith_append)
next
  case (Inr clusterLB)
  let ?h1 = "h @ [Op (CallGetLoadBalancer (sp_Protocol svcPort))]"
  let ?h2 = "clearVIP ovn clusterLB (svc_ClusterIP svc) (sp_Port svcPort) ?h1"
  have a: "extendsWith (\<lambda>e. True) h ?h1" by (simp add: extendsWith_append)
  have c: "extendsWith (\<lambda>e. True) ?h2 (fold (deleteEndpointsGateway cfg ovn svc svcPort) gateways ?h2)"
    by (rule extendsWith_fold) (rule grows_deleteEndpointsGateway)
  show ?thesis
    using Inr extendsWith_trans[OF a extendsWith_trans[OF grows_clearVIP c]]
    by (simp add: deleteEndpointsPort_def)
qed

lemma issued_deleteEndpointsPort:
  assumes lb: "\<forall>h. getLoadBalancer ovn h (sp_Protocol svcPort) = Inr clusterLB"
  shows "issuedBetween (Op (CallConfigureLoadBalancer clusterLB (svc_ClusterIP svc) (sp_Port svcPort) []))
           h (deleteEndpointsPort cfg ovn svc gateways svcPort h)"
    and "Gateway_Mode cfg = GatewayModeShared \<Longrightarrow> gateway \<in> set gateways
         \<Longrightarrow> \<forall>h. getGatewayLoadBalancer ovn h gateway (sp_Protocol svcPort) = Inr gatewayLB
         \<Longrightarrow> issuedBetween (Op (CallConfigureLoadBalancer gatewayLB (svc_ClusterIP svc) (sp_Port svcPort) []))
               h (deleteEndpointsPort cfg ovn svc gateways svcPort h)"
    and "Gateway_Mode cfg = GatewayModeShared \<Longrightarrow> gateway \<in> set gateways
         \<Longrightarrow> \<forall>h. getGatewayLoadBalancer ovn h gateway (sp_Protocol svcPort) = Inr gatewayLB
         \<Longrightarrow> \<forall>h. GetWorkerLoadBalancer ovn h (GetWorkerFromGatewayRouter cfg gateway)
                    (sp_Protocol svcPort) = Inr workerLB
         \<Longrightarrow> issuedBetween (Op (CallConfigureLoadBalancer workerLB (svc_ClusterIP svc) (sp_Port svcPort) []))
               h (deleteEndpointsPort cfg ovn svc gateways svcPort h)"
proof -
  let ?h1 = "h @ [Op (CallGetLoadBalancer (sp_Protocol svcPort))]"
  let ?h2 = "clearVIP ovn clusterLB (svc_ClusterIP svc) (sp_Port svcPort) ?h1"
  have eq: "deleteEndpointsPort cfg ovn svc gateways svcPort h =
              fold (deleteEndpointsGateway cfg ovn svc svcPort) gateways ?h2"
    using lb by (simp add: deleteEndpointsPort_def)
  have a: "extendsWith (\<lambda>e. True) h ?h1" by (simp add: extendsWith_append)
  have up: "extendsWith (\<lambda>e. True) h ?h2" by (rule extendsWith_trans[OF a grows_clearVIP])
  have c: "extendsWith (\<lambda>e. True) ?h2 (fold (deleteEndpointsGateway cfg ovn svc svcPort) gateways ?h2)"
    by (rule extendsWith_fold) (rule grows_deleteEndpointsGateway)
  show "issuedBetween (Op (CallConfigureLoadBalancer clusterLB (svc_ClusterIP svc) (sp_Port svcPort) []))
           h (deleteEndpointsPort cfg ovn svc gateways svcPort h)"
    unfolding eq by (rule issued_then_grows[OF grows_then_issued[OF a issued_clearVIP] c])
  {
    assume mode: "Gateway_Mode cfg = GatewayModeShared" and g: "gateway \<in> set gateways"
      and gw: "\<forall>h. getGatewayLoadBalancer ovn h gateway (sp_Protocol svcPort) = Inr gatewayLB"
    have "issuedBetween (Op (CallConfigureLoadBalancer gatewayLB (svc_ClusterIP svc) (sp_Port svcPort) []))
            ?h2 (fold (deleteEndpointsGateway cfg ovn svc svcPort) gateways ?h2)"
    proof (rule issued_fold[where f="deleteEndpointsGateway cfg ovn svc svcPort" and x=gateway
            and Q="\<lambda>e. True"])
      show "gateway \<in> set gateways" by (rule g)
      show "issuedBetween (Op (CallConfigureLoadBalancer gatewayLB (svc_ClusterIP svc) (sp_Port svcPort) []))
              h0 (deleteEndpointsGateway cfg ovn svc svcPort gateway h0)" for h0
        by (rule issued_deleteEndpointsGateway(1)[OF mode gw])
      show "extendsWith (\<lambda>e. True) h0 (deleteEndpointsGateway cfg ovn svc svcPort y h0)" for y h0
        by (rule grows_deleteEndpointsGateway)
    qed
    from grows_then_issued[OF up this]
    show "issuedBetween (Op (CallConfigureLoadBalancer gatewayLB (svc_ClusterIP svc) (sp_Port svcPort) []))
               h (deleteEndpointsPort cfg ovn svc gateways svcPort h)"
      unfolding eq .
    assume wk: "\<forall>h. GetWorkerLoadBalancer ovn h (GetWorkerFromGatewayRouter cfg gateway)
                    (sp_Protocol svcPort) = Inr workerLB"
    have "issuedBetween (Op (CallConfigureLoadBalancer workerLB (svc_ClusterIP svc) (sp_Port svcPort) []))
            ?h2 (fold (deleteEndpointsGateway cfg ovn svc svcPort) gateways ?h2)"
    proof (rule issued_fold[where f="deleteEndpointsGateway cfg ovn svc svcPort" and x=gateway
            and Q="\<lambda>e. True"])
      show "gateway \<in> set gateways" by (rule g)
      show "issuedBetween (Op (CallConfigureLoadBalancer workerLB (svc_ClusterIP svc) (sp_Port svcPort) []))
              h0 (deleteEndpointsGateway cfg ovn svc svcPort gateway h0)" for h0
        by (rule issued_deleteEndpointsGateway(2)[OF mode gw wk])
      show "extendsWith (\<lambda>e. True) h0 (deleteEndpointsGateway cfg ovn svc svcPort y h0)" for y h0
        by (rule grows_deleteEndpointsGateway)
    qed
    from grows_then_issued[OF up this]
    show "issuedBetween (Op (CallConfigureLoadBalancer workerLB (svc_ClusterIP svc) (sp_Port svcPort) []))
               h (deleteEndpointsPort cfg ovn svc gateways svcPort h)"
      unfolding eq .
  }
qed

lemma deleteEndpoints_active:
  assumes "GetService ovn h (ep_Namespace ep) (ep_Name ep) = Some svc"
    and "IsClusterIPSet cfg svc"
    and "\<not> svcNeedsIdling cfg (svc_Annotations svc)"
    and "h1 = h @ [Op (CallDeleteServiceFromIdlingBalancer svc)]"
  shows "\<exists>lg. deleteEndpoints cfg ovn ep h =
           (None, fold (deleteEndpointsPort cfg ovn svc (fst (getOvnGateways ovn h1))) (svc_Ports svc)
                    (h1 @ Op CallGetOvnGateways # lg))
           \<and> set lg \<subseteq> {LogError ''%v''}"
proof (cases "getOvnGateways ovn h1")
  case (Pair gateways err)
  show ?thesis
  proof (cases err)
    case None
    with Pair assms show ?thesis
      by (intro exI[of _ "[]"]) (simp add: deleteEndpoints_def Let_def)
  next
    case (Some e)
    with Pair assms show ?thesis
      by (intro exI[of _ "[LogError ''%v'']"]) (simp add: deleteEndpoints_def Let_def)
  qed
qed

text \<open>Outside shared mode the clears at the cluster address stay on the cluster tier,
  when no external, ingress or physical IP is the cluster address.\<close>

lemma quiet_clearVIP:
  "ip' \<noteq> ip \<Longrightarrow> extendsWith (clusterTierOnly ovn ip) h (clearVIP ovn lb ip' port h)"
  by (simp add: clearVIP_def extendsWith_callLogged clusterTierOnly_def)

lemma quiet_event: "\<forall>lb ip' port ts. c \<noteq> CallConfigureLoadBalancer lb ip' port ts
    \<Longrightarrow> extendsWith (clusterTierOnly ovn ip) h (h @ [Op c])"
  by (rule extendsWith_append) (simp add: clusterTierOnly_def)

lemma quiet_failed: "\<forall>lb ip' port ts. c \<noteq> CallConfigureLoadBalancer lb ip' port ts
    \<Longrightarrow> extendsWith (clusterTierOnly ovn ip) h (h @ [Op c, LogError msg])"
  by (rule extendsWith_append) (simp add: clusterTierOnly_def)

lemma quiet_deleteNodePortAndExternal:
  assumes ext: "ip \<notin> set (svc_ExternalIPs svc)"
    and phys: "ServiceTypeHasNodePort cfg svc \<longrightarrow>
                 (\<forall>h' gw ips. fst (getGatewayPhysicalIPs ovn h' gw) = Some ips \<longrightarrow> ip \<notin> set ips)"
  shows "extendsWith (clusterTierOnly ovn ip) h
           (deleteNodePortAndExternal cfg ovn svc svcPort gateway gatewayLB workerLB h)"
proof -
  let ?Q = "clusterTierOnly ovn ip"
  have one: "extendsWith ?Q h0 (deleteExternalIPVIP ovn svcPort gatewayLB workerLB extIP h0)"
    if "extIP \<in> set (svc_ExternalIPs svc)" for extIP h0
  proof -
    from that ext have "extIP \<noteq> ip" by auto
    then show ?thesis
      unfolding deleteExternalIPVIP_def
      by (intro extendsWith_trans[OF quiet_clearVIP quiet_clearVIP])
  qed
  have exts: "extendsWith ?Q h0
               (fold (deleteExternalIPVIP ovn svcPort gatewayLB workerLB) (svc_ExternalIPs svc) h0)"
    for h0
    by (rule extendsWith_fold_mem) (rule one)
  show ?thesis
  proof (cases "ServiceTypeHasNodePort cfg svc")
    case False
    then show ?thesis using exts by (simp add: deleteNodePortAndExternal_def)
  next
    case True
    obtain ips err where g: "getGatewayPhysicalIPs ovn h gateway = (ips, err)"
      by (cases "getGatewayPhysicalIPs ovn h gateway")
    show ?thesis
    proof (cases err)
      case (Some e)
      with True g show ?thesis by (simp add: deleteNodePortAndExternal_def quiet_failed)
    next
      case None
      let ?ips = "case ips of None \<Rightarrow> [] | Some ips \<Rightarrow> ips"
      have notin: "ip \<notin> set ?ips"
      proof (cases ips)
        case None
        then show ?thesis by simp
      next
        case (Some a)
        with g have "fst (getGatewayPhysicalIPs ovn h gateway) = Some a" by simp
        with phys True have "ip \<notin> set a" by blast
        with Some show ?thesis by simp
      qed
      have np1: "extendsWith ?Q h0 (deleteNodePortVIP ovn svcPort gatewayLB workerLB physicalIP h0)"
        if "physicalIP \<in> set ?ips" for physicalIP h0
      proof -
        from that notin have "physicalIP \<noteq> ip" by auto
        then show ?thesis
          unfolding deleteNodePortVIP_def
          by (intro extendsWith_trans[OF quiet_clearVIP quiet_clearVIP])
      qed
      have np: "extendsWith ?Q h0 (fold (deleteNodePortVIP ovn svcPort gatewayLB workerLB) ?ips h0)"
        for h0
        by (rule extendsWith_fold_mem) (rule np1)
      have a: "extendsWith ?Q h (h @ [Op (CallGetGatewayPhysicalIPs gateway)])"
        by (rule quiet_event) simp
      from extendsWith_trans[OF a extendsWith_trans[OF np exts]]
      show ?thesis using True g None by (simp add: deleteNodePortAndExternal_def)
    qed
  qed
qed

lemma quiet_deleteEndpointsGateway:
  assumes mode: "Gateway_Mode cfg \<noteq> GatewayModeShared"
    and ext: "ip \<notin> set (svc_ExternalIPs svc)"
    and ing: "\<forall>ing \<in> set (svc_Ingress svc). ing_IP ing \<noteq> ip"
    and phys: "ServiceTypeHasNodePort cfg svc \<longrightarrow>
                 (\<forall>h' gw ips. fst (getGatewayPhysicalIPs ovn h' gw) = Some ips \<longrightarrow> ip \<notin> set ips)"
  shows "extendsWith (clusterTierOnly ovn ip) h (deleteEndpointsGateway cfg ovn svc svcPort gateway h)"
proof (cases "getGatewayLoadBalancer ovn h gateway (sp_Protocol svcPort)")
  case (Inl err)
  then show ?thesis by (simp add: deleteEndpointsGateway_def quiet_failed)
next
  case (Inr gatewayLB)
  let ?Q = "clusterTierOnly ovn ip"
  let ?h1 = "h @ [Op (CallGetGatewayLoadBalancer gateway (sp_Protocol svcPort))]"
  let ?w = "GetWorkerFromGatewayRouter cfg gateway"
  have a: "extendsWith ?Q h ?h1" by (rule quiet_event) simp
  show ?thesis
  proof (cases "GetWorkerLoadBalancer ovn ?h1 ?w (sp_Protocol svcPort)")
    case (Inl err)
    have "extendsWith ?Q ?h1 (?h1 @ [Op (CallGetWorkerLoadBalancer ?w (sp_Protocol svcPort)),
                         LogError ''Worker switch %s does not have load balancer (%v)''])"
      by (rule quiet_failed) simp
    from extendsWith_trans[OF a this] Inr Inl mode show ?thesis
      by (simp add: deleteEndpointsGateway_def Let_def)
  next
    case (Inr workerLB)
    let ?h3 = "?h1 @ [Op (CallGetWorkerLoadBalancer ?w (sp_Protocol svcPort))]"
    let ?h5 = "fold (deleteIngressVIP ovn svcPort gatewayLB workerLB) (svc_Ingress svc) ?h3"
    have c: "extendsWith ?Q ?h1 ?h3" by (rule quiet_event) simp
    have i1: "extendsWith ?Q h0 (deleteIngressVIP ovn svcPort gatewayLB workerLB x h0)"
      if "x \<in> set (svc_Ingress svc)" for x h0
    proof (cases "ing_IP x = []")
      case True
      then show ?thesis by (simp add: deleteIngressVIP_def extendsWith_refl)
    next
      case False
      from that ing have "ing_IP x \<noteq> ip" by auto
      from extendsWith_trans[OF quiet_clearVIP[OF this] quiet_clearVIP[OF this]] False
      show ?thesis by (simp add: deleteIngressVIP_def)
    qed
    have e: "extendsWith ?Q ?h3 ?h5"
      by (rule extendsWith_fold_mem) (rule i1)
    have f: "extendsWith ?Q ?h5
               (deleteNodePortAndExternal cfg ovn svc svcPort gateway gatewayLB workerLB ?h5)"
      by (rule quiet_deleteNodePortAndExternal[OF ext phys])
    have "deleteEndpointsGateway cfg ovn svc svcPort gateway h =
            deleteNodePortAndExternal cfg ovn svc svcPort gateway gatewayLB workerLB ?h5"
      using \<open>getGatewayLoadBalancer ovn h gateway (sp_Protocol svcPort) = Inr gatewayLB\<close> Inr mode
      by (simp add: deleteEndpointsGateway_def Let_def)
    then show ?thesis
      using extendsWith_trans[OF a extendsWith_trans[OF c extendsWith_trans[OF e f]]] by simp
  qed
qed

lemma quiet_deleteEndpointsPort:
  assumes mode: "Gateway_Mode cfg \<noteq> GatewayModeShared"
    and ext: "ip \<notin> set (svc_ExternalIPs svc)"
    and ing: "\<forall>ing \<in> set (svc_Ingress svc). ing_IP ing \<noteq> ip"
    and phys: "ServiceTypeHasNodePort cfg svc \<longrightarrow>
                 (\<forall>h' gw ips. fst (getGatewayPhysicalIPs ovn h' gw) = Some ips \<longrightarrow> ip \<notin> set ips)"
  shows "extendsWith (clusterTierOnly ovn ip) h (deleteEndpointsPort cfg ovn svc gateways svcPort h)"
proof (cases "getLoadBalancer ovn h (sp_Protocol svcPort)")
  case (Inl err)
  then show ?thesis by (simp add: deleteEndpointsPort_def quiet_failed)
next
  case (Inr clusterLB)
  let ?Q = "clusterTierOnly ovn ip"
  let ?h1 = "h @ [Op (CallGetLoadBalancer (sp_Protocol svcPort))]"
  let ?h2 = "clearVIP ovn clusterLB (svc_ClusterIP svc) (sp_Port svcPort) ?h1"
  have a: "extendsWith ?Q h ?h1" by (rule quiet_event) simp
  have "?Q (Op (CallConfigureLoadBalancer clusterLB (svc_ClusterIP svc) (sp_Port svcPort) []))"
    using Inr unfolding clusterTierOnly_def by blast
  then have b: "extendsWith ?Q ?h1 ?h2"
    unfolding clearVIP_def by (intro extendsWith_callLogged) (simp_all add: clusterTierOnly_def)
  have c: "extendsWith ?Q ?h2 (fold (deleteEndpointsGateway cfg ovn svc svcPort) gateways ?h2)"
    by (rule extendsWith_fold) (rule quiet_deleteEndpointsGateway[OF mode ext ing phys])
  show ?thesis
    using Inr extendsWith_trans[OF a extendsWith_trans[OF b c]]
    by (simp add: deleteEndpointsPort_def)
qed

text \<open>
  C2 (as amended). For a resolved service with a cluster address that does not need
  idling, \<open>deleteEndpoints\<close> returns \<^verbatim>\<open>nil\<close> and, among the events it adds: for each port
  whose cluster load balancer is resolved, the clear of the VIP (cluster address, service
  port) on the cluster load balancer; and, in shared gateway mode, for every gateway
  returned by \<^verbatim>\<open>getOvnGateways\<close> whose gateway load balancer is resolved, the clear of the
  same VIP on that gateway load balancer, and on the worker load balancer of its node when
  that one is resolved too. The clears are issued whatever the outcome of any call.
  In any other gateway mode every clear issued at the cluster address is on a cluster
  load balancer, provided no external IP, ingress IP or (for a NodePort service) gateway
  physical IP is the cluster address itself: those VIPs are cleared per node in every
  mode.
\<close>

theorem deleteEndpoints_clears_cluster_address:
  assumes "GetService ovn h (ep_Namespace ep) (ep_Name ep) = Some svc"
    and "IsClusterIPSet cfg svc"
    and "\<not> svcNeedsIdling cfg (svc_Annotations svc)"
  shows "\<exists>es. deleteEndpoints cfg ovn ep h = (None, h @ es)
           \<and> (svcPort \<in> set (svc_Ports svc)
                \<and> (\<forall>h'. getLoadBalancer ovn h' (sp_Protocol svcPort) = Inr clusterLB)
              \<longrightarrow> Op (CallConfigureLoadBalancer clusterLB (svc_ClusterIP svc) (sp_Port svcPort) [])
                    \<in> set es
                \<and> (Gateway_Mode cfg = GatewayModeShared
                     \<and> gateway \<in> set (fst (getOvnGateways ovn
                                         (h @ [Op (CallDeleteServiceFromIdlingBalancer svc)])))
                     \<and> (\<forall>h'. getGatewayLoadBalancer ovn h' gateway (sp_Protocol svcPort)
                               = Inr gatewayLB)
                   \<longrightarrow> Op (CallConfigureLoadBalancer gatewayLB (svc_ClusterIP svc)
                            (sp_Port svcPort) []) \<in> set es
                     \<and> ((\<forall>h'. GetWorkerLoadBalancer ovn h' (GetWorkerFromGatewayRouter cfg gateway)
                                 (sp_Protocol svcPort) = Inr workerLB)
                        \<longrightarrow> Op (CallConfigureLoadBalancer workerLB (svc_ClusterIP svc)
                                 (sp_Port svcPort) []) \<in> set es)))
           \<and> (Gateway_Mode cfg \<noteq> GatewayModeShared
                \<and> svc_ClusterIP svc \<notin> set (svc_ExternalIPs svc)
                \<and> (\<forall>ing \<in> set (svc_Ingress svc). ing_IP ing \<noteq> svc_ClusterIP svc)
                \<and> (ServiceTypeHasNodePort cfg svc \<longrightarrow>
                     (\<forall>h' gw ips. fst (getGatewayPhysicalIPs ovn h' gw) = Some ips
                         \<longrightarrow> svc_ClusterIP svc \<notin> set ips))
              \<longrightarrow> (\<forall>e \<in> set es. clusterTierOnly ovn (svc_ClusterIP svc) e))"
proof -
  let ?h1 = "h @ [Op (CallDeleteServiceFromIdlingBalancer svc)]"
  let ?gws = "fst (getOvnGateways ovn ?h1)"
  let ?body = "deleteEndpointsPort cfg ovn svc ?gws"
  let ?ip = "svc_ClusterIP svc"
  from deleteEndpoints_active[OF assms(1-3) refl]
  obtain lg where d: "deleteEndpoints cfg ovn ep h =
      (None, fold ?body (svc_Ports svc) (?h1 @ Op CallGetOvnGateways # lg))"
    and lgs: "set lg \<subseteq> {LogError ''%v''}"
    by blast
  let ?h2 = "?h1 @ Op CallGetOvnGateways # lg"
  let ?h' = "fold ?body (svc_Ports svc) ?h2"
  have up: "extendsWith (\<lambda>e. True) h ?h2"
    using extendsWith_append[of "Op (CallDeleteServiceFromIdlingBalancer svc) # Op CallGetOvnGateways # lg"
        "\<lambda>e. True" h]
    by simp
  have grow: "extendsWith (\<lambda>e. True) ?h2 ?h'"
    by (rule extendsWith_fold) (rule grows_deleteEndpointsPort)
  from extendsWith_trans[OF up grow] obtain es where es: "?h' = h @ es"
    unfolding extendsWith_def by blast
  have mem: "e \<in> set es" if "issuedBetween e ?h2 ?h'" for e
    using grows_then_issued[OF up that] es unfolding issuedBetween_def by auto
  have cl: "Op (CallConfigureLoadBalancer clusterLB ?ip (sp_Port svcPort) []) \<in> set es"
    if p: "svcPort \<in> set (svc_Ports svc)"
      and lb: "\<forall>h'. getLoadBalancer ovn h' (sp_Protocol svcPort) = Inr clusterLB"
  proof (rule mem, rule issued_fold[where f="?body" and x=svcPort and Q="\<lambda>e. True"])
    show "svcPort \<in> set (svc_Ports svc)" by (rule p)
    show "issuedBetween (Op (CallConfigureLoadBalancer clusterLB ?ip (sp_Port svcPort) []))
            h0 (?body svcPort h0)" for h0
      by (rule issued_deleteEndpointsPort(1)[OF lb])
    show "extendsWith (\<lambda>e. True) h0 (?body y h0)" for y h0
      by (rule grows_deleteEndpointsPort)
  qed
  have gw: "Op (CallConfigureLoadBalancer gatewayLB ?ip (sp_Port svcPort) []) \<in> set es"
    if p: "svcPort \<in> set (svc_Ports svc)"
      and lb: "\<forall>h'. getLoadBalancer ovn h' (sp_Protocol svcPort) = Inr clusterLB"
      and g: "Gateway_Mode cfg = GatewayModeShared" "gateway \<in> set ?gws"
       "\<forall>h'. getGatewayLoadBalancer ovn h' gateway (sp_Protocol svcPort) = Inr gatewayLB"
  proof (rule mem, rule issued_fold[where f="?body" and x=svcPort and Q="\<lambda>e. True"])
    show "svcPort \<in> set (svc_Ports svc)" by (rule p)
    show "issuedBetween (Op (CallConfigureLoadBalancer gatewayLB ?ip (sp_Port svcPort) []))
            h0 (?body svcPort h0)" for h0
      by (rule issued_deleteEndpointsPort(2)[OF lb g])
    show "extendsWith (\<lambda>e. True) h0 (?body y h0)" for y h0
      by (rule grows_deleteEndpointsPort)
  qed
  have wk: "Op (CallConfigureLoadBalancer workerLB ?ip (sp_Port svcPort) []) \<in> set es"
    if p: "svcPort \<in> set (svc_Ports svc)"
      and lb: "\<forall>h'. getLoadBalancer ovn h' (sp_Protocol svcPort) = Inr clusterLB"
      and g: "Gateway_Mode cfg = GatewayModeShared" "gateway \<in> set ?gws"
       "\<forall>h'. getGatewayLoadBalancer ovn h' gateway (sp_Protocol svcPort) = Inr gatewayLB"
       "\<forall>h'. GetWorkerLoadBalancer ovn h' (GetWorkerFromGatewayRouter cfg gateway)
                             (sp_Protocol svcPort) = Inr workerLB"
  proof (rule mem, rule issued_fold[where f="?body" and x=svcPort and Q="\<lambda>e. True"])
    show "svcPort \<in> set (svc_Ports svc)" by (rule p)
    show "issuedBetween (Op (CallConfigureLoadBalancer workerLB ?ip (sp_Port svcPort) []))
            h0 (?body svcPort h0)" for h0
      by (rule issued_deleteEndpointsPort(3)[OF lb g])
    show "extendsWith (\<lambda>e. True) h0 (?body y h0)" for y h0
      by (rule grows_deleteEndpointsPort)
  qed
  have quiet: "\<forall>e \<in> set es. clusterTierOnly ovn ?ip e"
    if mode: "Gateway_Mode cfg \<noteq> GatewayModeShared"
      and ext: "?ip \<notin> set (svc_ExternalIPs svc)"
      and ing: "\<forall>ing \<in> set (svc_Ingress svc). ing_IP ing \<noteq> ?ip"
      and phys: "ServiceTypeHasNodePort cfg svc \<longrightarrow>
                 (\<forall>h' gw ips. fst (getGatewayPhysicalIPs ovn h' gw) = Some ips \<longrightarrow> ?ip \<notin> set ips)"
  proof -
    have "\<forall>e \<in> set (Op (CallDeleteServiceFromIdlingBalancer svc) # Op CallGetOvnGateways # lg).
            clusterTierOnly ovn ?ip e"
      using lgs by (auto simp: clusterTierOnly_def)
    from extendsWith_append[OF this, of h]
    have q1: "extendsWith (clusterTierOnly ovn ?ip) h ?h2" by simp
    have q2: "extendsWith (clusterTierOnly ovn ?ip) ?h2 ?h'"
      by (rule extendsWith_fold) (rule quiet_deleteEndpointsPort[OF mode ext ing phys])
    from extendsWith_trans[OF q1 q2] es show ?thesis
      unfolding extendsWith_def by auto
  qed
  have "deleteEndpoints cfg ovn ep h = (None, h @ es)" using d es by simp
  with cl gw wk quiet show ?thesis by blast
qed

theorem deleteEndpoints_clears_cluster_address_witness:
  "examplePort \<in> set (svc_Ports exampleService)
   \<and> Gateway_Mode exampleConfig = GatewayModeShared
   \<and> ''GR_node1'' \<in> set (fst (getOvnGateways (exampleController exampleService (\<lambda>c. True))
                                   ([] @ [Op (CallDeleteServiceFromIdlingBalancer exampleService)])))
   \<and> (\<exists>es. deleteEndpoints exampleConfig (exampleController exampleService (\<lambda>c. True))
               exampleEndpoints [] = (None, es)
          \<and> Op (CallConfigureLoadBalancer ''cluster-lb'' ''172.30.0.10'' 80 []) \<in> set es
          \<and> Op (CallConfigureLoadBalancer ''GR_node1-lb'' ''172.30.0.10'' 80 []) \<in> set es
          \<and> Op (CallConfigureLoadBalancer ''node1-lb'' ''172.30.0.10'' 80 []) \<in> set es)
   \<and> Gateway_Mode localConfig \<noteq> GatewayModeShared
   \<and> (\<exists>es. deleteEndpoints localConfig (exampleController exampleService (\<lambda>c. True))
               exampleEndpoints [] = (None, es)
          \<and> list_all (clusterTierOnly (exampleController exampleService (\<lambda>c. True)) ''172.30.0.10'') es)"
proof -
  let ?ovn = "exampleController exampleService (\<lambda>c. True)"
  have gs: "GetService ?ovn [] (ep_Namespace exampleEndpoints) (ep_Name exampleEndpoints)
              = Some exampleService"
    by (simp add: exampleController_def exampleEndpoints_def)
  have ic: "IsClusterIPSet exampleConfig exampleService"
    by (simp add: exampleConfig_def exampleService_def)
  have ni: "\<not> svcNeedsIdling exampleConfig (svc_Annotations exampleService)"
    by (simp add: svcNeedsIdling_def exampleService_def)
  have icl: "IsClusterIPSet localConfig exampleService"
    by (simp add: localConfig_def exampleConfig_def exampleService_def)
  have nil: "\<not> svcNeedsIdling localConfig (svc_Annotations exampleService)"
    by (simp add: svcNeedsIdling_def exampleService_def)
  have pm: "examplePort \<in> set (svc_Ports exampleService)" by (simp add: exampleService_def)
  have lb: "\<forall>h'. getLoadBalancer ?ovn h' (sp_Protocol examplePort) = Inr ''cluster-lb''"
    by (simp add: exampleController_def)
  have sh: "Gateway_Mode exampleConfig = GatewayModeShared" by (simp add: exampleConfig_def)
  have lo: "Gateway_Mode localConfig \<noteq> GatewayModeShared" by (simp add: localConfig_def)
  have g: "''GR_node1'' \<in> set (fst (getOvnGateways ?ovn
                                ([] @ [Op (CallDeleteServiceFromIdlingBalancer exampleService)])))"
    by (simp add: exampleController_def)
  have gl: "\<forall>h'. getGatewayLoadBalancer ?ovn h' ''GR_node1'' (sp_Protocol examplePort)
                   = Inr ''GR_node1-lb''"
    by (simp add: exampleController_def)
  have wl: "\<forall>h'. GetWorkerLoadBalancer ?ovn h' (GetWorkerFromGatewayRouter exampleConfig ''GR_node1'')
                    (sp_Protocol examplePort) = Inr ''node1-lb''"
    by (simp add: exampleController_def exampleConfig_def)
  have v: "svc_ClusterIP exampleService = ''172.30.0.10''" "sp_Port examplePort = 80"
    by (simp_all add: exampleService_def examplePort_def)
  have x: "svc_ClusterIP exampleService \<notin> set (svc_ExternalIPs exampleService)"
    by (simp add: exampleService_def)
  have i: "\<forall>ing \<in> set (svc_Ingress exampleService). ing_IP ing \<noteq> svc_ClusterIP exampleService"
    by (simp add: exampleService_def)
  have np: "\<not> ServiceTypeHasNodePort localConfig exampleService"
    by (simp add: localConfig_def exampleConfig_def exampleService_def)
  from deleteEndpoints_clears_cluster_address[OF gs ic ni,
      of examplePort "''cluster-lb''" "''GR_node1''" "''GR_node1-lb''" "''node1-lb''"]
  obtain es where es: "deleteEndpoints exampleConfig ?ovn exampleEndpoints [] = (None, [] @ es)"
      "Op (CallConfigureLoadBalancer ''cluster-lb'' (svc_ClusterIP exampleService)
             (sp_Port examplePort) []) \<in> set es"
      "Op (CallConfigureLoadBalancer ''GR_node1-lb'' (svc_ClusterIP exampleService)
             (sp_Port examplePort) []) \<in> set es"
      "Op (CallConfigureLoadBalancer ''node1-lb'' (svc_ClusterIP exampleService)
             (sp_Port examplePort) []) \<in> set es"
    using pm lb sh g gl wl by blast
  from deleteEndpoints_clears_cluster_address[OF gs icl nil,
      of examplePort "''cluster-lb''" "''GR_node1''" "''GR_node1-lb''" "''node1-lb''"]
  obtain es' where es': "deleteEndpoints localConfig ?ovn exampleEndpoints [] = (None, [] @ es')"
      "\<forall>e \<in> set es'. clusterTierOnly ?ovn (svc_ClusterIP exampleService) e"
    using lo x i np by blast
  have a: "\<exists>es. deleteEndpoints exampleConfig ?ovn exampleEndpoints [] = (None, es)
          \<and> Op (CallConfigureLoadBalancer ''cluster-lb'' ''172.30.0.10'' 80 []) \<in> set es
          \<and> Op (CallConfigureLoadBalancer ''GR_node1-lb'' ''172.30.0.10'' 80 []) \<in> set es
          \<and> Op (CallConfigureLoadBalancer ''node1-lb'' ''172.30.0.10'' 80 []) \<in> set es"
    using es unfolding v by auto
  have b: "\<exists>es. deleteEndpoints localConfig ?ovn exampleEndpoints [] = (None, es)
          \<and> list_all (clusterTierOnly ?ovn ''172.30.0.10'') es"
    using es' unfolding v by (auto simp: list_all_iff)
  show ?thesis using pm sh g lo a b by blast
qed

text \<open>
  The claim as stated fails: in local gateway mode the pass clears the cluster address on
  the cluster load balancer only; no clear of (172.30.0.10, 80) is issued on the gateway
  or the worker load balancer of the node, although both are resolved.
\<close>

theorem deleteEndpoints_local_mode_counterexample:
  "Gateway_Mode localConfig = GatewayModeLocal
   \<and> deleteEndpoints localConfig (exampleController exampleService (\<lambda>c. False)) exampleEndpoints []
      = (None,
         [Op (CallDeleteServiceFromIdlingBalancer exampleService),
          Op CallGetOvnGateways,
          Op (CallGetLoadBalancer ProtocolTCP),
          Op (CallConfigureLoadBalancer ''cluster-lb'' ''172.30.0.10'' 80 []),
          Op (CallGetGatewayLoadBalancer ''GR_node1'' ProtocolTCP),
          Op (CallGetWorkerLoadBalancer ''node1'' ProtocolTCP),
          Op (CallConfigureLoadBalancer ''GR_node1-lb'' ''1.2.3.4'' 80 []),
          Op (CallConfigureLoadBalancer ''node1-lb'' ''1.2.3.4'' 30080 [])])"
proof -
  let ?ovn = "exampleController exampleService (\<lambda>c. False)"
  let ?h2 = "[Op (CallDeleteServiceFromIdlingBalancer exampleService), Op CallGetOvnGateways]"
  have m: "Gateway_Mode localConfig = GatewayModeLocal"
    by (simp add: localConfig_def)
  have gs: "GetService ?ovn [] (ep_Namespace exampleEndpoints) (ep_Name exampleEndpoints)
              = Some exampleService"
    by (simp add: exampleController_def exampleEndpoints_def)
  have ic: "IsClusterIPSet localConfig exampleService"
    by (simp add: localConfig_def exampleConfig_def exampleService_def)
  have ni: "\<not> svcNeedsIdling localConfig (svc_Annotations exampleService)"
    by (simp add: svcNeedsIdling_def exampleService_def)
  have ps: "svc_Ports exampleService = [examplePort]" by (simp add: exampleService_def)
  have gws: "getOvnGateways ?ovn h = ([''GR_node1''], None)" for h
    by (simp add: exampleController_def)
  have d: "deleteEndpoints localConfig ?ovn exampleEndpoints []
             = (None, deleteEndpointsPort localConfig ?ovn exampleService [''GR_node1''] examplePort ?h2)"
    by (simp add: deleteEndpoints_def gs ic ni ps gws)
  have p: "deleteEndpointsPort localConfig ?ovn exampleService [''GR_node1''] examplePort ?h2
         = [Op (CallDeleteServiceFromIdlingBalancer exampleService),
          Op CallGetOvnGateways,
          Op (CallGetLoadBalancer ProtocolTCP),
          Op (CallConfigureLoadBalancer ''cluster-lb'' ''172.30.0.10'' 80 []),
          Op (CallGetGatewayLoadBalancer ''GR_node1'' ProtocolTCP),
          Op (CallGetWorkerLoadBalancer ''node1'' ProtocolTCP),
          Op (CallConfigureLoadBalancer ''GR_node1-lb'' ''1.2.3.4'' 80 []),
          Op (CallConfigureLoadBalancer ''node1-lb'' ''1.2.3.4'' 30080 [])]"
    by (simp add: deleteEndpointsPort_def deleteEndpointsGateway_def deleteNodePortAndExternal_def
        deleteExternalIPVIP_def clearVIP_def callLogged_def doCall_def Let_def
        exampleController_def localConfig_def exampleConfig_def exampleService_def examplePort_def)
  show ?thesis using m d p by simp
qed

text \<open>
  The proviso on the external IPs is needed: line 286 has no check of the gateway mode, so
  in local mode a service whose external IP is its cluster address has the VIP
  (172.30.0.10, 80) cleared on the gateway load balancer.
\<close>

lemma deleteEndpoints_external_IP_is_cluster_address:
  "deleteEndpoints localConfig (exampleController aliasService (\<lambda>c. False)) exampleEndpoints []
      = (None,
         [Op (CallDeleteServiceFromIdlingBalancer aliasService),
          Op CallGetOvnGateways,
          Op (CallGetLoadBalancer ProtocolTCP),
          Op (CallConfigureLoadBalancer ''cluster-lb'' ''172.30.0.10'' 80 []),
          Op (CallGetGatewayLoadBalancer ''GR_node1'' ProtocolTCP),
          Op (CallGetWorkerLoadBalancer ''node1'' ProtocolTCP),
          Op (CallConfigureLoadBalancer ''GR_node1-lb'' ''172.30.0.10'' 80 []),
          Op (CallConfigureLoadBalancer ''node1-lb'' ''172.30.0.10'' 30080 [])])"
proof -
  let ?ovn = "exampleController aliasService (\<lambda>c. False)"
  let ?h2 = "[Op (CallDeleteServiceFromIdlingBalancer aliasService), Op CallGetOvnGateways]"
  have gs: "GetService ?ovn [] (ep_Namespace exampleEndpoints) (ep_Name exampleEndpoints)
              = Some aliasService"
    by (simp add: exampleController_def exampleEndpoints_def)
  have ic: "IsClusterIPSet localConfig aliasService"
    by (simp add: localConfig_def exampleConfig_def exampleService_def aliasService_def)
  have ni: "\<not> svcNeedsIdling localConfig (svc_Annotations aliasService)"
    by (simp add: svcNeedsIdling_def exampleService_def aliasService_def)
  have ps: "svc_Ports aliasService = [examplePort]"
    by (simp add: exampleService_def aliasService_def)
  have gws: "getOvnGateways ?ovn h = ([''GR_node1''], None)" for h
    by (simp add: exampleController_def)
  have d: "deleteEndpoints localConfig ?ovn exampleEndpoints []
             = (None, deleteEndpointsPort localConfig ?ovn aliasService [''GR_node1''] examplePort ?h2)"
    by (simp add: deleteEndpoints_def gs ic ni ps gws)
  have p: "deleteEndpointsPort localConfig ?ovn aliasService [''GR_node1''] examplePort ?h2
         = [Op (CallDeleteServiceFromIdlingBalancer aliasService),
          Op CallGetOvnGateways,
          Op (CallGetLoadBalancer ProtocolTCP),
          Op (CallConfigureLoadBalancer ''cluster-lb'' ''172.30.0.10'' 80 []),
          Op (CallGetGatewayLoadBalancer ''GR_node1'' ProtocolTCP),
          Op (CallGetWorkerLoadBalancer ''node1'' ProtocolTCP),
          Op (CallConfigureLoadBalancer ''GR_node1-lb'' ''172.30.0.10'' 80 []),
          Op (CallConfigureLoadBalancer ''node1-lb'' ''172.30.0.10'' 30080 [])]"
    by (simp add: deleteEndpointsPort_def deleteEndpointsGateway_def deleteNodePortAndExternal_def
        deleteExternalIPVIP_def clearVIP_def callLogged_def doCall_def Let_def
        exampleController_def localConfig_def exampleConfig_def exampleService_def
        aliasService_def examplePort_def)
  show ?thesis using d p by simp
qed

section \<open>External IPs on the delete path\<close>

text \<open>
  C3. The claim is that \<open>deleteEndpoints\<close> clears the VIP (external IP, service port) on the
  gateway and on the worker load balancer of every node. The code of lines 286 and 290
  clears (external IP, service port) on the gateway load balancer and
  (external IP, node port) on the worker load balancer. Run on the NodePort service of the
  small cluster (port 80, node port 30080, external IP 1.2.3.4), with every call
  succeeding: the worker load balancer is cleared at port 30080 and never at port 80.
\<close>

theorem deleteEndpoints_externalIP_worker_port:
  "deleteEndpoints exampleConfig (exampleController nodePortService (\<lambda>c. False)) exampleEndpoints []
     = (None,
        [Op (CallDeleteServiceFromIdlingBalancer nodePortService),
         Op CallGetOvnGateways,
         Op (CallGetLoadBalancer ProtocolTCP),
         Op (CallConfigureLoadBalancer ''cluster-lb'' ''172.30.0.10'' 80 []),
         Op (CallGetGatewayLoadBalancer ''GR_node1'' ProtocolTCP),
         Op (CallConfigureLoadBalancer ''GR_node1-lb'' ''172.30.0.10'' 80 []),
         Op (CallGetWorkerLoadBalancer ''node1'' ProtocolTCP),
         Op (CallConfigureLoadBalancer ''node1-lb'' ''172.30.0.10'' 80 []),
         Op (CallGetGatewayPhysicalIPs ''GR_node1''),
         Op (CallConfigureLoadBalancer ''GR_node1-lb'' ''192.168.1.7'' 30080 []),
         Op (CallConfigureLoadBalancer ''node1-lb'' ''192.168.1.7'' 30080 []),
         Op (CallConfigureLoadBalancer ''GR_node1-lb'' ''1.2.3.4'' 80 []),
         Op (CallConfigureLoadBalancer ''node1-lb'' ''1.2.3.4'' 30080 [])])
   \<and> Op (CallConfigureLoadBalancer ''node1-lb'' ''1.2.3.4'' 80 [])
       \<notin> set (snd (deleteEndpoints exampleConfig (exampleController nodePortService (\<lambda>c. False))
                      exampleEndpoints []))"
proof -
  let ?ovn = "exampleController nodePortService (\<lambda>c. False)"
  let ?h2 = "[Op (CallDeleteServiceFromIdlingBalancer nodePortService), Op CallGetOvnGateways]"
  have gs: "GetService ?ovn [] (ep_Namespace exampleEndpoints) (ep_Name exampleEndpoints)
              = Some nodePortService"
    by (simp add: exampleController_def exampleEndpoints_def)
  have ic: "IsClusterIPSet exampleConfig nodePortService"
    by (simp add: exampleConfig_def exampleService_def nodePortService_def)
  have ni: "\<not> svcNeedsIdling exampleConfig (svc_Annotations nodePortService)"
    by (simp add: svcNeedsIdling_def exampleService_def nodePortService_def)
  have ps: "svc_Ports nodePortService = [examplePort]"
    by (simp add: exampleService_def nodePortService_def)
  have gws: "getOvnGateways ?ovn h = ([''GR_node1''], None)" for h
    by (simp add: exampleController_def)
  have d: "deleteEndpoints exampleConfig ?ovn exampleEndpoints []
             = (None, deleteEndpointsPort exampleConfig ?ovn nodePortService [''GR_node1''] examplePort ?h2)"
    by (simp add: deleteEndpoints_def gs ic ni ps gws)
  have p: "deleteEndpointsPort exampleConfig ?ovn nodePortService [''GR_node1''] examplePort ?h2
         = [Op (CallDeleteServiceFromIdlingBalancer nodePortService),
         Op CallGetOvnGateways,
         Op (CallGetLoadBalancer ProtocolTCP),
         Op (CallConfigureLoadBalancer ''cluster-lb'' ''172.30.0.10'' 80 []),
         Op (CallGetGatewayLoadBalancer ''GR_node1'' ProtocolTCP),
         Op (CallConfigureLoadBalancer ''GR_node1-lb'' ''172.30.0.10'' 80 []),
         Op (CallGetWorkerLoadBalancer ''node1'' ProtocolTCP),
         Op (CallConfigureLoadBalancer ''node1-lb'' ''172.30.0.10'' 80 []),
         Op (CallGetGatewayPhysicalIPs ''GR_node1''),
         Op (CallConfigureLoadBalancer ''GR_node1-lb'' ''192.168.1.7'' 30080 []),
         Op (CallConfigureLoadBalancer ''node1-lb'' ''192.168.1.7'' 30080 []),
         Op (CallConfigureLoadBalancer ''GR_node1-lb'' ''1.2.3.4'' 80 []),
         Op (CallConfigureLoadBalancer ''node1-lb'' ''1.2.3.4'' 30080 [])]"
    by (simp add: deleteEndpointsPort_def deleteEndpointsGateway_def deleteNodePortAndExternal_def
        deleteExternalIPVIP_def deleteNodePortVIP_def clearVIP_def callLogged_def doCall_def Let_def
        exampleController_def exampleConfig_def exampleService_def nodePortService_def
        examplePort_def)
  have n: "Op (CallConfigureLoadBalancer ''node1-lb'' ''1.2.3.4'' 80 [])
             \<notin> set (deleteEndpointsPort exampleConfig ?ovn nodePortService [''GR_node1''] examplePort ?h2)"
    unfolding p by simp
  show ?thesis using d p n by simp
qed

end
